theory Spec2Isabelle
  imports Complex_Main "HOL-Library.Log_Nat"
begin

section \<open>Python numbers\<close>

text \<open>
  The program computes with Python \<open>float\<close>s (IEEE 754 binary64, round to nearest, ties to
  even) and \<open>int\<close>s (unbounded). A float is modelled by the rational number it denotes, or
  one of the three special values. The two zeros \<open>0.0\<close> and \<open>-0.0\<close> are one value here, as
  they are for Python's \<open>==\<close>: the program never observes the sign of a zero, since dividing
  by either raises.
\<close>

datatype pyfloat = Finite rat | PosInf | NegInf | NaN

datatype py_error = ZeroDivisionError | OverflowError

definition py_bind :: "py_error + 'a \<Rightarrow> ('a \<Rightarrow> py_error + 'b) \<Rightarrow> py_error + 'b" where
  "py_bind m f = (case m of Inl e \<Rightarrow> Inl e | Inr v \<Rightarrow> f v)"

subsection \<open>Rounding to binary64\<close>

text \<open>Nearest integer, a tie going to the even neighbour.\<close>

definition round_half_even :: "rat \<Rightarrow> int" where
  "round_half_even y =
     (let f = \<lfloor>y\<rfloor>; d = y - of_int f
      in if d < 1 / 2 then f
         else if 1 / 2 < d then f + 1
         else if even f then f else f + 1)"

text \<open>The binary exponent \<open>e\<close> of a positive rational: \<open>2^e \<le> x < 2^(e+1)\<close>.\<close>

definition floor_log2 :: "rat \<Rightarrow> int" where
  "floor_log2 x =
     (case quotient_of x of (p, q) \<Rightarrow>
        (let e0 = bitlen p - bitlen q
         in if 2 powi e0 \<le> x then e0 else e0 - 1))"

text \<open>
  The spacing of the doubles around \<open>x\<close>: 53 significant bits in the binade of \<open>x\<close>, and
  \<open>2^-1074\<close> throughout the subnormal range (below \<open>2^-1022\<close>).
\<close>

definition quantum :: "rat \<Rightarrow> rat" where
  "quantum x = 2 powi (max (floor_log2 \<bar>x\<bar>) (- 1022) - 52)"

text \<open>
  The double nearest to a rational. A result of magnitude \<open>2^1024\<close> or more (after rounding)
  overflows to an infinity.
\<close>

definition round_double :: "rat \<Rightarrow> pyfloat" where
  "round_double x =
     (if x = 0 then Finite 0
      else
        (let q = quantum x;
             y = of_int (round_half_even (x / q)) * q
         in if 2 ^ 1024 \<le> \<bar>y\<bar> then (if 0 < x then PosInf else NegInf)
            else Finite y))"

text \<open>A float literal of the source text denotes the double nearest to its decimal value.\<close>

definition py_float :: "rat \<Rightarrow> pyfloat" where
  "py_float x = round_double x"

subsection \<open>Arithmetic\<close>

text \<open>
  \<open>float + float\<close>, \<open>float - float\<close> and \<open>float * float\<close> never raise: they follow IEEE 754,
  with infinities and NaN as results.
\<close>

fun float_add :: "pyfloat \<Rightarrow> pyfloat \<Rightarrow> pyfloat" where
  "float_add (Finite x) (Finite y) = round_double (x + y)"
| "float_add NaN _ = NaN"
| "float_add _ NaN = NaN"
| "float_add PosInf NegInf = NaN"
| "float_add NegInf PosInf = NaN"
| "float_add PosInf _ = PosInf"
| "float_add NegInf _ = NegInf"
| "float_add (Finite x) PosInf = PosInf"
| "float_add (Finite x) NegInf = NegInf"

fun float_sub :: "pyfloat \<Rightarrow> pyfloat \<Rightarrow> pyfloat" where
  "float_sub (Finite x) (Finite y) = round_double (x - y)"
| "float_sub NaN _ = NaN"
| "float_sub _ NaN = NaN"
| "float_sub PosInf PosInf = NaN"
| "float_sub NegInf NegInf = NaN"
| "float_sub PosInf _ = PosInf"
| "float_sub NegInf _ = NegInf"
| "float_sub (Finite x) PosInf = NegInf"
| "float_sub (Finite x) NegInf = PosInf"

text \<open>The sign of a float as \<open>-1\<close>, \<open>0\<close> or \<open>1\<close> (NaN has none).\<close>

fun float_sgn :: "pyfloat \<Rightarrow> int" where
  "float_sgn (Finite x) = (if x < 0 then - 1 else if x = 0 then 0 else 1)"
| "float_sgn PosInf = 1"
| "float_sgn NegInf = - 1"
| "float_sgn NaN = 0"

definition signed_inf :: "int \<Rightarrow> pyfloat" where
  "signed_inf s = (if s = 0 then NaN else if 0 < s then PosInf else NegInf)"

fun float_mul :: "pyfloat \<Rightarrow> pyfloat \<Rightarrow> pyfloat" where
  "float_mul (Finite x) (Finite y) = round_double (x * y)"
| "float_mul NaN _ = NaN"
| "float_mul _ NaN = NaN"
| "float_mul PosInf b = signed_inf (float_sgn b)"
| "float_mul NegInf b = signed_inf (- float_sgn b)"
| "float_mul (Finite x) PosInf = signed_inf (float_sgn (Finite x))"
| "float_mul (Finite x) NegInf = signed_inf (- float_sgn (Finite x))"

text \<open>
  \<open>float / float\<close> raises \<open>ZeroDivisionError\<close> when the divisor compares equal to zero, and
  follows IEEE 754 otherwise.
\<close>

fun float_truediv :: "pyfloat \<Rightarrow> pyfloat \<Rightarrow> py_error + pyfloat" where
  "float_truediv a (Finite y) =
     (if y = 0 then Inl ZeroDivisionError
      else case a of
        Finite x \<Rightarrow> Inr (round_double (x / y))
      | NaN \<Rightarrow> Inr NaN
      | _ \<Rightarrow> Inr (signed_inf (float_sgn a * float_sgn (Finite y))))"
| "float_truediv a NaN = Inr NaN"
| "float_truediv (Finite x) _ = Inr (Finite 0)"
| "float_truediv _ _ = Inr NaN"

text \<open>
  An \<open>int\<close> operand of a mixed operation is first converted to the nearest double; an
  \<open>int\<close> too large for a double raises \<open>OverflowError\<close>.
\<close>

definition float_of_int :: "int \<Rightarrow> py_error + pyfloat" where
  "float_of_int i =
     (case round_double (of_int i) of
        Finite y \<Rightarrow> Inr (Finite y)
      | _ \<Rightarrow> Inl OverflowError)"

definition float_mul_int :: "pyfloat \<Rightarrow> int \<Rightarrow> py_error + pyfloat" where
  "float_mul_int a i = py_bind (float_of_int i) (\<lambda>b. Inr (float_mul a b))"

definition float_truediv_int :: "pyfloat \<Rightarrow> int \<Rightarrow> py_error + pyfloat" where
  "float_truediv_int a i = py_bind (float_of_int i) (\<lambda>b. float_truediv a b)"

text \<open>\<open>int / int\<close> is the correctly rounded quotient.\<close>

definition int_truediv :: "int \<Rightarrow> int \<Rightarrow> py_error + pyfloat" where
  "int_truediv a b =
     (if b = 0 then Inl ZeroDivisionError
      else case round_double (of_int a / of_int b) of
        Finite y \<Rightarrow> Inr (Finite y)
      | _ \<Rightarrow> Inl OverflowError)"

text \<open>Finite values, as opposed to the infinities and NaN.\<close>

fun is_finite :: "pyfloat \<Rightarrow> bool" where
  "is_finite (Finite x) = True"
| "is_finite _ = False"

text \<open>An \<open>int\<close> that converts to a double without \<open>OverflowError\<close>.\<close>

definition int_fits :: "int \<Rightarrow> bool" where
  "int_fits i = is_finite (round_double (of_int i))"

text \<open>
  A value of the type \<open>float\<close>: a finite one is a fixed point of the rounding, which is to
  say a binary64 number.
\<close>

definition is_double :: "pyfloat \<Rightarrow> bool" where
  "is_double v = (case v of Finite x \<Rightarrow> round_double x = Finite x | _ \<Rightarrow> True)"

text \<open>
  The multiples of the smallest positive double, \<open>2^-1074\<close>: every finite double is one.
\<close>

definition on_grid :: "rat \<Rightarrow> bool" where
  "on_grid x = (\<exists>k::int. x = of_int k * 2 powi (- 1074))"

section \<open>The configuration and the result\<close>

text \<open>The dataclass \<open>Config\<close>, field by field, with the declared types.\<close>

record Config =
  catches_per_hour :: pyfloat
  treasure_rate :: pyfloat
  treasure_types :: int
  fish_rate_cod :: pyfloat
  fish_rate_salmon :: pyfloat
  fish_rate_puffer :: pyfloat
  fish_rate_tropical :: pyfloat
  fish_price_cod :: int
  fish_price_salmon :: int
  fish_price_puffer :: int
  fish_price_tropical :: int
  book_mending_rate :: pyfloat
  book_mending_single_rate :: pyfloat
  book_mending_multi_rate :: pyfloat
  book_smite_only_rate :: pyfloat
  book_bane_only_rate :: pyfloat
  book_unb3_only_rate :: pyfloat
  avg_enchants_per_book :: pyfloat
  avg_xp_per_enchant :: pyfloat
  avg_xp_per_catch :: pyfloat
  xp_cash_numer :: pyfloat
  xp_cash_denom :: pyfloat
  avg_enchants_per_tool :: pyfloat
  price_mending_single :: int
  price_mending_multi :: int
  price_smite_only :: int
  price_bane_only :: int
  price_unb3_only :: int

text \<open>The defaults of the dataclass.\<close>

definition default_config :: Config where
  "default_config =
     \<lparr> catches_per_hour = py_float 500,
       treasure_rate = py_float (113 / 1000),
       treasure_types = 6,
       fish_rate_cod = py_float (60 / 100),
       fish_rate_salmon = py_float (25 / 100),
       fish_rate_puffer = py_float (13 / 100),
       fish_rate_tropical = py_float (2 / 100),
       fish_price_cod = 20,
       fish_price_salmon = 80,
       fish_price_puffer = 180,
       fish_price_tropical = 400,
       book_mending_rate = py_float (377 / 10000),
       book_mending_single_rate = py_float (409 / 1000),
       book_mending_multi_rate = py_float (591 / 1000),
       book_smite_only_rate = py_float (74 / 10000),
       book_bane_only_rate = py_float (49 / 10000),
       book_unb3_only_rate = py_float (143 / 10000),
       avg_enchants_per_book = py_float (211 / 100),
       avg_xp_per_enchant = py_float 25,
       avg_xp_per_catch = py_float (35 / 10),
       xp_cash_numer = py_float 40,
       xp_cash_denom = py_float 12,
       avg_enchants_per_tool = py_float 3,
       price_mending_single = 220000,
       price_mending_multi = 120000,
       price_smite_only = 15000,
       price_bane_only = 15000,
       price_unb3_only = 5000 \<rparr>"

text \<open>
  The dictionary that \<open>compute_income\<close> returns has a fixed set of 24 string keys; it is
  modelled as a record with one field per key, in the order of the dictionary display.
\<close>

record Result =
  treasures_per_hour :: pyfloat
  books_per_hour :: pyfloat
  mending_books_per_hour :: pyfloat
  mending_single_books :: pyfloat
  mending_multi_books :: pyfloat
  sellable_non_mending_books :: pyfloat
  grind_books :: pyfloat
  tools_per_hour :: pyfloat
  fish_per_hour :: pyfloat
  cod :: pyfloat
  salmon :: pyfloat
  puffer :: pyfloat
  tropical :: pyfloat
  revenue_fish :: pyfloat
  yen_from_fishing :: pyfloat
  revenue_mending :: pyfloat
  revenue_non_mending :: pyfloat
  yen_from_books :: pyfloat
  yen_from_tools :: pyfloat
  total_yen_per_hour :: pyfloat
  yen_per_xp :: pyfloat
  xp_from_fishing :: pyfloat
  xp_from_books :: pyfloat
  xp_from_tools :: pyfloat

text \<open>All \<open>int\<close> fields of a configuration convert to doubles.\<close>

definition ints_fit :: "Config \<Rightarrow> bool" where
  "ints_fit cfg =
     (int_fits (treasure_types cfg)
      \<and> int_fits (price_mending_single cfg) \<and> int_fits (price_mending_multi cfg)
      \<and> int_fits (price_smite_only cfg) \<and> int_fits (price_bane_only cfg)
      \<and> int_fits (price_unb3_only cfg)
      \<and> int_fits (fish_price_cod cfg) \<and> int_fits (fish_price_salmon cfg)
      \<and> int_fits (fish_price_puffer cfg) \<and> int_fits (fish_price_tropical cfg))"

section \<open>The income estimator\<close>

text \<open>
  \<open>compute_income\<close>, statement by statement. Every operation that can raise is a
  \<open>py_bind\<close>, in the order in which Python evaluates them; the bound variables carry the
  names of the source's locals (\<open>rm_single\<close>, \<open>rn_smite\<close>, \<open>two_per_type\<close>, \<open>rf_cod\<close> and
  their like name subexpressions the source leaves unnamed).
\<close>

definition compute_income :: "Config \<Rightarrow> py_error + Result" where
  "compute_income cfg =
     py_bind (float_truediv (xp_cash_numer cfg) (xp_cash_denom cfg)) (\<lambda>yen_per_xp'.
     let treasures_per_hour' = float_mul (catches_per_hour cfg) (treasure_rate cfg) in
     py_bind (float_truediv_int treasures_per_hour' (treasure_types cfg)) (\<lambda>books_per_hour'.
     let mending_books_per_hour' = float_mul books_per_hour' (book_mending_rate cfg);
         mending_single_books' = float_mul mending_books_per_hour' (book_mending_single_rate cfg);
         mending_multi_books' = float_mul mending_books_per_hour' (book_mending_multi_rate cfg) in
     py_bind (float_mul_int mending_single_books' (price_mending_single cfg)) (\<lambda>rm_single.
     py_bind (float_mul_int mending_multi_books' (price_mending_multi cfg)) (\<lambda>rm_multi.
     let revenue_mending' = float_add rm_single rm_multi;
         sellable_non_mending_rate =
           float_add (float_add (book_smite_only_rate cfg) (book_bane_only_rate cfg))
             (book_unb3_only_rate cfg);
         sellable_non_mending_books' = float_mul books_per_hour' sellable_non_mending_rate in
     py_bind (float_mul_int (float_mul books_per_hour' (book_smite_only_rate cfg))
                (price_smite_only cfg)) (\<lambda>rn_smite.
     py_bind (float_mul_int (float_mul books_per_hour' (book_bane_only_rate cfg))
                (price_bane_only cfg)) (\<lambda>rn_bane.
     py_bind (float_mul_int (float_mul books_per_hour' (book_unb3_only_rate cfg))
                (price_unb3_only cfg)) (\<lambda>rn_unb3.
     let revenue_non_mending' = float_add (float_add rn_smite rn_bane) rn_unb3;
         grind_books' =
           float_sub (float_sub books_per_hour' mending_books_per_hour')
             sellable_non_mending_books';
         xp_from_books' =
           float_mul (float_mul grind_books' (avg_enchants_per_book cfg)) (avg_xp_per_enchant cfg);
         yen_from_books' = float_mul xp_from_books' yen_per_xp' in
     py_bind (int_truediv 2 (treasure_types cfg)) (\<lambda>two_per_type.
     let tools_per_hour' = float_mul treasures_per_hour' two_per_type;
         xp_from_tools' =
           float_mul (float_mul tools_per_hour' (avg_enchants_per_tool cfg))
             (avg_xp_per_enchant cfg);
         yen_from_tools' = float_mul xp_from_tools' yen_per_xp';
         xp_from_fishing' = float_mul (catches_per_hour cfg) (avg_xp_per_catch cfg);
         yen_from_fishing' = float_mul xp_from_fishing' yen_per_xp';
         fish_rate_total = float_sub (py_float 1) (treasure_rate cfg);
         fish_per_hour' = float_mul (catches_per_hour cfg) fish_rate_total;
         cod' = float_mul fish_per_hour' (fish_rate_cod cfg);
         salmon' = float_mul fish_per_hour' (fish_rate_salmon cfg);
         puffer' = float_mul fish_per_hour' (fish_rate_puffer cfg);
         tropical' = float_mul fish_per_hour' (fish_rate_tropical cfg) in
     py_bind (float_mul_int cod' (fish_price_cod cfg)) (\<lambda>rf_cod.
     py_bind (float_mul_int salmon' (fish_price_salmon cfg)) (\<lambda>rf_salmon.
     py_bind (float_mul_int puffer' (fish_price_puffer cfg)) (\<lambda>rf_puffer.
     py_bind (float_mul_int tropical' (fish_price_tropical cfg)) (\<lambda>rf_tropical.
     let revenue_fish' =
           float_add (float_add (float_add rf_cod rf_salmon) rf_puffer) rf_tropical;
         total =
           float_add (float_add (float_add (float_add (float_add
             revenue_fish' yen_from_fishing') revenue_mending') revenue_non_mending')
             yen_from_books') yen_from_tools' in
     Inr \<lparr> treasures_per_hour = treasures_per_hour',
           books_per_hour = books_per_hour',
           mending_books_per_hour = mending_books_per_hour',
           mending_single_books = mending_single_books',
           mending_multi_books = mending_multi_books',
           sellable_non_mending_books = sellable_non_mending_books',
           grind_books = grind_books',
           tools_per_hour = tools_per_hour',
           fish_per_hour = fish_per_hour',
           cod = cod',
           salmon = salmon',
           puffer = puffer',
           tropical = tropical',
           revenue_fish = revenue_fish',
           yen_from_fishing = yen_from_fishing',
           revenue_mending = revenue_mending',
           revenue_non_mending = revenue_non_mending',
           yen_from_books = yen_from_books',
           yen_from_tools = yen_from_tools',
           total_yen_per_hour = total,
           yen_per_xp = yen_per_xp',
           xp_from_fishing = xp_from_fishing',
           xp_from_books = xp_from_books',
           xp_from_tools = xp_from_tools' \<rparr>))))))))))))"

section \<open>The body as a program on the configuration object\<close>

text \<open>
  \<open>compute_income\<close> receives a reference to a mutable \<open>Config\<close> object. To speak of what
  the call does to that object, the body is written once more as a program that threads the
  object through every statement: a program takes the object and returns its outcome (a
  value, or the exception raised) together with the object as it then is.
\<close>

type_synonym 'a prog = "Config \<Rightarrow> (py_error + 'a) \<times> Config"

text \<open>An expression without effect.\<close>

definition ret :: "'a \<Rightarrow> 'a prog" where
  "ret v = (\<lambda>s. (Inr v, s))"

text \<open>Reading an attribute: \<open>cfg.field\<close>.\<close>

definition getattr :: "(Config \<Rightarrow> 'a) \<Rightarrow> 'a prog" where
  "getattr field = (\<lambda>s. (Inr (field s), s))"

text \<open>
  Assigning to an attribute: \<open>cfg.field = v\<close>. The body of \<open>compute_income\<close> has no such
  statement; the definition says what one would do.
\<close>

definition setattr :: "((('a \<Rightarrow> 'a) \<Rightarrow> Config \<Rightarrow> Config)) \<Rightarrow> 'a \<Rightarrow> unit prog" where
  "setattr field_update v = (\<lambda>s. (Inr (), field_update (\<lambda>_. v) s))"

text \<open>An operation on numbers that returns or raises; it does not touch the object.\<close>

definition raise_or :: "py_error + 'a \<Rightarrow> 'a prog" where
  "raise_or m = (\<lambda>s. (m, s))"

text \<open>Sequencing: an exception ends the program, with the object as it is then.\<close>

definition bnd :: "'a prog \<Rightarrow> ('a \<Rightarrow> 'b prog) \<Rightarrow> 'b prog" where
  "bnd m f = (\<lambda>s. case m s of (Inl e, s') \<Rightarrow> (Inl e, s') | (Inr v, s') \<Rightarrow> f v s')"

text \<open>
  Lines 91 to 194, statement by statement, every \<open>cfg.field\<close> a \<open>getattr\<close> at the place
  where Python evaluates it. The type constraints close the groups of statements that the
  source sets apart by its comments.
\<close>

definition compute_income_prog :: "Result prog" where
  "compute_income_prog =
     bnd (getattr xp_cash_numer) (\<lambda>a1. bnd (getattr xp_cash_denom) (\<lambda>a2.
     bnd (raise_or (float_truediv a1 a2)) (\<lambda>yen_per_xp'. (
     bnd (getattr catches_per_hour) (\<lambda>a3. bnd (getattr treasure_rate) (\<lambda>a4.
     bnd (ret (float_mul a3 a4)) (\<lambda>treasures_per_hour'.
     bnd (getattr treasure_types) (\<lambda>a5.
     bnd (raise_or (float_truediv_int treasures_per_hour' a5)) (\<lambda>books_per_hour'. (
     bnd (getattr book_mending_rate) (\<lambda>a6.
     bnd (ret (float_mul books_per_hour' a6)) (\<lambda>mending_books_per_hour'.
     bnd (getattr book_mending_single_rate) (\<lambda>a7.
     bnd (ret (float_mul mending_books_per_hour' a7)) (\<lambda>mending_single_books'.
     bnd (getattr book_mending_multi_rate) (\<lambda>a8.
     bnd (ret (float_mul mending_books_per_hour' a8)) (\<lambda>mending_multi_books'. (
     bnd (getattr price_mending_single) (\<lambda>a9.
     bnd (raise_or (float_mul_int mending_single_books' a9)) (\<lambda>rm_single.
     bnd (getattr price_mending_multi) (\<lambda>a10.
     bnd (raise_or (float_mul_int mending_multi_books' a10)) (\<lambda>rm_multi.
     bnd (ret (float_add rm_single rm_multi)) (\<lambda>revenue_mending'. (
     bnd (getattr book_smite_only_rate) (\<lambda>a11. bnd (getattr book_bane_only_rate) (\<lambda>a12.
     bnd (getattr book_unb3_only_rate) (\<lambda>a13.
     bnd (ret (float_add (float_add a11 a12) a13)) (\<lambda>sellable_non_mending_rate.
     bnd (ret (float_mul books_per_hour' sellable_non_mending_rate))
       (\<lambda>sellable_non_mending_books'. (
     bnd (getattr book_smite_only_rate) (\<lambda>a14. bnd (getattr price_smite_only) (\<lambda>a15.
     bnd (raise_or (float_mul_int (float_mul books_per_hour' a14) a15)) (\<lambda>rn_smite.
     bnd (getattr book_bane_only_rate) (\<lambda>a16. bnd (getattr price_bane_only) (\<lambda>a17.
     bnd (raise_or (float_mul_int (float_mul books_per_hour' a16) a17)) (\<lambda>rn_bane.
     bnd (getattr book_unb3_only_rate) (\<lambda>a18. bnd (getattr price_unb3_only) (\<lambda>a19.
     bnd (raise_or (float_mul_int (float_mul books_per_hour' a18) a19)) (\<lambda>rn_unb3.
     bnd (ret (float_add (float_add rn_smite rn_bane) rn_unb3)) (\<lambda>revenue_non_mending'. (
     bnd (ret (float_sub (float_sub books_per_hour' mending_books_per_hour')
            sellable_non_mending_books')) (\<lambda>grind_books'.
     bnd (getattr avg_enchants_per_book) (\<lambda>a20. bnd (getattr avg_xp_per_enchant) (\<lambda>a21.
     bnd (ret (float_mul (float_mul grind_books' a20) a21)) (\<lambda>xp_from_books'.
     bnd (ret (float_mul xp_from_books' yen_per_xp')) (\<lambda>yen_from_books'. (
     bnd (getattr treasure_types) (\<lambda>a22.
     bnd (raise_or (int_truediv 2 a22)) (\<lambda>two_per_type.
     bnd (ret (float_mul treasures_per_hour' two_per_type)) (\<lambda>tools_per_hour'. (
     bnd (getattr avg_enchants_per_tool) (\<lambda>a23. bnd (getattr avg_xp_per_enchant) (\<lambda>a24.
     bnd (ret (float_mul (float_mul tools_per_hour' a23) a24)) (\<lambda>xp_from_tools'.
     bnd (ret (float_mul xp_from_tools' yen_per_xp')) (\<lambda>yen_from_tools'. (
     bnd (getattr catches_per_hour) (\<lambda>a25. bnd (getattr avg_xp_per_catch) (\<lambda>a26.
     bnd (ret (float_mul a25 a26)) (\<lambda>xp_from_fishing'.
     bnd (ret (float_mul xp_from_fishing' yen_per_xp')) (\<lambda>yen_from_fishing'. (
     bnd (getattr treasure_rate) (\<lambda>a27.
     bnd (ret (float_sub (py_float 1) a27)) (\<lambda>fish_rate_total.
     bnd (getattr catches_per_hour) (\<lambda>a28.
     bnd (ret (float_mul a28 fish_rate_total)) (\<lambda>fish_per_hour'. (
     bnd (getattr fish_rate_cod) (\<lambda>a29.
     bnd (ret (float_mul fish_per_hour' a29)) (\<lambda>cod'.
     bnd (getattr fish_rate_salmon) (\<lambda>a30.
     bnd (ret (float_mul fish_per_hour' a30)) (\<lambda>salmon'.
     bnd (getattr fish_rate_puffer) (\<lambda>a31.
     bnd (ret (float_mul fish_per_hour' a31)) (\<lambda>puffer'.
     bnd (getattr fish_rate_tropical) (\<lambda>a32.
     bnd (ret (float_mul fish_per_hour' a32)) (\<lambda>tropical'. (
     bnd (getattr fish_price_cod) (\<lambda>a33.
     bnd (raise_or (float_mul_int cod' a33)) (\<lambda>rf_cod.
     bnd (getattr fish_price_salmon) (\<lambda>a34.
     bnd (raise_or (float_mul_int salmon' a34)) (\<lambda>rf_salmon.
     bnd (getattr fish_price_puffer) (\<lambda>a35.
     bnd (raise_or (float_mul_int puffer' a35)) (\<lambda>rf_puffer.
     bnd (getattr fish_price_tropical) (\<lambda>a36.
     bnd (raise_or (float_mul_int tropical' a36)) (\<lambda>rf_tropical. (
     bnd (ret (float_add (float_add (float_add rf_cod rf_salmon) rf_puffer) rf_tropical))
       (\<lambda>revenue_fish'. (
     bnd (ret (float_add (float_add (float_add (float_add (float_add
            revenue_fish' yen_from_fishing') revenue_mending') revenue_non_mending')
            yen_from_books') yen_from_tools')) (\<lambda>total.
     ret \<lparr> treasures_per_hour = treasures_per_hour',
           books_per_hour = books_per_hour',
           mending_books_per_hour = mending_books_per_hour',
           mending_single_books = mending_single_books',
           mending_multi_books = mending_multi_books',
           sellable_non_mending_books = sellable_non_mending_books',
           grind_books = grind_books',
           tools_per_hour = tools_per_hour',
           fish_per_hour = fish_per_hour',
           cod = cod',
           salmon = salmon',
           puffer = puffer',
           tropical = tropical',
           revenue_fish = revenue_fish',
           yen_from_fishing = yen_from_fishing',
           revenue_mending = revenue_mending',
           revenue_non_mending = revenue_non_mending',
           yen_from_books = yen_from_books',
           yen_from_tools = yen_from_tools',
           total_yen_per_hour = total,
           yen_per_xp = yen_per_xp',
           xp_from_fishing = xp_from_fishing',
           xp_from_books = xp_from_books',
           xp_from_tools = xp_from_tools' \<rparr>
     ) :: Result prog))
      :: Result prog))
     ))))))) :: Result prog))
     ))))))) :: Result prog))
     ))) :: Result prog))
     ))) :: Result prog))
     ))) :: Result prog))
     )) :: Result prog))
     )))) :: Result prog))
     ))))))))) :: Result prog))
     )))) :: Result prog))
     )))) :: Result prog))
     ))))) :: Result prog))
     )))) :: Result prog))
     ))"

text \<open>A program that leaves the configuration object as it found it, whatever its outcome.\<close>

definition preserves_config :: "'a prog \<Rightarrow> bool" where
  "preserves_config p = (\<forall>s. snd (p s) = s)"

section \<open>The default run\<close>

text \<open>
  The result of \<open>compute_income\<close> on the default configuration, every field written as the
  exact value of the double that Python computes (\<open>treasures_per_hour\<close> is 56.5,
  \<open>books_per_hour\<close> is 9.416666666666666, \<open>total_yen_per_hour\<close> is 99740.37243749999).
\<close>

definition default_result :: Result where
  "default_result =
     \<lparr> treasures_per_hour = Finite (113 / 2),
       books_per_hour = Finite (5301112061384021 / 562949953421312),
       mending_books_per_hour = Finite (3197630795426841 / 9007199254740992),
       mending_single_books = Finite (653915497664789 / 4503599627370496),
       mending_multi_books = Finite (1889799800097263 / 9007199254740992),
       sellable_non_mending_books = Finite (2256153293325039 / 9007199254740992),
       grind_books = Finite (1240062638959257 / 140737488355328),
       tools_per_hour = Finite (5301112061384021 / 281474976710656),
       fish_per_hour = Finite (887 / 2),
       cod = Finite (4681280706419097 / 17592186044416),
       salmon = Finite (887 / 8),
       puffer = Finite (2028554972781609 / 35184372088832),
       tropical = Finite (2496683043423519 / 281474976710656),
       revenue_fish = Finite (3864494749830349 / 137438953472),
       yen_from_fishing = Finite (3206908914346667 / 549755813888),
       revenue_mending = Finite (61333035824797 / 1073741824),
       revenue_non_mending = Finite (5301112061384021 / 2199023255552),
       yen_from_books = Finite (425867865918625 / 274877906944),
       yen_from_tools = Finite (2588433623722667 / 549755813888),
       total_yen_per_hour = Finite (1713526550839689 / 17179869184),
       yen_per_xp = Finite (7505999378950827 / 2251799813685248),
       xp_from_fishing = Finite 1750,
       xp_from_books = Finite (255520719551175 / 549755813888),
       xp_from_tools = Finite (2825 / 2) \<rparr>"

text \<open>
  The result of \<open>compute_income\<close> on the default configuration with \<open>catches_per_hour = 5000.0\<close>.
\<close>

definition result_5000 :: Result where
  "result_5000 =
     \<lparr> treasures_per_hour = Finite 565,
       books_per_hour = Finite (6626390076730027 / 70368744177664),
       mending_books_per_hour = Finite (124907452946361 / 35184372088832),
       mending_single_books = Finite (6539154976647891 / 4503599627370496),
       mending_multi_books = Finite (2362249750121579 / 1125899906842624),
       sellable_non_mending_books = Finite (5640383233312599 / 2251799813685248),
       grind_books = Finite (3100156597398143 / 35184372088832),
       tools_per_hour = Finite (3313195038365013 / 17592186044416),
       fish_per_hour = Finite 4435,
       cod = Finite 2661,
       salmon = Finite (4435 / 4),
       puffer = Finite (5071387431954023 / 8796093022208),
       tropical = Finite (6241707608558797 / 70368744177664),
       revenue_fish = Finite 281179,
       yen_from_fishing = Finite (8017272285866667 / 137438953472),
       revenue_mending = Finite (4906642865983761 / 8589934592),
       revenue_non_mending = Finite (1656597519182507 / 68719476736),
       yen_from_books = Finite (4258678659186251 / 274877906944),
       yen_from_tools = Finite (6471084059306667 / 137438953472),
       total_yen_per_hour = Finite (4283816377099223 / 4294967296),
       yen_per_xp = Finite (7505999378950827 / 2251799813685248),
       xp_from_fishing = Finite 17500,
       xp_from_books = Finite (5110414391023501 / 1099511627776),
       xp_from_tools = Finite 14125 \<rparr>"

text \<open>
  The result of \<open>compute_income\<close> on the default configuration with an infinite
  \<open>catches_per_hour\<close> and \<open>treasure_rate = 0.0\<close>.
\<close>

definition result_zero_treasure_inf :: Result where
  "result_zero_treasure_inf =
     \<lparr> treasures_per_hour = NaN,
       books_per_hour = NaN,
       mending_books_per_hour = NaN,
       mending_single_books = NaN,
       mending_multi_books = NaN,
       sellable_non_mending_books = NaN,
       grind_books = NaN,
       tools_per_hour = NaN,
       fish_per_hour = PosInf,
       cod = PosInf,
       salmon = PosInf,
       puffer = PosInf,
       tropical = PosInf,
       revenue_fish = PosInf,
       yen_from_fishing = PosInf,
       revenue_mending = NaN,
       revenue_non_mending = NaN,
       yen_from_books = NaN,
       yen_from_tools = NaN,
       total_yen_per_hour = NaN,
       yen_per_xp = Finite (7505999378950827 / 2251799813685248),
       xp_from_fishing = PosInf,
       xp_from_books = NaN,
       xp_from_tools = NaN \<rparr>"

text \<open>
  The result of \<open>compute_income\<close> on the default configuration with an infinite
  \<open>catches_per_hour\<close> and \<open>treasure_rate = 1.0\<close>.
\<close>

definition result_full_treasure_inf :: Result where
  "result_full_treasure_inf =
     \<lparr> treasures_per_hour = PosInf,
       books_per_hour = PosInf,
       mending_books_per_hour = PosInf,
       mending_single_books = PosInf,
       mending_multi_books = PosInf,
       sellable_non_mending_books = PosInf,
       grind_books = NaN,
       tools_per_hour = PosInf,
       fish_per_hour = NaN,
       cod = NaN,
       salmon = NaN,
       puffer = NaN,
       tropical = NaN,
       revenue_fish = NaN,
       yen_from_fishing = PosInf,
       revenue_mending = PosInf,
       revenue_non_mending = PosInf,
       yen_from_books = NaN,
       yen_from_tools = PosInf,
       total_yen_per_hour = NaN,
       yen_per_xp = Finite (7505999378950827 / 2251799813685248),
       xp_from_fishing = PosInf,
       xp_from_books = NaN,
       xp_from_tools = PosInf \<rparr>"

section \<open>Scaling the throughput\<close>











section \<open>The command line\<close>

text \<open>
  The fields of the dataclass as a table: name, annotated type and default (lines 33 to 88).
\<close>

datatype py_type = PyFloat | PyInt

datatype py_value = FloatV pyfloat | IntV int

definition config_fields :: "(string \<times> py_type \<times> py_value) list" where
  "config_fields =
     [ (''catches_per_hour'', PyFloat, FloatV (py_float 500)),
       (''treasure_rate'', PyFloat, FloatV (py_float (113 / 1000))),
       (''treasure_types'', PyInt, IntV 6),
       (''fish_rate_cod'', PyFloat, FloatV (py_float (60 / 100))),
       (''fish_rate_salmon'', PyFloat, FloatV (py_float (25 / 100))),
       (''fish_rate_puffer'', PyFloat, FloatV (py_float (13 / 100))),
       (''fish_rate_tropical'', PyFloat, FloatV (py_float (2 / 100))),
       (''fish_price_cod'', PyInt, IntV 20),
       (''fish_price_salmon'', PyInt, IntV 80),
       (''fish_price_puffer'', PyInt, IntV 180),
       (''fish_price_tropical'', PyInt, IntV 400),
       (''book_mending_rate'', PyFloat, FloatV (py_float (377 / 10000))),
       (''book_mending_single_rate'', PyFloat, FloatV (py_float (409 / 1000))),
       (''book_mending_multi_rate'', PyFloat, FloatV (py_float (591 / 1000))),
       (''book_smite_only_rate'', PyFloat, FloatV (py_float (74 / 10000))),
       (''book_bane_only_rate'', PyFloat, FloatV (py_float (49 / 10000))),
       (''book_unb3_only_rate'', PyFloat, FloatV (py_float (143 / 10000))),
       (''avg_enchants_per_book'', PyFloat, FloatV (py_float (211 / 100))),
       (''avg_xp_per_enchant'', PyFloat, FloatV (py_float 25)),
       (''avg_xp_per_catch'', PyFloat, FloatV (py_float (35 / 10))),
       (''xp_cash_numer'', PyFloat, FloatV (py_float 40)),
       (''xp_cash_denom'', PyFloat, FloatV (py_float 12)),
       (''avg_enchants_per_tool'', PyFloat, FloatV (py_float 3)),
       (''price_mending_single'', PyInt, IntV 220000),
       (''price_mending_multi'', PyInt, IntV 120000),
       (''price_smite_only'', PyInt, IntV 15000),
       (''price_bane_only'', PyInt, IntV 15000),
       (''price_unb3_only'', PyInt, IntV 5000) ]"

text \<open>
  The \<open>add_argument\<close> calls of \<open>main\<close> (lines 200 to 223): option string, \<open>type=\<close> and
  \<open>default=\<close>. Every option is optional (it starts with \<open>--\<close>).
\<close>

definition cli_arguments :: "(string \<times> py_type \<times> py_value) list" where
  "cli_arguments =
     [ (''--catches-per-hour'', PyFloat, FloatV (py_float 500)),
       (''--treasure-rate'', PyFloat, FloatV (py_float (113 / 1000))),
       (''--fish-price-cod'', PyInt, IntV 20),
       (''--fish-price-salmon'', PyInt, IntV 80),
       (''--fish-price-puffer'', PyInt, IntV 180),
       (''--fish-price-tropical'', PyInt, IntV 400),
       (''--book-mending-rate'', PyFloat, FloatV (py_float (377 / 10000))),
       (''--book-mending-single-rate'', PyFloat, FloatV (py_float (409 / 1000))),
       (''--book-mending-multi-rate'', PyFloat, FloatV (py_float (591 / 1000))),
       (''--book-smite-only-rate'', PyFloat, FloatV (py_float (74 / 10000))),
       (''--book-bane-only-rate'', PyFloat, FloatV (py_float (49 / 10000))),
       (''--book-unb3-only-rate'', PyFloat, FloatV (py_float (143 / 10000))),
       (''--avg-enchants-per-book'', PyFloat, FloatV (py_float (211 / 100))),
       (''--avg-xp-per-enchant'', PyFloat, FloatV (py_float 25)),
       (''--avg-xp-per-catch'', PyFloat, FloatV (py_float (35 / 10))),
       (''--xp-cash-numer'', PyFloat, FloatV (py_float 40)),
       (''--xp-cash-denom'', PyFloat, FloatV (py_float 12)),
       (''--avg-enchants-per-tool'', PyFloat, FloatV (py_float 3)) ]"

text \<open>
  The attribute of the parsed namespace that an option sets: \<open>argparse\<close> strips the leading
  dashes and turns the inner ones into underscores.
\<close>

definition dest :: "string \<Rightarrow> string" where
  "dest opt = map (\<lambda>c. if c = CHR ''-'' then CHR ''_'' else c) (dropWhile (\<lambda>c. c = CHR ''-'') opt)"

text \<open>
  The keyword arguments of the \<open>Config(...)\<close> call of \<open>main\<close> (lines 227 to 246): field name
  and the attribute of \<open>args\<close> it receives. A field that is not named here keeps its default.
\<close>

definition main_config_kwargs :: "(string \<times> string) list" where
  "main_config_kwargs =
     [ (''catches_per_hour'', ''catches_per_hour''),
       (''treasure_rate'', ''treasure_rate''),
       (''fish_price_cod'', ''fish_price_cod''),
       (''fish_price_salmon'', ''fish_price_salmon''),
       (''fish_price_puffer'', ''fish_price_puffer''),
       (''fish_price_tropical'', ''fish_price_tropical''),
       (''book_mending_rate'', ''book_mending_rate''),
       (''book_mending_single_rate'', ''book_mending_single_rate''),
       (''book_mending_multi_rate'', ''book_mending_multi_rate''),
       (''book_smite_only_rate'', ''book_smite_only_rate''),
       (''book_bane_only_rate'', ''book_bane_only_rate''),
       (''book_unb3_only_rate'', ''book_unb3_only_rate''),
       (''avg_enchants_per_book'', ''avg_enchants_per_book''),
       (''avg_xp_per_enchant'', ''avg_xp_per_enchant''),
       (''avg_xp_per_catch'', ''avg_xp_per_catch''),
       (''xp_cash_numer'', ''xp_cash_numer''),
       (''xp_cash_denom'', ''xp_cash_denom''),
       (''avg_enchants_per_tool'', ''avg_enchants_per_tool'') ]"

text \<open>The fields of the dataclass that a command line can set: those that \<open>main\<close> passes
  to \<open>Config\<close> from an attribute that some option sets.\<close>

definition cli_settable :: "string list" where
  "cli_settable =
     map fst (filter (\<lambda>(field, attr). attr \<in> set (map (\<lambda>(opt, ty, dflt). dest opt) cli_arguments))
       main_config_kwargs)"

section \<open>Basic facts\<close>

lemma py_bind_Inr_iff: "py_bind m f = Inr r \<longleftrightarrow> (\<exists>v. m = Inr v \<and> f v = Inr r)"
  by (cases m) (simp_all add: py_bind_def)

lemma py_bind_Inl [simp]: "py_bind (Inl e) f = Inl e"
  by (simp add: py_bind_def)

lemma py_bind_Inr [simp]: "py_bind (Inr v) f = f v"
  by (simp add: py_bind_def)

lemma round_double_zero [simp]: "round_double 0 = Finite 0"
  by (simp add: round_double_def)

lemma float_of_int_zero [simp]: "float_of_int 0 = Inr (Finite 0)"
  by (simp add: float_of_int_def)

lemma float_truediv_zero [simp]: "float_truediv a (Finite 0) = Inl ZeroDivisionError"
  by simp

lemma float_truediv_nonzero: "b \<noteq> Finite 0 \<Longrightarrow> \<exists>q. float_truediv a b = Inr q"
  by (cases b; cases a) simp_all

section \<open>Facts about rounding\<close>

lemma round_half_even_eqI:
  assumes "\<bar>y - of_int n\<bar> < 1 / 2"
  shows "round_half_even y = n"
proof -
  consider "of_int n \<le> y" | "y < of_int n" by linarith
  then show ?thesis
  proof cases
    case 1
    with assms have "\<lfloor>y\<rfloor> = n" by (intro floor_unique) linarith+
    with assms 1 show ?thesis by (simp add: round_half_even_def Let_def)
  next
    case 2
    have "of_int (n - 1) \<le> y" "y < of_int (n - 1) + 1"
      using assms 2 by (simp_all add: abs_less_iff)
    then have f: "\<lfloor>y\<rfloor> = n - 1" by (intro floor_unique)
    with assms 2 show ?thesis by (simp add: round_half_even_def Let_def abs_less_iff)
  qed
qed

lemma round_half_even_of_int [simp]: "round_half_even (of_int n) = n"
  by (rule round_half_even_eqI) simp

lemma round_half_even_error: "\<bar>of_int (round_half_even y) - y\<bar> \<le> 1 / 2"
proof -
  have "of_int \<lfloor>y\<rfloor> \<le> y" "y < of_int \<lfloor>y\<rfloor> + 1" by linarith+
  then show ?thesis
    by (auto simp: round_half_even_def Let_def)
qed

lemma bitlen_bounds_rat:
  assumes "0 < p"
  shows "2 powi (bitlen p - 1) \<le> (of_int p :: rat)" "(of_int p :: rat) < 2 powi (bitlen p)"
proof -
  from bitlen_bounds[OF assms] have a: "2 ^ nat (bitlen p - 1) \<le> p" and b: "p < 2 ^ nat (bitlen p)"
    by auto
  have pos: "1 \<le> bitlen p" using assms bitlen_eq_zero_iff[of p] bitlen_nonneg[of p] by linarith
  have "(of_int (2 ^ nat (bitlen p - 1)) :: rat) \<le> of_int p" using a by (simp only: of_int_le_iff)
  then show "2 powi (bitlen p - 1) \<le> (of_int p :: rat)"
    using pos by (simp add: power_int_nonneg_exp)
  have "(of_int p :: rat) < of_int (2 ^ nat (bitlen p))" using b by (simp only: of_int_less_iff)
  then show "(of_int p :: rat) < 2 powi (bitlen p)"
    using pos by (simp add: power_int_nonneg_exp)
qed

lemma floor_log2_bounds:
  assumes "0 < x"
  shows "2 powi (floor_log2 x) \<le> x" "x < 2 powi (floor_log2 x + 1)"
proof -
  obtain p q where pq: "quotient_of x = (p, q)" by (cases "quotient_of x")
  then have x: "x = of_int p / of_int q" and q: "0 < q"
    by (simp_all add: quotient_of_div quotient_of_denom_pos)
  with assms have p: "0 < p" by (simp add: zero_less_divide_iff)
  define e0 where "e0 = bitlen p - bitlen q"
  have fl: "floor_log2 x = (if 2 powi e0 \<le> x then e0 else e0 - 1)"
    by (simp add: floor_log2_def pq e0_def Let_def)
  note bp = bitlen_bounds_rat[OF p] and bq = bitlen_bounds_rat[OF q]
  have qpos: "0 < (of_int q :: rat)" using q by simp
  have "x < 2 powi (bitlen p) / 2 powi (bitlen q - 1)"
    unfolding x using bp(2) bq(1) qpos
    by (intro frac_less) (simp_all add: p less_imp_le)
  also have "\<dots> = 2 powi (bitlen p - (bitlen q - 1))"
    by (simp only: power_int_diff[of "2::rat", simplified])
  also have "bitlen p - (bitlen q - 1) = e0 + 1"
    by (simp add: e0_def)
  finally have up: "x < 2 powi (e0 + 1)" .
  have "2 powi (bitlen p - 1) / 2 powi (bitlen q) \<le> x"
    unfolding x using bp(1) bq(2) qpos
    by (intro frac_le) (simp_all add: p less_imp_le)
  moreover have "2 powi (bitlen p - 1) / 2 powi (bitlen q) = (2 powi (bitlen p - 1 - bitlen q) :: rat)"
    by (simp only: power_int_diff[of "2::rat", simplified])
  moreover have "bitlen p - 1 - bitlen q = e0 - 1"
    by (simp add: e0_def)
  ultimately have lo: "2 powi (e0 - 1) \<le> x" by simp
  show "2 powi (floor_log2 x) \<le> x" using lo by (simp add: fl)
  show "x < 2 powi (floor_log2 x + 1)" using up by (auto simp add: fl not_le)
qed

lemma two_powi_less_iff [simp]: "(2::rat) powi m < 2 powi n \<longleftrightarrow> m < n"
proof
  assume "(2::rat) powi m < 2 powi n"
  show "m < n"
  proof (rule ccontr)
    assume "\<not> m < n"
    then have "n \<le> m" by simp
    then have "(2::rat) powi n \<le> 2 powi m" by (intro power_int_increasing) simp_all
    with \<open>(2::rat) powi m < 2 powi n\<close> show False by simp
  qed
next
  assume "m < n"
  then show "(2::rat) powi m < 2 powi n" by (intro power_int_strict_increasing) simp_all
qed

lemma two_powi_le_iff [simp]: "(2::rat) powi m \<le> 2 powi n \<longleftrightarrow> m \<le> n"
  using two_powi_less_iff[of n m] by (simp only: not_less[symmetric])

lemma floor_log2_eqI:
  assumes "2 powi e \<le> x" "x < 2 powi (e + 1)"
  shows "floor_log2 x = e"
proof -
  have pos: "0 < x" using assms(1) zero_less_power_int[of "2::rat" e] by linarith
  note b = floor_log2_bounds[OF pos]
  have "2 powi e < (2::rat) powi (floor_log2 x + 1)" using assms(1) b(2) by linarith
  then have 1: "e < floor_log2 x + 1" by simp
  have "2 powi (floor_log2 x) < (2::rat) powi (e + 1)" using assms(2) b(1) by linarith
  then have 2: "floor_log2 x < e + 1" by simp
  from 1 2 show ?thesis by linarith
qed

lemma quantum_eqI:
  assumes "2 powi e \<le> \<bar>x\<bar>" "\<bar>x\<bar> < 2 powi (e + 1)"
  shows "quantum x = 2 powi (max e (- 1022) - 52)"
  using floor_log2_eqI[OF assms] by (simp add: quantum_def)

lemma quantum_pos [simp]: "0 < quantum x"
  by (simp add: quantum_def)

lemma round_double_eqI:
  assumes "2 powi e \<le> \<bar>x\<bar>" "\<bar>x\<bar> < 2 powi (e + 1)"
    and "q = 2 powi (max e (- 1022) - 52)"
    and "\<bar>x / q - of_int n\<bar> < 1 / 2"
    and "\<bar>of_int n * q\<bar> < 2 ^ 1024"
  shows "round_double x = Finite (of_int n * q)"
proof -
  have "0 < (2::rat) powi e" by simp
  then have "0 < \<bar>x\<bar>" using assms(1) by (rule less_le_trans)
  then have "x \<noteq> 0" by simp
  moreover have "quantum x = q" using quantum_eqI[OF assms(1,2)] assms(3) by simp
  moreover have "round_half_even (x / q) = n" using assms(4) by (rule round_half_even_eqI)
  ultimately show ?thesis using assms(5) by (simp add: round_double_def Let_def)
qed

text \<open>The literals of the defaults that are small integers denote themselves.\<close>

lemma py_float_0 [simp]: "py_float 0 = Finite 0"
  by (simp add: py_float_def)

lemma py_float_12: "py_float 12 = Finite 12"
  unfolding py_float_def
  by (rule round_double_eqI[where e = 3 and n = "12 * 2 ^ 49" and q = "1 / 2 ^ 49", simplified])
    simp_all

lemma abs_pos_of_two_powi_le:
  assumes "2 powi e \<le> \<bar>x::rat\<bar>"
  shows "x \<noteq> 0"
proof -
  have "0 < (2::rat) powi e" by simp
  then have "0 < \<bar>x\<bar>" using assms by (rule less_le_trans)
  then show ?thesis by simp
qed

lemma quantum_cases:
  assumes "x \<noteq> 0"
  obtains (normal) e where "- 1022 \<le> e" "2 powi e \<le> \<bar>x\<bar>" "\<bar>x\<bar> < 2 powi (e + 1)"
      "quantum x = 2 powi (e - 52)"
  | (subnormal) "\<bar>x\<bar> < 2 powi (- 1022)" "quantum x = 2 powi (- 1074)"
proof -
  define e where "e = floor_log2 \<bar>x\<bar>"
  have pos: "0 < \<bar>x\<bar>" using assms by simp
  note b = floor_log2_bounds[OF pos, folded e_def]
  show thesis
  proof (cases "- 1022 \<le> e")
    case True
    then have "quantum x = 2 powi (e - 52)" by (simp add: quantum_def e_def[symmetric] max_def)
    with True b show thesis by (rule normal)
  next
    case False
    then have "e + 1 \<le> - 1022" by simp
    then have "(2::rat) powi (e + 1) \<le> 2 powi (- 1022)" by (simp only: two_powi_le_iff)
    with b(2) have "\<bar>x\<bar> < 2 powi (- 1022)" by linarith
    moreover have "quantum x = 2 powi (- 1074)"
      using False by (simp add: quantum_def e_def[symmetric] max_def)
    ultimately show thesis by (rule subnormal)
  qed
qed

lemma round_to_quantum_error:
  assumes "0 < q"
  shows "\<bar>of_int (round_half_even (x / q)) * q - x\<bar> \<le> q / 2"
proof -
  have "of_int (round_half_even (x / q)) * q - x = (of_int (round_half_even (x / q)) - x / q) * q"
    using assms by (simp add: field_simps)
  then have "\<bar>of_int (round_half_even (x / q)) * q - x\<bar>
      = \<bar>of_int (round_half_even (x / q)) - x / q\<bar> * \<bar>q\<bar>"
    by (simp only: abs_mult)
  also have "\<dots> = \<bar>of_int (round_half_even (x / q)) - x / q\<bar> * q"
    using assms by simp
  also have "\<dots> \<le> (1 / 2) * q"
    using assms by (intro mult_right_mono round_half_even_error) simp
  finally show ?thesis by simp
qed

lemma round_double_Finite_iff:
  assumes "x \<noteq> 0"
  shows "round_double x = Finite y \<longleftrightarrow>
    y = of_int (round_half_even (x / quantum x)) * quantum x \<and> \<bar>y\<bar> < 2 ^ 1024"
  using assms by (auto simp add: round_double_def Let_def)

lemma round_double_error_quantum:
  assumes "round_double x = Finite y"
  shows "\<bar>y - x\<bar> \<le> quantum x / 2"
proof (cases "x = 0")
  case True
  with assms show ?thesis by (simp add: less_imp_le)
next
  case False
  with assms have "y = of_int (round_half_even (x / quantum x)) * quantum x"
    by (simp add: round_double_Finite_iff)
  then show ?thesis using round_to_quantum_error[of "quantum x" x] by simp
qed

lemma two_powi_half: "(2::rat) powi k / 2 = 2 powi (k - 1)"
  by (simp add: power_int_diff)

lemma two_powi_quotient:
  assumes "j \<le> k"
  shows "of_int m * 2 powi k / 2 powi j = (of_int (m * 2 ^ nat (k - j)) :: rat)"
proof -
  have "(2::rat) powi k / 2 powi j = 2 powi (k - j)"
    by (simp only: power_int_diff[of "2::rat", simplified])
  also have "\<dots> = 2 ^ nat (k - j)" using assms by (simp add: power_int_nonneg_exp)
  finally have "(2::rat) powi k / 2 powi j = 2 ^ nat (k - j)" .
  then have "of_int m * ((2::rat) powi k / 2 powi j) = of_int m * 2 ^ nat (k - j)" by simp
  then show ?thesis by simp
qed

lemma round_double_exact:
  assumes x: "x = of_int m * 2 powi k" and m: "\<bar>m\<bar> < 2 ^ 53" and k: "- 1074 \<le> k"
    and fin: "\<bar>x\<bar> < 2 ^ 1024"
  shows "round_double x = Finite x"
proof (cases "x = 0")
  case True
  then show ?thesis by simp
next
  case False
  have "\<exists>j. quantum x = 2 powi j \<and> j \<le> k"
  using False
  proof (cases rule: quantum_cases)
    case (normal e)
    have "\<bar>x\<bar> = of_int \<bar>m\<bar> * 2 powi k" by (simp add: x abs_mult)
    also have "\<dots> < 2 ^ 53 * 2 powi k"
      using m by (intro mult_strict_right_mono) (simp_all add: of_int_less_numeral_power_cancel_iff)
    also have "\<dots> = 2 powi (53 + k)" by (simp add: power_int_add)
    finally have "(2::rat) powi e < 2 powi (53 + k)" using normal(2) by linarith
    then have "e - 52 \<le> k" by simp
    with normal(4) show ?thesis by blast
  next
    case subnormal
    with k show ?thesis by blast
  qed
  then obtain j where j: "quantum x = 2 powi j" "j \<le> k" by blast
  have "x / quantum x = x / 2 powi j" by (simp only: j(1))
  also have "\<dots> = of_int m * 2 powi k / 2 powi j" by (simp only: x)
  also have "\<dots> = of_int (m * 2 ^ nat (k - j))" by (rule two_powi_quotient[OF j(2)])
  finally have "x / quantum x = of_int (m * 2 ^ nat (k - j))" .
  then have "of_int (round_half_even (x / quantum x)) * quantum x = x / quantum x * quantum x"
    by (simp only: round_half_even_of_int)
  also have "\<dots> = x" by (simp add: j(1))
  finally show ?thesis using False fin by (simp add: round_double_Finite_iff)
qed

lemma round_double_finite:
  assumes "\<bar>x\<bar> \<le> 2 ^ 1023"
  shows "is_finite (round_double x)"
proof (cases "x = 0")
  case True
  then show ?thesis by simp
next
  case False
  define y where "y = of_int (round_half_even (x / quantum x)) * quantum x"
  have err: "\<bar>y - x\<bar> \<le> quantum x / 2"
    unfolding y_def by (rule round_to_quantum_error) simp
  have "quantum x / 2 \<le> 2 ^ 970"
  using False
  proof (cases rule: quantum_cases)
    case (normal e)
    have "(2::rat) powi e \<le> 2 powi 1023" using normal(2) assms by simp
    then have "e - 53 \<le> 970" by (simp only: two_powi_le_iff)
    then have "(2::rat) powi (e - 53) \<le> 2 powi 970" by (simp only: two_powi_le_iff)
    moreover have "quantum x / 2 = 2 powi (e - 53)" by (simp add: normal(4) two_powi_half)
    ultimately show ?thesis by simp
  next
    case subnormal
    have "(2::rat) powi (- 1075) \<le> 2 powi 970" by (simp only: two_powi_le_iff)
    moreover have "quantum x / 2 = 2 powi (- 1075)" by (simp add: subnormal(2) two_powi_half)
    ultimately show ?thesis by simp
  qed
  with err assms have "\<bar>y\<bar> \<le> 2 ^ 1023 + 2 ^ 970" by linarith
  also have "\<dots> < (2::rat) ^ 1024" by simp
  finally have "\<bar>y\<bar> < 2 ^ 1024" .
  then have "round_double x = Finite y"
    using False by (simp add: round_double_Finite_iff y_def)
  then show ?thesis by simp
qed

lemma round_double_eq_zero:
  assumes "round_double x = Finite 0"
  shows "\<bar>x\<bar> \<le> 2 powi (- 1075)"
proof (cases "x = 0")
  case True
  then show ?thesis by simp
next
  case False
  from round_double_error_quantum[OF assms] have err: "\<bar>x\<bar> \<le> quantum x / 2" by simp
  show ?thesis
  using False
  proof (cases rule: quantum_cases)
    case (normal e)
    have "quantum x / 2 = 2 powi (e - 53)" by (simp add: normal(4) two_powi_half)
    with err normal(2) have "(2::rat) powi e \<le> 2 powi (e - 53)" by linarith
    then show ?thesis by (simp only: two_powi_le_iff)
  next
    case subnormal
    have "quantum x / 2 = 2 powi (- 1075)" by (simp add: subnormal(2) two_powi_half)
    with err show ?thesis by simp
  qed
qed

section \<open>Conversions from \<open>int\<close>\<close>

lemma float_of_int_fits:
  assumes "int_fits i"
  obtains y where "float_of_int i = Inr (Finite y)" "round_double (of_int i) = Finite y"
  using assms by (cases "round_double (of_int i)") (simp_all add: int_fits_def float_of_int_def)

lemma float_of_int_InrD:
  assumes "float_of_int i = Inr b"
  shows "int_fits i \<and> b = round_double (of_int i)"
  using assms by (cases "round_double (of_int i)") (auto simp add: int_fits_def float_of_int_def)

lemma float_of_int_nonzero:
  assumes "float_of_int i = Inr b" "i \<noteq> 0"
  shows "b \<noteq> Finite 0"
proof
  assume "b = Finite 0"
  with float_of_int_InrD[OF assms(1)] have "round_double (of_int i) = Finite 0" by simp
  then have "\<bar>of_int i :: rat\<bar> \<le> 2 powi (- 1075)" by (rule round_double_eq_zero)
  moreover have "(2::rat) powi (- 1075) < 2 powi 0" by (simp only: two_powi_less_iff)
  ultimately have "\<bar>of_int i :: rat\<bar> < 2 powi 0" by (rule le_less_trans)
  then have "\<bar>of_int i :: rat\<bar> < 1" by simp
  then have "\<bar>i\<bar> < 1" by (simp only: of_int_abs[symmetric] of_int_less_1_iff)
  with assms(2) show False by simp
qed

lemma float_mul_int_fits:
  assumes "int_fits i"
  shows "\<exists>v. float_mul_int a i = Inr v"
proof -
  from float_of_int_fits[OF assms] obtain y where "float_of_int i = Inr (Finite y)" by blast
  then show ?thesis by (simp add: float_mul_int_def)
qed

lemma float_truediv_int_fits:
  assumes "int_fits i" "i \<noteq> 0"
  shows "\<exists>v. float_truediv_int a i = Inr v"
proof -
  from float_of_int_fits[OF assms(1)] obtain y where y: "float_of_int i = Inr (Finite y)" by blast
  from y assms(2) have "Finite y \<noteq> Finite 0" by (rule float_of_int_nonzero)
  then show ?thesis using float_truediv_nonzero[of "Finite y" a] by (simp add: float_truediv_int_def y)
qed

lemma int_truediv_2_returns:
  assumes "b \<noteq> 0"
  shows "\<exists>y. int_truediv 2 b = Inr (Finite y)"
proof -
  have "1 \<le> \<bar>b\<bar>" using assms by simp
  then have b1: "1 \<le> \<bar>of_int b :: rat\<bar>" by (simp only: of_int_abs[symmetric] of_int_1_le_iff)
  have "\<bar>2 / of_int b :: rat\<bar> = 2 / \<bar>of_int b\<bar>" by simp
  also have "\<dots> \<le> 2 / 1" using b1 by (intro divide_left_mono) simp_all
  also have "\<dots> = 2 ^ 1" by simp
  also have "\<dots> \<le> (2::rat) ^ 1023" by (rule power_increasing) simp_all
  finally have "is_finite (round_double (2 / of_int b))" by (rule round_double_finite)
  then show ?thesis using assms
    by (cases "round_double (2 / of_int b)") (simp_all add: int_truediv_def)
qed

section \<open>The equations of a successful run\<close>

lemma float_truediv_int_zero [simp]: "float_truediv_int a 0 = Inl ZeroDivisionError"
  by (simp add: float_truediv_int_def)

lemma float_mul_int_eq:
  assumes "int_fits i"
  shows "float_mul_int a i = Inr (float_mul a (round_double (of_int i)))"
proof -
  from float_of_int_fits[OF assms] obtain y
    where "float_of_int i = Inr (Finite y)" "round_double (of_int i) = Finite y" by blast
  then show ?thesis by (simp add: float_mul_int_def)
qed

lemma compute_income_fields:
  assumes "compute_income cfg = Inr r"
  shows "float_truediv (xp_cash_numer cfg) (xp_cash_denom cfg) = Inr (yen_per_xp r)
    \<and> treasures_per_hour r = float_mul (catches_per_hour cfg) (treasure_rate cfg)
    \<and> float_truediv_int (treasures_per_hour r) (treasure_types cfg) = Inr (books_per_hour r)
    \<and> mending_books_per_hour r = float_mul (books_per_hour r) (book_mending_rate cfg)
    \<and> mending_single_books r
          = float_mul (mending_books_per_hour r) (book_mending_single_rate cfg)
    \<and> mending_multi_books r
          = float_mul (mending_books_per_hour r) (book_mending_multi_rate cfg)
    \<and> (\<exists>rm_single rm_multi.
          float_mul_int (mending_single_books r) (price_mending_single cfg) = Inr rm_single
          \<and> float_mul_int (mending_multi_books r) (price_mending_multi cfg) = Inr rm_multi
          \<and> revenue_mending r = float_add rm_single rm_multi)
    \<and> sellable_non_mending_books r
          = float_mul (books_per_hour r)
              (float_add (float_add (book_smite_only_rate cfg) (book_bane_only_rate cfg))
                 (book_unb3_only_rate cfg))
    \<and> (\<exists>rn_smite rn_bane rn_unb3.
          float_mul_int (float_mul (books_per_hour r) (book_smite_only_rate cfg))
              (price_smite_only cfg) = Inr rn_smite
          \<and> float_mul_int (float_mul (books_per_hour r) (book_bane_only_rate cfg))
              (price_bane_only cfg) = Inr rn_bane
          \<and> float_mul_int (float_mul (books_per_hour r) (book_unb3_only_rate cfg))
              (price_unb3_only cfg) = Inr rn_unb3
          \<and> revenue_non_mending r = float_add (float_add rn_smite rn_bane) rn_unb3)
    \<and> grind_books r
          = float_sub (float_sub (books_per_hour r) (mending_books_per_hour r))
              (sellable_non_mending_books r)
    \<and> xp_from_books r
          = float_mul (float_mul (grind_books r) (avg_enchants_per_book cfg))
              (avg_xp_per_enchant cfg)
    \<and> yen_from_books r = float_mul (xp_from_books r) (yen_per_xp r)
    \<and> (\<exists>two_per_type. int_truediv 2 (treasure_types cfg) = Inr two_per_type
          \<and> tools_per_hour r = float_mul (treasures_per_hour r) two_per_type)
    \<and> xp_from_tools r
          = float_mul (float_mul (tools_per_hour r) (avg_enchants_per_tool cfg))
              (avg_xp_per_enchant cfg)
    \<and> yen_from_tools r = float_mul (xp_from_tools r) (yen_per_xp r)
    \<and> xp_from_fishing r = float_mul (catches_per_hour cfg) (avg_xp_per_catch cfg)
    \<and> yen_from_fishing r = float_mul (xp_from_fishing r) (yen_per_xp r)
    \<and> fish_per_hour r
          = float_mul (catches_per_hour cfg) (float_sub (py_float 1) (treasure_rate cfg))
    \<and> cod r = float_mul (fish_per_hour r) (fish_rate_cod cfg)
    \<and> salmon r = float_mul (fish_per_hour r) (fish_rate_salmon cfg)
    \<and> puffer r = float_mul (fish_per_hour r) (fish_rate_puffer cfg)
    \<and> tropical r = float_mul (fish_per_hour r) (fish_rate_tropical cfg)
    \<and> (\<exists>rf_cod rf_salmon rf_puffer rf_tropical.
          float_mul_int (cod r) (fish_price_cod cfg) = Inr rf_cod
          \<and> float_mul_int (salmon r) (fish_price_salmon cfg) = Inr rf_salmon
          \<and> float_mul_int (puffer r) (fish_price_puffer cfg) = Inr rf_puffer
          \<and> float_mul_int (tropical r) (fish_price_tropical cfg) = Inr rf_tropical
          \<and> revenue_fish r
              = float_add (float_add (float_add rf_cod rf_salmon) rf_puffer) rf_tropical)
    \<and> total_yen_per_hour r
          = float_add (float_add (float_add (float_add (float_add
              (revenue_fish r) (yen_from_fishing r)) (revenue_mending r))
              (revenue_non_mending r)) (yen_from_books r)) (yen_from_tools r)"
  using assms unfolding compute_income_def
  apply (simp only: py_bind_Inr_iff Let_def sum.inject)
  apply (elim exE conjE)
  apply hypsubst
  apply (intro conjI)
  apply simp_all
  done

lemma compute_income_returns:
  assumes den: "xp_cash_denom cfg \<noteq> Finite 0" and tt: "treasure_types cfg \<noteq> 0"
    and fits: "ints_fit cfg"
  shows "\<exists>r. compute_income cfg = Inr r"
proof -
  from den obtain q where q: "float_truediv (xp_cash_numer cfg) (xp_cash_denom cfg) = Inr q"
    using float_truediv_nonzero by blast
  from fits have f: "int_fits (treasure_types cfg)"
    "int_fits (price_mending_single cfg)" "int_fits (price_mending_multi cfg)"
    "int_fits (price_smite_only cfg)" "int_fits (price_bane_only cfg)"
    "int_fits (price_unb3_only cfg)"
    "int_fits (fish_price_cod cfg)" "int_fits (fish_price_salmon cfg)"
    "int_fits (fish_price_puffer cfg)" "int_fits (fish_price_tropical cfg)"
    by (simp_all add: ints_fit_def)
  from float_truediv_int_fits[OF f(1) tt] obtain bk where bk:
    "float_truediv_int (float_mul (catches_per_hour cfg) (treasure_rate cfg)) (treasure_types cfg)
      = Inr bk" by blast
  from int_truediv_2_returns[OF tt] obtain two where two:
    "int_truediv 2 (treasure_types cfg) = Inr (Finite two)" by blast
  show ?thesis
    unfolding compute_income_def
    apply (simp only: q bk two f(2-10)[THEN float_mul_int_eq] py_bind_Inr Let_def)
    apply (rule exI)
    apply (rule refl)
    done
qed

lemmas ci_yen_per_xp = compute_income_fields[THEN conjunct1]
lemmas ci_treasures = compute_income_fields[THEN conjunct2, THEN conjunct1]
lemmas ci_books = compute_income_fields[THEN conjunct2, THEN conjunct2, THEN conjunct1]
lemmas ci_mending = compute_income_fields[THEN conjunct2, THEN conjunct2, THEN conjunct2, THEN conjunct1]
lemmas ci_mending_single = compute_income_fields[THEN conjunct2, THEN conjunct2, THEN conjunct2, THEN conjunct2, THEN conjunct1]
lemmas ci_mending_multi = compute_income_fields[THEN conjunct2, THEN conjunct2, THEN conjunct2, THEN conjunct2, THEN conjunct2, THEN conjunct1]
lemmas ci_revenue_mending = compute_income_fields[THEN conjunct2, THEN conjunct2, THEN conjunct2, THEN conjunct2, THEN conjunct2, THEN conjunct2, THEN conjunct1]
lemmas ci_sellable = compute_income_fields[THEN conjunct2, THEN conjunct2, THEN conjunct2, THEN conjunct2, THEN conjunct2, THEN conjunct2, THEN conjunct2, THEN conjunct1]
lemmas ci_revenue_non_mending = compute_income_fields[THEN conjunct2, THEN conjunct2, THEN conjunct2, THEN conjunct2, THEN conjunct2, THEN conjunct2, THEN conjunct2, THEN conjunct2, THEN conjunct1]
lemmas ci_grind = compute_income_fields[THEN conjunct2, THEN conjunct2, THEN conjunct2, THEN conjunct2, THEN conjunct2, THEN conjunct2, THEN conjunct2, THEN conjunct2, THEN conjunct2, THEN conjunct1]
lemmas ci_xp_from_books = compute_income_fields[THEN conjunct2, THEN conjunct2, THEN conjunct2, THEN conjunct2, THEN conjunct2, THEN conjunct2, THEN conjunct2, THEN conjunct2, THEN conjunct2, THEN conjunct2, THEN conjunct1]
lemmas ci_yen_from_books = compute_income_fields[THEN conjunct2, THEN conjunct2, THEN conjunct2, THEN conjunct2, THEN conjunct2, THEN conjunct2, THEN conjunct2, THEN conjunct2, THEN conjunct2, THEN conjunct2, THEN conjunct2, THEN conjunct1]
lemmas ci_tools = compute_income_fields[THEN conjunct2, THEN conjunct2, THEN conjunct2, THEN conjunct2, THEN conjunct2, THEN conjunct2, THEN conjunct2, THEN conjunct2, THEN conjunct2, THEN conjunct2, THEN conjunct2, THEN conjunct2, THEN conjunct1]
lemmas ci_xp_from_tools = compute_income_fields[THEN conjunct2, THEN conjunct2, THEN conjunct2, THEN conjunct2, THEN conjunct2, THEN conjunct2, THEN conjunct2, THEN conjunct2, THEN conjunct2, THEN conjunct2, THEN conjunct2, THEN conjunct2, THEN conjunct2, THEN conjunct1]
lemmas ci_yen_from_tools = compute_income_fields[THEN conjunct2, THEN conjunct2, THEN conjunct2, THEN conjunct2, THEN conjunct2, THEN conjunct2, THEN conjunct2, THEN conjunct2, THEN conjunct2, THEN conjunct2, THEN conjunct2, THEN conjunct2, THEN conjunct2, THEN conjunct2, THEN conjunct1]
lemmas ci_xp_from_fishing = compute_income_fields[THEN conjunct2, THEN conjunct2, THEN conjunct2, THEN conjunct2, THEN conjunct2, THEN conjunct2, THEN conjunct2, THEN conjunct2, THEN conjunct2, THEN conjunct2, THEN conjunct2, THEN conjunct2, THEN conjunct2, THEN conjunct2, THEN conjunct2, THEN conjunct1]
lemmas ci_yen_from_fishing = compute_income_fields[THEN conjunct2, THEN conjunct2, THEN conjunct2, THEN conjunct2, THEN conjunct2, THEN conjunct2, THEN conjunct2, THEN conjunct2, THEN conjunct2, THEN conjunct2, THEN conjunct2, THEN conjunct2, THEN conjunct2, THEN conjunct2, THEN conjunct2, THEN conjunct2, THEN conjunct1]
lemmas ci_fish = compute_income_fields[THEN conjunct2, THEN conjunct2, THEN conjunct2, THEN conjunct2, THEN conjunct2, THEN conjunct2, THEN conjunct2, THEN conjunct2, THEN conjunct2, THEN conjunct2, THEN conjunct2, THEN conjunct2, THEN conjunct2, THEN conjunct2, THEN conjunct2, THEN conjunct2, THEN conjunct2, THEN conjunct1]
lemmas ci_cod = compute_income_fields[THEN conjunct2, THEN conjunct2, THEN conjunct2, THEN conjunct2, THEN conjunct2, THEN conjunct2, THEN conjunct2, THEN conjunct2, THEN conjunct2, THEN conjunct2, THEN conjunct2, THEN conjunct2, THEN conjunct2, THEN conjunct2, THEN conjunct2, THEN conjunct2, THEN conjunct2, THEN conjunct2, THEN conjunct1]
lemmas ci_salmon = compute_income_fields[THEN conjunct2, THEN conjunct2, THEN conjunct2, THEN conjunct2, THEN conjunct2, THEN conjunct2, THEN conjunct2, THEN conjunct2, THEN conjunct2, THEN conjunct2, THEN conjunct2, THEN conjunct2, THEN conjunct2, THEN conjunct2, THEN conjunct2, THEN conjunct2, THEN conjunct2, THEN conjunct2, THEN conjunct2, THEN conjunct1]
lemmas ci_puffer = compute_income_fields[THEN conjunct2, THEN conjunct2, THEN conjunct2, THEN conjunct2, THEN conjunct2, THEN conjunct2, THEN conjunct2, THEN conjunct2, THEN conjunct2, THEN conjunct2, THEN conjunct2, THEN conjunct2, THEN conjunct2, THEN conjunct2, THEN conjunct2, THEN conjunct2, THEN conjunct2, THEN conjunct2, THEN conjunct2, THEN conjunct2, THEN conjunct1]
lemmas ci_tropical = compute_income_fields[THEN conjunct2, THEN conjunct2, THEN conjunct2, THEN conjunct2, THEN conjunct2, THEN conjunct2, THEN conjunct2, THEN conjunct2, THEN conjunct2, THEN conjunct2, THEN conjunct2, THEN conjunct2, THEN conjunct2, THEN conjunct2, THEN conjunct2, THEN conjunct2, THEN conjunct2, THEN conjunct2, THEN conjunct2, THEN conjunct2, THEN conjunct2, THEN conjunct1]
lemmas ci_revenue_fish = compute_income_fields[THEN conjunct2, THEN conjunct2, THEN conjunct2, THEN conjunct2, THEN conjunct2, THEN conjunct2, THEN conjunct2, THEN conjunct2, THEN conjunct2, THEN conjunct2, THEN conjunct2, THEN conjunct2, THEN conjunct2, THEN conjunct2, THEN conjunct2, THEN conjunct2, THEN conjunct2, THEN conjunct2, THEN conjunct2, THEN conjunct2, THEN conjunct2, THEN conjunct2, THEN conjunct1]

section \<open>Evaluating the model on concrete numbers\<close>

lemma round_half_even_tieI:
  assumes "\<bar>y - of_int n\<bar> = 1 / 2" "even n"
  shows "round_half_even y = n"
proof -
  consider "y = of_int n + 1 / 2" | "y = of_int n - 1 / 2"
    using assms(1) by (auto simp: abs_if split: if_splits)
  then show ?thesis
  proof cases
    case 1
    have "\<lfloor>y\<rfloor> = n" unfolding 1 by (intro floor_unique) simp_all
    then show ?thesis using 1 assms(2) by (simp add: round_half_even_def Let_def)
  next
    case 2
    have "of_int (n - 1) \<le> y" "y < of_int (n - 1) + 1" unfolding 2 by simp_all
    then have "\<lfloor>y\<rfloor> = n - 1" by (intro floor_unique)
    then show ?thesis using 2 assms(2) by (simp add: round_half_even_def Let_def)
  qed
qed

lemma round_double_evalI:
  assumes "2 powi e \<le> \<bar>x\<bar>" "\<bar>x\<bar> < 2 powi (e + 1)"
    and "\<bar>x / 2 powi (max e (- 1022) - 52) - of_int n\<bar> < 1 / 2
         \<or> \<bar>x / 2 powi (max e (- 1022) - 52) - of_int n\<bar> = 1 / 2 \<and> even n"
    and "y = of_int n * 2 powi (max e (- 1022) - 52)"
    and "\<bar>y\<bar> < 2 ^ 1024"
  shows "round_double x = Finite y"
proof -
  have "x \<noteq> 0" using assms(1) by (rule abs_pos_of_two_powi_le)
  moreover have "quantum x = 2 powi (max e (- 1022) - 52)" using assms(1,2) by (rule quantum_eqI)
  moreover have "round_half_even (x / 2 powi (max e (- 1022) - 52)) = n"
    using assms(3) round_half_even_eqI round_half_even_tieI by blast
  ultimately show ?thesis using assms(4,5) by (simp add: round_double_Finite_iff)
qed

lemma default_run: "compute_income default_config = Inr default_result"
proof -
  have d1: "py_float 500 = Finite 500"
    unfolding py_float_def by (rule round_double_evalI[where e = "8" and n = "8796093022208000"]) simp_all
  have d2: "py_float (113 / 1000) = Finite (8142508126285857 / 72057594037927936)"
    unfolding py_float_def by (rule round_double_evalI[where e = "- 4" and n = "8142508126285857"]) simp_all
  have d3: "py_float (60 / 100) = Finite (5404319552844595 / 9007199254740992)"
    unfolding py_float_def by (rule round_double_evalI[where e = "- 1" and n = "5404319552844595"]) simp_all
  have d4: "py_float (25 / 100) = Finite (1 / 4)"
    unfolding py_float_def by (rule round_double_evalI[where e = "- 2" and n = "4503599627370496"]) simp_all
  have d5: "py_float (13 / 100) = Finite (1170935903116329 / 9007199254740992)"
    unfolding py_float_def by (rule round_double_evalI[where e = "- 3" and n = "4683743612465316"]) simp_all
  have d6: "py_float (2 / 100) = Finite (5764607523034235 / 288230376151711744)"
    unfolding py_float_def by (rule round_double_evalI[where e = "- 6" and n = "5764607523034235"]) simp_all
  have d7: "py_float (377 / 10000) = Finite (2716571295229883 / 72057594037927936)"
    unfolding py_float_def by (rule round_double_evalI[where e = "- 5" and n = "5433142590459766"]) simp_all
  have d8: "py_float (409 / 1000) = Finite (7367888990378131 / 18014398509481984)"
    unfolding py_float_def by (rule round_double_evalI[where e = "- 2" and n = "7367888990378131"]) simp_all
  have d9: "py_float (591 / 1000) = Finite (2661627379775963 / 4503599627370496)"
    unfolding py_float_def by (rule round_double_evalI[where e = "- 1" and n = "5323254759551926"]) simp_all
  have d10: "py_float (74 / 10000) = Finite (2132904783522667 / 288230376151711744)"
    unfolding py_float_def by (rule round_double_evalI[where e = "- 8" and n = "8531619134090668"]) simp_all
  have d11: "py_float (49 / 10000) = Finite (2824657686286775 / 576460752303423488)"
    unfolding py_float_def by (rule round_double_evalI[where e = "- 8" and n = "5649315372573550"]) simp_all
  have d12: "py_float (143 / 10000) = Finite (2060847189484739 / 144115188075855872)"
    unfolding py_float_def by (rule round_double_evalI[where e = "- 7" and n = "8243388757938956"]) simp_all
  have d13: "py_float (211 / 100) = Finite (4751297606875873 / 2251799813685248)"
    unfolding py_float_def by (rule round_double_evalI[where e = "1" and n = "4751297606875873"]) simp_all
  have d14: "py_float 25 = Finite 25"
    unfolding py_float_def by (rule round_double_evalI[where e = "4" and n = "7036874417766400"]) simp_all
  have d15: "py_float (35 / 10) = Finite (7 / 2)"
    unfolding py_float_def by (rule round_double_evalI[where e = "1" and n = "7881299347898368"]) simp_all
  have d16: "py_float 40 = Finite 40"
    unfolding py_float_def by (rule round_double_evalI[where e = "5" and n = "5629499534213120"]) simp_all
  have d17: "py_float 12 = Finite 12"
    unfolding py_float_def by (rule round_double_evalI[where e = "3" and n = "6755399441055744"]) simp_all
  have d18: "py_float 3 = Finite 3"
    unfolding py_float_def by (rule round_double_evalI[where e = "1" and n = "6755399441055744"]) simp_all
  have d19: "float_truediv (Finite 40) (Finite 12) = Inr (Finite (7505999378950827 / 2251799813685248))"
    proof -
    have "round_double (40 / 12) = Finite (7505999378950827 / 2251799813685248)"
      by (rule round_double_evalI[where e = "1" and n = "7505999378950827"]) simp_all
    then show ?thesis by simp
  qed
  have d20: "float_mul (Finite 500) (Finite (8142508126285857 / 72057594037927936)) = Finite (113 / 2)"
    unfolding float_mul.simps by (rule round_double_evalI[where e = "5" and n = "7951668092076032"]) simp_all
  have d21: "float_of_int 6 = Inr (Finite 6)"
    proof -
    have "round_double 6 = Finite 6"
      by (rule round_double_evalI[where e = "2" and n = "6755399441055744"]) simp_all
    then show ?thesis by (simp add: float_of_int_def)
  qed
  have d22: "float_truediv (Finite (113 / 2)) (Finite 6) = Inr (Finite (5301112061384021 / 562949953421312))"
    proof -
    have "round_double ((113 / 2) / 6) = Finite (5301112061384021 / 562949953421312)"
      by (rule round_double_evalI[where e = "3" and n = "5301112061384021"]) simp_all
    then show ?thesis by simp
  qed
  have d23: "float_mul (Finite (5301112061384021 / 562949953421312)) (Finite (2716571295229883 / 72057594037927936)) = Finite (3197630795426841 / 9007199254740992)"
    unfolding float_mul.simps by (rule round_double_evalI[where e = "- 2" and n = "6395261590853682"]) simp_all
  have d24: "float_mul (Finite (3197630795426841 / 9007199254740992)) (Finite (7367888990378131 / 18014398509481984)) = Finite (653915497664789 / 4503599627370496)"
    unfolding float_mul.simps by (rule round_double_evalI[where e = "- 3" and n = "5231323981318312"]) simp_all
  have d25: "float_mul (Finite (3197630795426841 / 9007199254740992)) (Finite (2661627379775963 / 4503599627370496)) = Finite (1889799800097263 / 9007199254740992)"
    unfolding float_mul.simps by (rule round_double_evalI[where e = "- 3" and n = "7559199200389052"]) simp_all
  have d26: "float_of_int 220000 = Inr (Finite 220000)"
    proof -
    have "round_double 220000 = Finite 220000"
      by (rule round_double_evalI[where e = "17" and n = "7559142440960000"]) simp_all
    then show ?thesis by (simp add: float_of_int_def)
  qed
  have d27: "float_mul (Finite (653915497664789 / 4503599627370496)) (Finite 220000) = Finite (8780603606338719 / 274877906944)"
    unfolding float_mul.simps by (rule round_double_evalI[where e = "14" and n = "8780603606338719"]) simp_all
  have d28: "float_of_int 120000 = Inr (Finite 120000)"
    proof -
    have "round_double 120000 = Finite 120000"
      by (rule round_double_evalI[where e = "16" and n = "8246337208320000"]) simp_all
    then show ?thesis by (simp add: float_of_int_def)
  qed
  have d29: "float_mul (Finite (1889799800097263 / 9007199254740992)) (Finite 120000) = Finite (6920653564809313 / 274877906944)"
    unfolding float_mul.simps by (rule round_double_evalI[where e = "14" and n = "6920653564809313"]) simp_all
  have d30: "float_add (Finite (8780603606338719 / 274877906944)) (Finite (6920653564809313 / 274877906944)) = Finite (61333035824797 / 1073741824)"
    unfolding float_add.simps by (rule round_double_evalI[where e = "15" and n = "7850628585574016"]) simp_all
  have d31: "float_add (Finite (2132904783522667 / 288230376151711744)) (Finite (2824657686286775 / 576460752303423488)) = Finite (7090467253332109 / 576460752303423488)"
    unfolding float_add.simps by (rule round_double_evalI[where e = "- 7" and n = "7090467253332109"]) simp_all
  have d32: "float_add (Finite (7090467253332109 / 576460752303423488)) (Finite (2060847189484739 / 144115188075855872)) = Finite (1916732001408883 / 72057594037927936)"
    unfolding float_add.simps by (rule round_double_evalI[where e = "- 6" and n = "7666928005635532"]) simp_all
  have d33: "float_mul (Finite (5301112061384021 / 562949953421312)) (Finite (1916732001408883 / 72057594037927936)) = Finite (2256153293325039 / 9007199254740992)"
    unfolding float_mul.simps by (rule round_double_evalI[where e = "- 2" and n = "4512306586650078"]) simp_all
  have d34: "float_mul (Finite (5301112061384021 / 562949953421312)) (Finite (2132904783522667 / 288230376151711744)) = Finite (5021213344542945 / 72057594037927936)"
    unfolding float_mul.simps by (rule round_double_evalI[where e = "- 4" and n = "5021213344542945"]) simp_all
  have d35: "float_of_int 15000 = Inr (Finite 15000)"
    proof -
    have "round_double 15000 = Finite 15000"
      by (rule round_double_evalI[where e = "13" and n = "8246337208320000"]) simp_all
    then show ?thesis by (simp add: float_of_int_def)
  qed
  have d36: "float_mul (Finite (5021213344542945 / 72057594037927936)) (Finite 15000) = Finite (4181 / 4)"
    unfolding float_mul.simps by (rule round_double_evalI[where e = "10" and n = "4597058115731456"]) simp_all
  have d37: "float_mul (Finite (5301112061384021 / 562949953421312)) (Finite (2824657686286775 / 576460752303423488)) = Finite (1662428742450029 / 36028797018963968)"
    unfolding float_mul.simps by (rule round_double_evalI[where e = "- 5" and n = "6649714969800116"]) simp_all
  have d38: "float_mul (Finite (1662428742450029 / 36028797018963968)) (Finite 15000) = Finite (5537 / 8)"
    unfolding float_mul.simps by (rule round_double_evalI[where e = "9" and n = "6087995882995712"]) simp_all
  have d39: "float_mul (Finite (5301112061384021 / 562949953421312)) (Finite (2060847189484739 / 144115188075855872)) = Finite (151611804955583 / 1125899906842624)"
    unfolding float_mul.simps by (rule round_double_evalI[where e = "- 3" and n = "4851577758578656"]) simp_all
  have d40: "float_of_int 5000 = Inr (Finite 5000)"
    proof -
    have "round_double 5000 = Finite 5000"
      by (rule round_double_evalI[where e = "12" and n = "5497558138880000"]) simp_all
    then show ?thesis by (simp add: float_of_int_def)
  qed
  have d41: "float_mul (Finite (151611804955583 / 1125899906842624)) (Finite 5000) = Finite (5922336131077461 / 8796093022208)"
    unfolding float_mul.simps by (rule round_double_evalI[where e = "9" and n = "5922336131077461"]) simp_all
  have d42: "float_add (Finite (4181 / 4)) (Finite (5537 / 8)) = Finite (13899 / 8)"
    unfolding float_add.simps by (rule round_double_evalI[where e = "10" and n = "7641056057229312"]) simp_all
  have d43: "float_add (Finite (13899 / 8)) (Finite (5922336131077461 / 8796093022208)) = Finite (5301112061384021 / 2199023255552)"
    unfolding float_add.simps by (rule round_double_evalI[where e = "11" and n = "5301112061384021"]) simp_all
  have d44: "float_sub (Finite (5301112061384021 / 562949953421312)) (Finite (3197630795426841 / 9007199254740992)) = Finite (5101260136669843 / 562949953421312)"
    unfolding float_sub.simps by (rule round_double_evalI[where e = "3" and n = "5101260136669843"]) simp_all
  have d45: "float_sub (Finite (5101260136669843 / 562949953421312)) (Finite (2256153293325039 / 9007199254740992)) = Finite (1240062638959257 / 140737488355328)"
    unfolding float_sub.simps by (rule round_double_evalI[where e = "3" and n = "4960250555837028"]) simp_all
  have d46: "float_mul (Finite (1240062638959257 / 140737488355328)) (Finite (4751297606875873 / 2251799813685248)) = Finite (10220828782047 / 549755813888)"
    unfolding float_mul.simps by (rule round_double_evalI[where e = "4" and n = "5233064336408064"]) simp_all
  have d47: "float_mul (Finite (10220828782047 / 549755813888)) (Finite 25) = Finite (255520719551175 / 549755813888)"
    unfolding float_mul.simps by (rule round_double_evalI[where e = "8" and n = "8176663025637600"]) simp_all
  have d48: "float_mul (Finite (255520719551175 / 549755813888)) (Finite (7505999378950827 / 2251799813685248)) = Finite (425867865918625 / 274877906944)"
    unfolding float_mul.simps by (rule round_double_evalI[where e = "10" and n = "6813885854698000"]) simp_all
  have d49: "int_truediv 2 6 = Inr (Finite (6004799503160661 / 18014398509481984))"
    proof -
    have "round_double (1 / 3) = Finite (6004799503160661 / 18014398509481984)"
      by (rule round_double_evalI[where e = "- 2" and n = "6004799503160661"]) simp_all
    then show ?thesis by (simp add: int_truediv_def)
  qed
  have d50: "float_mul (Finite (113 / 2)) (Finite (6004799503160661 / 18014398509481984)) = Finite (5301112061384021 / 281474976710656)"
    unfolding float_mul.simps by (rule round_double_evalI[where e = "4" and n = "5301112061384021"]) simp_all
  have d51: "float_mul (Finite (5301112061384021 / 281474976710656)) (Finite 3) = Finite (113 / 2)"
    unfolding float_mul.simps by (rule round_double_evalI[where e = "5" and n = "7951668092076032"]) simp_all
  have d52: "float_mul (Finite (113 / 2)) (Finite 25) = Finite (2825 / 2)"
    unfolding float_mul.simps by (rule round_double_evalI[where e = "10" and n = "6212240696934400"]) simp_all
  have d53: "float_mul (Finite (2825 / 2)) (Finite (7505999378950827 / 2251799813685248)) = Finite (2588433623722667 / 549755813888)"
    unfolding float_mul.simps by (rule round_double_evalI[where e = "12" and n = "5176867247445334"]) simp_all
  have d54: "float_mul (Finite 500) (Finite (7 / 2)) = Finite 1750"
    unfolding float_mul.simps by (rule round_double_evalI[where e = "10" and n = "7696581394432000"]) simp_all
  have d55: "float_mul (Finite 1750) (Finite (7505999378950827 / 2251799813685248)) = Finite (3206908914346667 / 549755813888)"
    unfolding float_mul.simps by (rule round_double_evalI[where e = "12" and n = "6413817828693334"]) simp_all
  have d56: "py_float 1 = Finite 1"
    unfolding py_float_def by (rule round_double_evalI[where e = "0" and n = "4503599627370496"]) simp_all
  have d57: "float_sub (Finite 1) (Finite (8142508126285857 / 72057594037927936)) = Finite (1997346434738815 / 2251799813685248)"
    unfolding float_sub.simps by (rule round_double_evalI[where e = "- 1" and n = "7989385738955260"]) simp_all
  have d58: "float_mul (Finite 500) (Finite (1997346434738815 / 2251799813685248)) = Finite (887 / 2)"
    unfolding float_mul.simps by (rule round_double_evalI[where e = "8" and n = "7802134510698496"]) simp_all
  have d59: "float_mul (Finite (887 / 2)) (Finite (5404319552844595 / 9007199254740992)) = Finite (4681280706419097 / 17592186044416)"
    unfolding float_mul.simps by (rule round_double_evalI[where e = "8" and n = "4681280706419097"]) simp_all
  have d60: "float_mul (Finite (887 / 2)) (Finite (1 / 4)) = Finite (887 / 8)"
    unfolding float_mul.simps by (rule round_double_evalI[where e = "6" and n = "7802134510698496"]) simp_all
  have d61: "float_mul (Finite (887 / 2)) (Finite (1170935903116329 / 9007199254740992)) = Finite (2028554972781609 / 35184372088832)"
    unfolding float_mul.simps by (rule round_double_evalI[where e = "5" and n = "8114219891126436"]) simp_all
  have d62: "float_mul (Finite (887 / 2)) (Finite (5764607523034235 / 288230376151711744)) = Finite (2496683043423519 / 281474976710656)"
    unfolding float_mul.simps by (rule round_double_evalI[where e = "3" and n = "4993366086847038"]) simp_all
  have d63: "float_of_int 20 = Inr (Finite 20)"
    proof -
    have "round_double 20 = Finite 20"
      by (rule round_double_evalI[where e = "4" and n = "5629499534213120"]) simp_all
    then show ?thesis by (simp add: float_of_int_def)
  qed
  have d64: "float_mul (Finite (4681280706419097 / 17592186044416)) (Finite 20) = Finite (5851600883023871 / 1099511627776)"
    unfolding float_mul.simps by (rule round_double_evalI[where e = "12" and n = "5851600883023871"]) simp_all
  have d65: "float_of_int 80 = Inr (Finite 80)"
    proof -
    have "round_double 80 = Finite 80"
      by (rule round_double_evalI[where e = "6" and n = "5629499534213120"]) simp_all
    then show ?thesis by (simp add: float_of_int_def)
  qed
  have d66: "float_mul (Finite (887 / 8)) (Finite 80) = Finite 8870"
    unfolding float_mul.simps by (rule round_double_evalI[where e = "13" and n = "4876334069186560"]) simp_all
  have d67: "float_of_int 180 = Inr (Finite 180)"
    proof -
    have "round_double 180 = Finite 180"
      by (rule round_double_evalI[where e = "7" and n = "6333186975989760"]) simp_all
    then show ?thesis by (simp add: float_of_int_def)
  qed
  have d68: "float_mul (Finite (2028554972781609 / 35184372088832)) (Finite 180) = Finite (5705310860948275 / 549755813888)"
    unfolding float_mul.simps by (rule round_double_evalI[where e = "13" and n = "5705310860948275"]) simp_all
  have d69: "float_of_int 400 = Inr (Finite 400)"
    proof -
    have "round_double 400 = Finite 400"
      by (rule round_double_evalI[where e = "8" and n = "7036874417766400"]) simp_all
    then show ?thesis by (simp add: float_of_int_def)
  qed
  have d70: "float_mul (Finite (2496683043423519 / 281474976710656)) (Finite 400) = Finite (7802134510698497 / 2199023255552)"
    unfolding float_mul.simps by (rule round_double_evalI[where e = "11" and n = "7802134510698497"]) simp_all
  have d71: "float_add (Finite (5851600883023871 / 1099511627776)) (Finite 8870) = Finite 14192"
    unfolding float_add.simps by (rule round_double_evalI[where e = "13" and n = "7802134510698496"]) simp_all
  have d72: "float_add (Finite 14192) (Finite (5705310860948275 / 549755813888)) = Finite (3376861342911693 / 137438953472)"
    unfolding float_add.simps by (rule round_double_evalI[where e = "14" and n = "6753722685823386"]) simp_all
  have d73: "float_add (Finite (3376861342911693 / 137438953472)) (Finite (7802134510698497 / 2199023255552)) = Finite (3864494749830349 / 137438953472)"
    unfolding float_add.simps by (rule round_double_evalI[where e = "14" and n = "7728989499660698"]) simp_all
  have d74: "float_add (Finite (3864494749830349 / 137438953472)) (Finite (3206908914346667 / 549755813888)) = Finite (583277747302127 / 17179869184)"
    unfolding float_add.simps by (rule round_double_evalI[where e = "15" and n = "4666221978417016"]) simp_all
  have d75: "float_add (Finite (583277747302127 / 17179869184)) (Finite (61333035824797 / 1073741824)) = Finite (1564606320498879 / 17179869184)"
    unfolding float_add.simps by (rule round_double_evalI[where e = "16" and n = "6258425281995516"]) simp_all
  have d76: "float_add (Finite (1564606320498879 / 17179869184)) (Finite (5301112061384021 / 2199023255552)) = Finite (6424085033913767 / 68719476736)"
    unfolding float_add.simps by (rule round_double_evalI[where e = "16" and n = "6424085033913767"]) simp_all
  have d77: "float_add (Finite (6424085033913767 / 68719476736)) (Finite (425867865918625 / 274877906944)) = Finite (6530552000393423 / 68719476736)"
    unfolding float_add.simps by (rule round_double_evalI[where e = "16" and n = "6530552000393423"]) simp_all
  have d78: "float_add (Finite (6530552000393423 / 68719476736)) (Finite (2588433623722667 / 549755813888)) = Finite (1713526550839689 / 17179869184)"
    unfolding float_add.simps by (rule round_double_evalI[where e = "16" and n = "6854106203358756"]) simp_all
  have cfg:
    "catches_per_hour default_config = Finite 500"
    "treasure_rate default_config = Finite (8142508126285857 / 72057594037927936)"
    "treasure_types default_config = 6"
    "fish_rate_cod default_config = Finite (5404319552844595 / 9007199254740992)"
    "fish_rate_salmon default_config = Finite (1 / 4)"
    "fish_rate_puffer default_config = Finite (1170935903116329 / 9007199254740992)"
    "fish_rate_tropical default_config = Finite (5764607523034235 / 288230376151711744)"
    "fish_price_cod default_config = 20"
    "fish_price_salmon default_config = 80"
    "fish_price_puffer default_config = 180"
    "fish_price_tropical default_config = 400"
    "book_mending_rate default_config = Finite (2716571295229883 / 72057594037927936)"
    "book_mending_single_rate default_config = Finite (7367888990378131 / 18014398509481984)"
    "book_mending_multi_rate default_config = Finite (2661627379775963 / 4503599627370496)"
    "book_smite_only_rate default_config = Finite (2132904783522667 / 288230376151711744)"
    "book_bane_only_rate default_config = Finite (2824657686286775 / 576460752303423488)"
    "book_unb3_only_rate default_config = Finite (2060847189484739 / 144115188075855872)"
    "avg_enchants_per_book default_config = Finite (4751297606875873 / 2251799813685248)"
    "avg_xp_per_enchant default_config = Finite 25"
    "avg_xp_per_catch default_config = Finite (7 / 2)"
    "xp_cash_numer default_config = Finite 40"
    "xp_cash_denom default_config = Finite 12"
    "avg_enchants_per_tool default_config = Finite 3"
    "price_mending_single default_config = 220000"
    "price_mending_multi default_config = 120000"
    "price_smite_only default_config = 15000"
    "price_bane_only default_config = 15000"
    "price_unb3_only default_config = 5000"
    by (simp_all only: default_config_def Config.select_convs d1 d2 d3 d4 d5 d6 d7 d8 d9 d10 d11 d12 d13 d14 d15 d16 d17 d18 d56)
  show ?thesis
    unfolding compute_income_def default_result_def
    by (simp only: cfg, simp only: d1 d2 d3 d4 d5 d6 d7 d8 d9 d10 d11 d12 d13 d14 d15 d16 d17 d18 d19 d20 d21 d22 d23 d24 d25 d26 d27 d28 d29 d30 d31 d32 d33 d34 d35 d36 d37 d38 d39 d40 d41 d42 d43 d44 d45 d46 d47 d48 d49 d50 d51 d52 d53 d54 d55 d56 d57 d58 d59 d60 d61 d62 d63 d64 d65 d66 d67 d68 d69 d70 d71 d72 d73 d74 d75 d76 d77 d78 float_mul_int_def float_truediv_int_def py_bind_Inr Let_def)
qed

section \<open>Zero and finite operands\<close>

lemma is_finiteE:
  assumes "is_finite v"
  obtains x where "v = Finite x"
  using assms by (cases v) simp_all

lemma float_mul_zero_right [simp]: "is_finite a \<Longrightarrow> float_mul a (Finite 0) = Finite 0"
  by (cases a) simp_all

lemma float_mul_zero_left [simp]: "is_finite b \<Longrightarrow> float_mul (Finite 0) b = Finite 0"
  by (cases b) simp_all

lemma float_add_zero_zero [simp]: "float_add (Finite 0) (Finite 0) = Finite 0"
  by simp

lemma float_sub_zero_zero [simp]: "float_sub (Finite 0) (Finite 0) = Finite 0"
  by simp

lemma float_mul_int_zero:
  assumes "float_mul_int (Finite 0) i = Inr v"
  shows "v = Finite 0"
proof -
  from assms obtain b where b: "float_of_int i = Inr b" and v: "v = float_mul (Finite 0) b"
    by (auto simp: float_mul_int_def py_bind_Inr_iff)
  from float_of_int_InrD[OF b] have "is_finite b" by (simp add: int_fits_def)
  with v show ?thesis by simp
qed

lemma float_truediv_int_zero_num:
  assumes "float_truediv_int (Finite 0) i = Inr v"
  shows "v = Finite 0"
proof -
  from assms obtain b where b: "float_of_int i = Inr b" and v: "float_truediv (Finite 0) b = Inr v"
    by (auto simp: float_truediv_int_def py_bind_Inr_iff)
  from float_of_int_InrD[OF b] have "is_finite b" by (simp add: int_fits_def)
  then obtain y where "b = Finite y" by (rule is_finiteE)
  with v show ?thesis by (auto split: if_splits)
qed

lemma int_truediv_finite:
  assumes "int_truediv a b = Inr v"
  shows "is_finite v"
proof -
  from assms have nz: "b \<noteq> 0" by (auto simp: int_truediv_def)
  show ?thesis
  proof (cases "round_double (of_int a / of_int b)")
    case (Finite y)
    with assms nz have "v = Finite y" by (simp add: int_truediv_def)
    then show ?thesis by simp
  next
    case PosInf
    with assms nz show ?thesis by (simp add: int_truediv_def)
  next
    case NegInf
    with assms nz show ?thesis by (simp add: int_truediv_def)
  next
    case NaN
    with assms nz show ?thesis by (simp add: int_truediv_def)
  qed
qed

lemma round_double_one [simp]: "round_double 1 = Finite 1"
  by (rule round_double_exact[where m = 1 and k = 0]) simp_all

lemma py_float_one [simp]: "py_float 1 = Finite 1"
  by (simp add: py_float_def)

lemma float_mul_one_right: "is_double (Finite x) \<Longrightarrow> float_mul (Finite x) (Finite 1) = Finite x"
  by (simp add: is_double_def)

lemma py_float_finite: "\<bar>x\<bar> \<le> 2 ^ 1023 \<Longrightarrow> is_finite (py_float x)"
  unfolding py_float_def by (rule round_double_finite)

lemma int_fits_small: "\<bar>i\<bar> < 2 ^ 53 \<Longrightarrow> int_fits i"
proof -
  assume a: "\<bar>i\<bar> < 2 ^ 53"
  have "\<bar>of_int i :: rat\<bar> = of_int \<bar>i\<bar>" by simp
  also have "\<dots> < of_int (2 ^ 53)" using a by (simp only: of_int_less_iff)
  also have "\<dots> < 2 ^ 1024" by simp
  finally have b: "\<bar>of_int i :: rat\<bar> < 2 ^ 1024" .
  have "round_double (of_int i) = Finite (of_int i)"
    by (rule round_double_exact[where m = i and k = 0]) (use a b in simp_all)
  then show ?thesis by (simp add: int_fits_def)
qed

section \<open>The error of a rounding\<close>

lemma on_grid_iff: "on_grid x \<longleftrightarrow> (\<exists>k. x = of_int k * 2 powi (- 1074))"
  by (simp only: on_grid_def)

lemma two_powi_add: "(2::rat) powi a * 2 powi b = 2 powi (a + b)"
  by (simp add: power_int_add)

lemma on_grid_add: "on_grid x \<Longrightarrow> on_grid y \<Longrightarrow> on_grid (x + y)"
  unfolding on_grid_iff
proof -
  assume "\<exists>k. x = of_int k * 2 powi (- 1074)" "\<exists>k. y = of_int k * 2 powi (- 1074)"
  then obtain k l where "x = of_int k * 2 powi (- 1074)" "y = of_int l * 2 powi (- 1074)" by blast
  then have "x + y = of_int (k + l) * 2 powi (- 1074)" by (simp add: distrib_right)
  then show "\<exists>k. x + y = of_int k * 2 powi (- 1074)" ..
qed

lemma on_grid_diff: "on_grid x \<Longrightarrow> on_grid y \<Longrightarrow> on_grid (x - y)"
  unfolding on_grid_iff
proof -
  assume "\<exists>k. x = of_int k * 2 powi (- 1074)" "\<exists>k. y = of_int k * 2 powi (- 1074)"
  then obtain k l where "x = of_int k * 2 powi (- 1074)" "y = of_int l * 2 powi (- 1074)" by blast
  then have "x - y = of_int (k - l) * 2 powi (- 1074)" by (simp add: left_diff_distrib)
  then show "\<exists>k. x - y = of_int k * 2 powi (- 1074)" ..
qed

lemma on_grid_zero [simp]: "on_grid 0"
  unfolding on_grid_def by (rule exI[of _ 0]) simp

lemma round_double_on_grid:
  assumes "round_double x = Finite y"
  shows "on_grid y"
proof (cases "x = 0")
  case True
  with assms show ?thesis by simp
next
  case False
  with assms have y: "y = of_int (round_half_even (x / quantum x)) * quantum x"
    by (simp add: round_double_Finite_iff)
  have "\<exists>j. quantum x = 2 powi j \<and> - 1074 \<le> j"
    using False
  proof (cases rule: quantum_cases)
    case (normal e)
    then have "quantum x = 2 powi (e - 52) \<and> - 1074 \<le> e - 52" by simp
    then show ?thesis ..
  next
    case subnormal
    show ?thesis by (intro exI[of _ "- 1074"] conjI subnormal(2)) simp
  qed
  then obtain j where j: "quantum x = 2 powi j" "- 1074 \<le> j" by blast
  have "j + 1074 + (- 1074) = j" by simp
  then have "(2::rat) powi j = 2 powi (j + 1074) * 2 powi (- 1074)"
    by (simp only: two_powi_add)
  also have "(2::rat) powi (j + 1074) = of_int (2 ^ nat (j + 1074))"
    using j(2) by (simp add: power_int_nonneg_exp)
  finally have "y = of_int (round_half_even (x / quantum x) * 2 ^ nat (j + 1074)) * 2 powi (- 1074)"
    unfolding y j(1) by simp
  then show ?thesis unfolding on_grid_iff ..
qed

lemma round_double_error:
  assumes "round_double x = Finite y"
  shows "\<bar>y - x\<bar> \<le> \<bar>x\<bar> / 2 ^ 53 + 2 powi (- 1075)"
proof (cases "x = 0")
  case True
  with assms show ?thesis by simp
next
  case False
  note err = round_double_error_quantum[OF assms]
  from False show ?thesis
  proof (cases rule: quantum_cases)
    case (normal e)
    have "quantum x / 2 = 2 powi (e - 53)" by (simp add: normal(4) two_powi_half)
    also have "\<dots> = 2 powi e / 2 ^ 53" by (simp add: power_int_diff)
    also have "\<dots> \<le> \<bar>x\<bar> / 2 ^ 53" using normal(2) by (simp add: divide_right_mono)
    finally have "quantum x / 2 \<le> \<bar>x\<bar> / 2 ^ 53" .
    moreover have "0 \<le> (2::rat) powi (- 1075)" by simp
    ultimately show ?thesis using err by linarith
  next
    case subnormal
    have "quantum x / 2 = 2 powi (- 1075)" by (simp add: subnormal(2) two_powi_half)
    moreover have "0 \<le> \<bar>x\<bar> / 2 ^ 53" by simp
    ultimately show ?thesis using err by linarith
  qed
qed

lemma round_double_error_normal:
  assumes "round_double x = Finite y" and "2 powi (- 1022) \<le> \<bar>x\<bar>"
  shows "\<bar>y - x\<bar> \<le> \<bar>x\<bar> / 2 ^ 53"
proof -
  have nz: "x \<noteq> 0" using assms(2) by (rule abs_pos_of_two_powi_le)
  note err = round_double_error_quantum[OF assms(1)]
  from nz show ?thesis
  proof (cases rule: quantum_cases)
    case (normal e)
    have "quantum x / 2 = 2 powi (e - 53)" by (simp add: normal(4) two_powi_half)
    also have "\<dots> = 2 powi e / 2 ^ 53" by (simp add: power_int_diff)
    also have "\<dots> \<le> \<bar>x\<bar> / 2 ^ 53" using normal(2) by (simp add: divide_right_mono)
    finally show ?thesis using err by linarith
  next
    case subnormal
    with assms(2) show ?thesis by linarith
  qed
qed

lemma round_double_error_on_grid:
  assumes "round_double x = Finite y" and "on_grid x"
  shows "\<bar>y - x\<bar> \<le> \<bar>x\<bar> / 2 ^ 53"
proof (cases "2 powi (- 1022) \<le> \<bar>x\<bar>")
  case True
  with assms(1) show ?thesis by (rule round_double_error_normal)
next
  case False
  from assms(2) obtain k where k: "x = of_int k * 2 powi (- 1074)" unfolding on_grid_iff ..
  have "\<bar>x\<bar> < 2 powi (- 1022)" using False by simp
  also have "\<dots> = 2 ^ 52 * 2 powi (- 1074)" by (simp add: power_int_minus)
  finally have "of_int \<bar>k\<bar> * 2 powi (- 1074) < 2 ^ 52 * (2::rat) powi (- 1074)"
    by (simp add: k abs_mult)
  then have "(of_int \<bar>k\<bar> :: rat) < 2 ^ 52" by simp
  then have "\<bar>k\<bar> < 2 ^ 52" by (simp only: of_int_less_numeral_power_cancel_iff)
  then have k53: "\<bar>k\<bar> < 2 ^ 53" by simp
  have "\<bar>x\<bar> < 2 ^ 1024"
  proof -
    have "(2::rat) powi (- 1022) \<le> 2 powi 1024" by (simp only: two_powi_le_iff)
    then show ?thesis using \<open>\<bar>x\<bar> < 2 powi (- 1022)\<close> by simp
  qed
  with k k53 have "round_double x = Finite x" by (intro round_double_exact[where m = k and k = "- 1074"]) simp_all
  with assms(1) show ?thesis by simp
qed

lemma float_add_FiniteD:
  assumes "float_add a c = Finite y"
  obtains x z where "a = Finite x" "c = Finite z" "round_double (x + z) = Finite y"
  using assms by (cases a; cases c) simp_all

lemma float_sub_FiniteD:
  assumes "float_sub a c = Finite y"
  obtains x z where "a = Finite x" "c = Finite z" "round_double (x - z) = Finite y"
  using assms by (cases a; cases c) simp_all

lemma float_mul_FiniteD:
  assumes "float_mul a c = Finite y"
  obtains x z where "a = Finite x" "c = Finite z" "round_double (x * z) = Finite y"
  using assms by (cases a; cases c) (simp_all add: signed_inf_def split: if_splits)

lemma float_truediv_on_grid:
  assumes "float_truediv a c = Inr (Finite y)"
  shows "on_grid y"
proof (cases c)
  case (Finite z)
  show ?thesis
  proof (cases a)
    case (Finite x)
    with assms \<open>c = Finite z\<close> have "round_double (x / z) = Finite y"
      by (simp split: if_splits)
    then show ?thesis by (rule round_double_on_grid)
  qed (use assms \<open>c = Finite z\<close> in \<open>simp_all add: signed_inf_def split: if_splits\<close>)
next
  case PosInf
  with assms show ?thesis by (cases a) auto
next
  case NegInf
  with assms show ?thesis by (cases a) auto
next
  case NaN
  with assms show ?thesis by simp
qed

lemma float_truediv_int_on_grid:
  assumes "float_truediv_int a i = Inr (Finite y)"
  shows "on_grid y"
proof -
  from assms obtain c where "float_truediv a c = Inr (Finite y)"
    by (auto simp: float_truediv_int_def py_bind_Inr_iff)
  then show ?thesis by (rule float_truediv_on_grid)
qed

lemma float_mul_on_grid:
  assumes "float_mul a c = Finite y"
  shows "on_grid y"
  using assms by (rule float_mul_FiniteD) (rule round_double_on_grid)

lemma conservation_arith:
  fixes b m s d g a t :: rat
  assumes e1: "\<bar>d - (b - m)\<bar> \<le> \<bar>b - m\<bar> / 2 ^ 53"
    and e2: "\<bar>g - (d - s)\<bar> \<le> \<bar>d - s\<bar> / 2 ^ 53"
    and e3: "\<bar>a - (m + s)\<bar> \<le> \<bar>m + s\<bar> / 2 ^ 53"
    and e4: "\<bar>t - (a + g)\<bar> \<le> \<bar>a + g\<bar> / 2 ^ 53"
  shows "\<bar>t - b\<bar> \<le> (\<bar>b\<bar> + \<bar>m\<bar> + \<bar>s\<bar>) / 2 ^ 51"
proof -
  define B M S where "B = \<bar>b\<bar>" and "M = \<bar>m\<bar>" and "S = \<bar>s\<bar>"
  define u :: rat where "u = 1 / 2 ^ 53"
  have u: "0 < u" "u \<le> 1 / 8" by (simp_all add: u_def)
  have nn: "0 \<le> B" "0 \<le> M" "0 \<le> S" by (simp_all add: B_def M_def S_def)
  define E1 E2 E3 E4 where "E1 = \<bar>d - (b - m)\<bar>" and "E2 = \<bar>g - (d - s)\<bar>"
    and "E3 = \<bar>a - (m + s)\<bar>" and "E4 = \<bar>t - (a + g)\<bar>"
  have bm: "\<bar>b - m\<bar> \<le> B + M" unfolding B_def M_def by linarith
  have ms: "\<bar>m + s\<bar> \<le> M + S" unfolding M_def S_def by linarith
  have 1: "E1 \<le> u * (B + M)"
    using e1 bm u(1) unfolding E1_def u_def by (simp add: field_simps)
  have d: "\<bar>d\<bar> \<le> B + M + E1" unfolding E1_def B_def M_def by linarith
  have ds: "\<bar>d - s\<bar> \<le> B + M + S + E1" using d unfolding S_def by linarith
  have 2: "E2 \<le> u * (B + M + S + E1)"
    using e2 ds u(1) unfolding E2_def u_def by (simp add: field_simps)
  have 3: "E3 \<le> u * (M + S)"
    using e3 ms u(1) unfolding E3_def u_def by (simp add: field_simps)
  have ag: "\<bar>a + g\<bar> \<le> B + E1 + E2 + E3" unfolding E1_def E2_def E3_def B_def by linarith
  have 4: "E4 \<le> u * (B + E1 + E2 + E3)"
    using e4 ag u(1) unfolding E4_def u_def by (simp add: field_simps)
  have tb: "\<bar>t - b\<bar> \<le> E1 + E2 + E3 + E4" unfolding E1_def E2_def E3_def E4_def by linarith
  have "E1 + E2 + E3 + E4 \<le> 4 * u * (B + M + S)"
    using 1 2 3 4 nn unfolding u_def by (simp add: algebra_simps)
  also have "\<dots> = (B + M + S) / 2 ^ 51" by (simp add: u_def)
  finally show ?thesis using tb unfolding B_def M_def S_def by linarith
qed

lemma tools_books_arith:
  fixes p X l b eta :: rat
  assumes 1: "\<bar>p - 2 * X\<bar> \<le> 2 * \<bar>X\<bar> / 2 ^ 53"
    and 2: "\<bar>l - p\<bar> \<le> \<bar>p\<bar> / 2 ^ 53 + eta"
    and 3: "\<bar>b - X\<bar> \<le> \<bar>X\<bar> / 2 ^ 53 + eta"
    and eta: "0 \<le> eta"
  shows "\<bar>l - 2 * b\<bar> \<le> \<bar>b\<bar> / 2 ^ 50 + 4 * eta"
proof -
  define A B P where "A = \<bar>X\<bar>" and "B = \<bar>b\<bar>" and "P = \<bar>p\<bar>"
  define E1 E2 E3 where "E1 = \<bar>p - 2 * X\<bar>" and "E2 = \<bar>l - p\<bar>" and "E3 = \<bar>b - X\<bar>"
  have nn: "0 \<le> A" "0 \<le> B" by (simp_all add: A_def B_def)
  have a: "E1 \<le> 2 * A / 2 ^ 53" "E2 \<le> P / 2 ^ 53 + eta" "E3 \<le> A / 2 ^ 53 + eta"
    using 1 2 3 by (simp_all only: A_def P_def E1_def E2_def E3_def)
  have b: "A \<le> B + E3" unfolding A_def B_def E3_def by linarith
  have c: "P \<le> 2 * A + E1" unfolding A_def P_def E1_def by linarith
  have "l - 2 * b = (l - p) + (p - 2 * X) + 2 * (X - b)" by simp
  then have "\<bar>l - 2 * b\<bar> \<le> \<bar>l - p\<bar> + \<bar>p - 2 * X\<bar> + \<bar>2 * (X - b)\<bar>"
    using abs_triangle_ineq[of "(l - p) + (p - 2 * X)" "2 * (X - b)"]
      abs_triangle_ineq[of "l - p" "p - 2 * X"] by simp
  also have "\<bar>2 * (X - b)\<bar> = 2 * \<bar>b - X\<bar>"
    by (simp only: abs_mult abs_minus_commute[of X b])
  finally have d: "\<bar>l - 2 * b\<bar> \<le> E2 + E1 + 2 * E3" unfolding E1_def E2_def E3_def .
  have "E2 + E1 + 2 * E3 \<le> B / 2 ^ 50 + 4 * eta"
    using a b c nn eta by (simp add: algebra_simps)
  with d show ?thesis unfolding B_def by linarith
qed

section \<open>Further evaluated runs\<close>

lemma run_5000: "compute_income (default_config\<lparr>catches_per_hour := py_float 5000\<rparr>) = Inr result_5000"
proof -
  have e1: "py_float 5000 = Finite 5000"
    unfolding py_float_def by (rule round_double_evalI[where e = "12" and n = "5497558138880000"]) simp_all
  have e2: "py_float (113 / 1000) = Finite (8142508126285857 / 72057594037927936)"
    unfolding py_float_def by (rule round_double_evalI[where e = "- 4" and n = "8142508126285857"]) simp_all
  have e3: "py_float (60 / 100) = Finite (5404319552844595 / 9007199254740992)"
    unfolding py_float_def by (rule round_double_evalI[where e = "- 1" and n = "5404319552844595"]) simp_all
  have e4: "py_float (25 / 100) = Finite (1 / 4)"
    unfolding py_float_def by (rule round_double_evalI[where e = "- 2" and n = "4503599627370496"]) simp_all
  have e5: "py_float (13 / 100) = Finite (1170935903116329 / 9007199254740992)"
    unfolding py_float_def by (rule round_double_evalI[where e = "- 3" and n = "4683743612465316"]) simp_all
  have e6: "py_float (2 / 100) = Finite (5764607523034235 / 288230376151711744)"
    unfolding py_float_def by (rule round_double_evalI[where e = "- 6" and n = "5764607523034235"]) simp_all
  have e7: "py_float (377 / 10000) = Finite (2716571295229883 / 72057594037927936)"
    unfolding py_float_def by (rule round_double_evalI[where e = "- 5" and n = "5433142590459766"]) simp_all
  have e8: "py_float (409 / 1000) = Finite (7367888990378131 / 18014398509481984)"
    unfolding py_float_def by (rule round_double_evalI[where e = "- 2" and n = "7367888990378131"]) simp_all
  have e9: "py_float (591 / 1000) = Finite (2661627379775963 / 4503599627370496)"
    unfolding py_float_def by (rule round_double_evalI[where e = "- 1" and n = "5323254759551926"]) simp_all
  have e10: "py_float (74 / 10000) = Finite (2132904783522667 / 288230376151711744)"
    unfolding py_float_def by (rule round_double_evalI[where e = "- 8" and n = "8531619134090668"]) simp_all
  have e11: "py_float (49 / 10000) = Finite (2824657686286775 / 576460752303423488)"
    unfolding py_float_def by (rule round_double_evalI[where e = "- 8" and n = "5649315372573550"]) simp_all
  have e12: "py_float (143 / 10000) = Finite (2060847189484739 / 144115188075855872)"
    unfolding py_float_def by (rule round_double_evalI[where e = "- 7" and n = "8243388757938956"]) simp_all
  have e13: "py_float (211 / 100) = Finite (4751297606875873 / 2251799813685248)"
    unfolding py_float_def by (rule round_double_evalI[where e = "1" and n = "4751297606875873"]) simp_all
  have e14: "py_float 25 = Finite 25"
    unfolding py_float_def by (rule round_double_evalI[where e = "4" and n = "7036874417766400"]) simp_all
  have e15: "py_float (35 / 10) = Finite (7 / 2)"
    unfolding py_float_def by (rule round_double_evalI[where e = "1" and n = "7881299347898368"]) simp_all
  have e16: "py_float 40 = Finite 40"
    unfolding py_float_def by (rule round_double_evalI[where e = "5" and n = "5629499534213120"]) simp_all
  have e17: "py_float 12 = Finite 12"
    unfolding py_float_def by (rule round_double_evalI[where e = "3" and n = "6755399441055744"]) simp_all
  have e18: "py_float 3 = Finite 3"
    unfolding py_float_def by (rule round_double_evalI[where e = "1" and n = "6755399441055744"]) simp_all
  have e19: "float_truediv (Finite 40) (Finite 12) = Inr (Finite (7505999378950827 / 2251799813685248))"
    proof -
    have "round_double (40 / 12) = Finite (7505999378950827 / 2251799813685248)"
      by (rule round_double_evalI[where e = "1" and n = "7505999378950827"]) simp_all
    then show ?thesis by simp
  qed
  have e20: "float_mul (Finite 5000) (Finite (8142508126285857 / 72057594037927936)) = Finite 565"
    unfolding float_mul.simps by (rule round_double_evalI[where e = "9" and n = "4969792557547520"]) simp_all
  have e21: "float_of_int 6 = Inr (Finite 6)"
    proof -
    have "round_double 6 = Finite 6"
      by (rule round_double_evalI[where e = "2" and n = "6755399441055744"]) simp_all
    then show ?thesis by (simp add: float_of_int_def)
  qed
  have e22: "float_truediv (Finite 565) (Finite 6) = Inr (Finite (6626390076730027 / 70368744177664))"
    proof -
    have "round_double (565 / 6) = Finite (6626390076730027 / 70368744177664)"
      by (rule round_double_evalI[where e = "6" and n = "6626390076730027"]) simp_all
    then show ?thesis by simp
  qed
  have e23: "float_mul (Finite (6626390076730027 / 70368744177664)) (Finite (2716571295229883 / 72057594037927936)) = Finite (124907452946361 / 35184372088832)"
    unfolding float_mul.simps by (rule round_double_evalI[where e = "1" and n = "7994076988567104"]) simp_all
  have e24: "float_mul (Finite (124907452946361 / 35184372088832)) (Finite (7367888990378131 / 18014398509481984)) = Finite (6539154976647891 / 4503599627370496)"
    unfolding float_mul.simps by (rule round_double_evalI[where e = "0" and n = "6539154976647891"]) simp_all
  have e25: "float_mul (Finite (124907452946361 / 35184372088832)) (Finite (2661627379775963 / 4503599627370496)) = Finite (2362249750121579 / 1125899906842624)"
    unfolding float_mul.simps by (rule round_double_evalI[where e = "1" and n = "4724499500243158"]) simp_all
  have e26: "float_of_int 220000 = Inr (Finite 220000)"
    proof -
    have "round_double 220000 = Finite 220000"
      by (rule round_double_evalI[where e = "17" and n = "7559142440960000"]) simp_all
    then show ?thesis by (simp add: float_of_int_def)
  qed
  have e27: "float_mul (Finite (6539154976647891 / 4503599627370496)) (Finite 220000) = Finite (5487877253961701 / 17179869184)"
    unfolding float_mul.simps by (rule round_double_evalI[where e = "18" and n = "5487877253961701"]) simp_all
  have e28: "float_of_int 120000 = Inr (Finite 120000)"
    proof -
    have "round_double 120000 = Finite 120000"
      by (rule round_double_evalI[where e = "16" and n = "8246337208320000"]) simp_all
    then show ?thesis by (simp add: float_of_int_def)
  qed
  have e29: "float_mul (Finite (2362249750121579 / 1125899906842624)) (Finite 120000) = Finite (4325408478005821 / 17179869184)"
    unfolding float_mul.simps by (rule round_double_evalI[where e = "17" and n = "8650816956011642"]) simp_all
  have e30: "float_add (Finite (5487877253961701 / 17179869184)) (Finite (4325408478005821 / 17179869184)) = Finite (4906642865983761 / 8589934592)"
    unfolding float_add.simps by (rule round_double_evalI[where e = "19" and n = "4906642865983761"]) simp_all
  have e31: "float_add (Finite (2132904783522667 / 288230376151711744)) (Finite (2824657686286775 / 576460752303423488)) = Finite (7090467253332109 / 576460752303423488)"
    unfolding float_add.simps by (rule round_double_evalI[where e = "- 7" and n = "7090467253332109"]) simp_all
  have e32: "float_add (Finite (7090467253332109 / 576460752303423488)) (Finite (2060847189484739 / 144115188075855872)) = Finite (1916732001408883 / 72057594037927936)"
    unfolding float_add.simps by (rule round_double_evalI[where e = "- 6" and n = "7666928005635532"]) simp_all
  have e33: "float_mul (Finite (6626390076730027 / 70368744177664)) (Finite (1916732001408883 / 72057594037927936)) = Finite (5640383233312599 / 2251799813685248)"
    unfolding float_mul.simps by (rule round_double_evalI[where e = "1" and n = "5640383233312599"]) simp_all
  have e34: "float_mul (Finite (6626390076730027 / 70368744177664)) (Finite (2132904783522667 / 288230376151711744)) = Finite (3138258340339341 / 4503599627370496)"
    unfolding float_mul.simps by (rule round_double_evalI[where e = "- 1" and n = "6276516680678682"]) simp_all
  have e35: "float_of_int 15000 = Inr (Finite 15000)"
    proof -
    have "round_double 15000 = Finite 15000"
      by (rule round_double_evalI[where e = "13" and n = "8246337208320000"]) simp_all
    then show ?thesis by (simp add: float_of_int_def)
  qed
  have e36: "float_mul (Finite (3138258340339341 / 4503599627370496)) (Finite 15000) = Finite (5746322644664321 / 549755813888)"
    unfolding float_mul.simps by (rule round_double_evalI[where e = "13" and n = "5746322644664321"]) simp_all
  have e37: "float_mul (Finite (6626390076730027 / 70368744177664)) (Finite (2824657686286775 / 576460752303423488)) = Finite (4156071856125073 / 9007199254740992)"
    unfolding float_mul.simps by (rule round_double_evalI[where e = "- 2" and n = "8312143712250146"]) simp_all
  have e38: "float_mul (Finite (4156071856125073 / 9007199254740992)) (Finite 15000) = Finite (7609994853744641 / 1099511627776)"
    unfolding float_mul.simps by (rule round_double_evalI[where e = "12" and n = "7609994853744641"]) simp_all
  have e39: "float_mul (Finite (6626390076730027 / 70368744177664)) (Finite (2060847189484739 / 144115188075855872)) = Finite (6064472198223321 / 4503599627370496)"
    unfolding float_mul.simps by (rule round_double_evalI[where e = "0" and n = "6064472198223321"]) simp_all
  have e40: "float_of_int 5000 = Inr (Finite 5000)"
    proof -
    have "round_double 5000 = Finite 5000"
      by (rule round_double_evalI[where e = "12" and n = "5497558138880000"]) simp_all
    then show ?thesis by (simp add: float_of_int_def)
  qed
  have e41: "float_mul (Finite (6064472198223321 / 4503599627370496)) (Finite 5000) = Finite (7402920163846827 / 1099511627776)"
    unfolding float_mul.simps by (rule round_double_evalI[where e = "12" and n = "7402920163846827"]) simp_all
  have e42: "float_add (Finite (5746322644664321 / 549755813888)) (Finite (7609994853744641 / 1099511627776)) = Finite (4775660035768321 / 274877906944)"
    unfolding float_add.simps by (rule round_double_evalI[where e = "14" and n = "4775660035768321"]) simp_all
  have e43: "float_add (Finite (4775660035768321 / 274877906944)) (Finite (7402920163846827 / 1099511627776)) = Finite (1656597519182507 / 68719476736)"
    unfolding float_add.simps by (rule round_double_evalI[where e = "14" and n = "6626390076730028"]) simp_all
  have e44: "float_sub (Finite (6626390076730027 / 70368744177664)) (Finite (124907452946361 / 35184372088832)) = Finite (6376575170837305 / 70368744177664)"
    unfolding float_sub.simps by (rule round_double_evalI[where e = "6" and n = "6376575170837305"]) simp_all
  have e45: "float_sub (Finite (6376575170837305 / 70368744177664)) (Finite (5640383233312599 / 2251799813685248)) = Finite (3100156597398143 / 35184372088832)"
    unfolding float_sub.simps by (rule round_double_evalI[where e = "6" and n = "6200313194796286"]) simp_all
  have e46: "float_mul (Finite (3100156597398143 / 35184372088832)) (Finite (4751297606875873 / 2251799813685248)) = Finite (6541330420510081 / 35184372088832)"
    unfolding float_mul.simps by (rule round_double_evalI[where e = "7" and n = "6541330420510081"]) simp_all
  have e47: "float_mul (Finite (6541330420510081 / 35184372088832)) (Finite 25) = Finite (5110414391023501 / 1099511627776)"
    unfolding float_mul.simps by (rule round_double_evalI[where e = "12" and n = "5110414391023501"]) simp_all
  have e48: "float_mul (Finite (5110414391023501 / 1099511627776)) (Finite (7505999378950827 / 2251799813685248)) = Finite (4258678659186251 / 274877906944)"
    unfolding float_mul.simps by (rule round_double_evalI[where e = "13" and n = "8517357318372502"]) simp_all
  have e49: "int_truediv 2 6 = Inr (Finite (6004799503160661 / 18014398509481984))"
    proof -
    have "round_double (1 / 3) = Finite (6004799503160661 / 18014398509481984)"
      by (rule round_double_evalI[where e = "- 2" and n = "6004799503160661"]) simp_all
    then show ?thesis by (simp add: int_truediv_def)
  qed
  have e50: "float_mul (Finite 565) (Finite (6004799503160661 / 18014398509481984)) = Finite (3313195038365013 / 17592186044416)"
    unfolding float_mul.simps by (rule round_double_evalI[where e = "7" and n = "6626390076730026"]) simp_all
  have e51: "float_mul (Finite (3313195038365013 / 17592186044416)) (Finite 3) = Finite 565"
    unfolding float_mul.simps by (rule round_double_evalI[where e = "9" and n = "4969792557547520"]) simp_all
  have e52: "float_mul (Finite 565) (Finite 25) = Finite 14125"
    unfolding float_mul.simps by (rule round_double_evalI[where e = "13" and n = "7765300871168000"]) simp_all
  have e53: "float_mul (Finite 14125) (Finite (7505999378950827 / 2251799813685248)) = Finite (6471084059306667 / 137438953472)"
    unfolding float_mul.simps by (rule round_double_evalI[where e = "15" and n = "6471084059306667"]) simp_all
  have e54: "float_mul (Finite 5000) (Finite (7 / 2)) = Finite 17500"
    unfolding float_mul.simps by (rule round_double_evalI[where e = "14" and n = "4810363371520000"]) simp_all
  have e55: "float_mul (Finite 17500) (Finite (7505999378950827 / 2251799813685248)) = Finite (8017272285866667 / 137438953472)"
    unfolding float_mul.simps by (rule round_double_evalI[where e = "15" and n = "8017272285866667"]) simp_all
  have e56: "py_float 1 = Finite 1"
    unfolding py_float_def by (rule round_double_evalI[where e = "0" and n = "4503599627370496"]) simp_all
  have e57: "float_sub (Finite 1) (Finite (8142508126285857 / 72057594037927936)) = Finite (1997346434738815 / 2251799813685248)"
    unfolding float_sub.simps by (rule round_double_evalI[where e = "- 1" and n = "7989385738955260"]) simp_all
  have e58: "float_mul (Finite 5000) (Finite (1997346434738815 / 2251799813685248)) = Finite 4435"
    unfolding float_mul.simps by (rule round_double_evalI[where e = "12" and n = "4876334069186560"]) simp_all
  have e59: "float_mul (Finite 4435) (Finite (5404319552844595 / 9007199254740992)) = Finite 2661"
    unfolding float_mul.simps by (rule round_double_evalI[where e = "11" and n = "5851600883023872"]) simp_all
  have e60: "float_mul (Finite 4435) (Finite (1 / 4)) = Finite (4435 / 4)"
    unfolding float_mul.simps by (rule round_double_evalI[where e = "10" and n = "4876334069186560"]) simp_all
  have e61: "float_mul (Finite 4435) (Finite (1170935903116329 / 9007199254740992)) = Finite (5071387431954023 / 8796093022208)"
    unfolding float_mul.simps by (rule round_double_evalI[where e = "9" and n = "5071387431954023"]) simp_all
  have e62: "float_mul (Finite 4435) (Finite (5764607523034235 / 288230376151711744)) = Finite (6241707608558797 / 70368744177664)"
    unfolding float_mul.simps by (rule round_double_evalI[where e = "6" and n = "6241707608558797"]) simp_all
  have e63: "float_of_int 20 = Inr (Finite 20)"
    proof -
    have "round_double 20 = Finite 20"
      by (rule round_double_evalI[where e = "4" and n = "5629499534213120"]) simp_all
    then show ?thesis by (simp add: float_of_int_def)
  qed
  have e64: "float_mul (Finite 2661) (Finite 20) = Finite 53220"
    unfolding float_mul.simps by (rule round_double_evalI[where e = "15" and n = "7314501103779840"]) simp_all
  have e65: "float_of_int 80 = Inr (Finite 80)"
    proof -
    have "round_double 80 = Finite 80"
      by (rule round_double_evalI[where e = "6" and n = "5629499534213120"]) simp_all
    then show ?thesis by (simp add: float_of_int_def)
  qed
  have e66: "float_mul (Finite (4435 / 4)) (Finite 80) = Finite 88700"
    unfolding float_mul.simps by (rule round_double_evalI[where e = "16" and n = "6095417586483200"]) simp_all
  have e67: "float_of_int 180 = Inr (Finite 180)"
    proof -
    have "round_double 180 = Finite 180"
      by (rule round_double_evalI[where e = "7" and n = "6333186975989760"]) simp_all
    then show ?thesis by (simp add: float_of_int_def)
  qed
  have e68: "float_mul (Finite (5071387431954023 / 8796093022208)) (Finite 180) = Finite (7131638576185345 / 68719476736)"
    unfolding float_mul.simps by (rule round_double_evalI[where e = "16" and n = "7131638576185345"]) simp_all
  have e69: "float_of_int 400 = Inr (Finite 400)"
    proof -
    have "round_double 400 = Finite 400"
      by (rule round_double_evalI[where e = "8" and n = "7036874417766400"]) simp_all
    then show ?thesis by (simp add: float_of_int_def)
  qed
  have e70: "float_mul (Finite (6241707608558797 / 70368744177664)) (Finite 400) = Finite 35480"
    unfolding float_mul.simps by (rule round_double_evalI[where e = "15" and n = "4876334069186560"]) simp_all
  have e71: "float_add (Finite 53220) (Finite 88700) = Finite 141920"
    unfolding float_add.simps by (rule round_double_evalI[where e = "17" and n = "4876334069186560"]) simp_all
  have e72: "float_add (Finite 141920) (Finite (7131638576185345 / 68719476736)) = Finite 245699"
    unfolding float_add.simps by (rule round_double_evalI[where e = "17" and n = "8442153357279232"]) simp_all
  have e73: "float_add (Finite 245699) (Finite 35480) = Finite 281179"
    unfolding float_add.simps by (rule round_double_evalI[where e = "18" and n = "4830618437287936"]) simp_all
  have e74: "float_add (Finite 281179) (Finite (8017272285866667 / 137438953472)) = Finite (5832777473021269 / 17179869184)"
    unfolding float_add.simps by (rule round_double_evalI[where e = "18" and n = "5832777473021269"]) simp_all
  have e75: "float_add (Finite (5832777473021269 / 17179869184)) (Finite (4906642865983761 / 8589934592)) = Finite (1955757900623599 / 2147483648)"
    unfolding float_add.simps by (rule round_double_evalI[where e = "19" and n = "7823031602494396"]) simp_all
  have e76: "float_add (Finite (1955757900623599 / 2147483648)) (Finite (1656597519182507 / 68719476736)) = Finite (8030106292392209 / 8589934592)"
    unfolding float_add.simps by (rule round_double_evalI[where e = "19" and n = "8030106292392209"]) simp_all
  have e77: "float_add (Finite (8030106292392209 / 8589934592)) (Finite (4258678659186251 / 274877906944)) = Finite (8163190000491779 / 8589934592)"
    unfolding float_add.simps by (rule round_double_evalI[where e = "19" and n = "8163190000491779"]) simp_all
  have e78: "float_add (Finite (8163190000491779 / 8589934592)) (Finite (6471084059306667 / 137438953472)) = Finite (4283816377099223 / 4294967296)"
    unfolding float_add.simps by (rule round_double_evalI[where e = "19" and n = "8567632754198446"]) simp_all
  have cfg:
    "catches_per_hour (default_config\<lparr>catches_per_hour := py_float 5000\<rparr>) = Finite 5000"
    "treasure_rate (default_config\<lparr>catches_per_hour := py_float 5000\<rparr>) = Finite (8142508126285857 / 72057594037927936)"
    "treasure_types (default_config\<lparr>catches_per_hour := py_float 5000\<rparr>) = 6"
    "fish_rate_cod (default_config\<lparr>catches_per_hour := py_float 5000\<rparr>) = Finite (5404319552844595 / 9007199254740992)"
    "fish_rate_salmon (default_config\<lparr>catches_per_hour := py_float 5000\<rparr>) = Finite (1 / 4)"
    "fish_rate_puffer (default_config\<lparr>catches_per_hour := py_float 5000\<rparr>) = Finite (1170935903116329 / 9007199254740992)"
    "fish_rate_tropical (default_config\<lparr>catches_per_hour := py_float 5000\<rparr>) = Finite (5764607523034235 / 288230376151711744)"
    "fish_price_cod (default_config\<lparr>catches_per_hour := py_float 5000\<rparr>) = 20"
    "fish_price_salmon (default_config\<lparr>catches_per_hour := py_float 5000\<rparr>) = 80"
    "fish_price_puffer (default_config\<lparr>catches_per_hour := py_float 5000\<rparr>) = 180"
    "fish_price_tropical (default_config\<lparr>catches_per_hour := py_float 5000\<rparr>) = 400"
    "book_mending_rate (default_config\<lparr>catches_per_hour := py_float 5000\<rparr>) = Finite (2716571295229883 / 72057594037927936)"
    "book_mending_single_rate (default_config\<lparr>catches_per_hour := py_float 5000\<rparr>) = Finite (7367888990378131 / 18014398509481984)"
    "book_mending_multi_rate (default_config\<lparr>catches_per_hour := py_float 5000\<rparr>) = Finite (2661627379775963 / 4503599627370496)"
    "book_smite_only_rate (default_config\<lparr>catches_per_hour := py_float 5000\<rparr>) = Finite (2132904783522667 / 288230376151711744)"
    "book_bane_only_rate (default_config\<lparr>catches_per_hour := py_float 5000\<rparr>) = Finite (2824657686286775 / 576460752303423488)"
    "book_unb3_only_rate (default_config\<lparr>catches_per_hour := py_float 5000\<rparr>) = Finite (2060847189484739 / 144115188075855872)"
    "avg_enchants_per_book (default_config\<lparr>catches_per_hour := py_float 5000\<rparr>) = Finite (4751297606875873 / 2251799813685248)"
    "avg_xp_per_enchant (default_config\<lparr>catches_per_hour := py_float 5000\<rparr>) = Finite 25"
    "avg_xp_per_catch (default_config\<lparr>catches_per_hour := py_float 5000\<rparr>) = Finite (7 / 2)"
    "xp_cash_numer (default_config\<lparr>catches_per_hour := py_float 5000\<rparr>) = Finite 40"
    "xp_cash_denom (default_config\<lparr>catches_per_hour := py_float 5000\<rparr>) = Finite 12"
    "avg_enchants_per_tool (default_config\<lparr>catches_per_hour := py_float 5000\<rparr>) = Finite 3"
    "price_mending_single (default_config\<lparr>catches_per_hour := py_float 5000\<rparr>) = 220000"
    "price_mending_multi (default_config\<lparr>catches_per_hour := py_float 5000\<rparr>) = 120000"
    "price_smite_only (default_config\<lparr>catches_per_hour := py_float 5000\<rparr>) = 15000"
    "price_bane_only (default_config\<lparr>catches_per_hour := py_float 5000\<rparr>) = 15000"
    "price_unb3_only (default_config\<lparr>catches_per_hour := py_float 5000\<rparr>) = 5000"
    by (simp_all only: default_config_def Config.select_convs Config.update_convs e1 e2 e3 e4 e5 e6 e7 e8 e9 e10 e11 e12 e13 e14 e15 e16 e17 e18 e56)
  show ?thesis
    unfolding compute_income_def result_5000_def
    by (simp only: cfg, simp only: e19 e20 e21 e22 e23 e24 e25 e26 e27 e28 e29 e30 e31 e32 e33 e34 e35 e36 e37 e38 e39 e40 e41 e42 e43 e44 e45 e46 e47 e48 e49 e50 e51 e52 e53 e54 e55 e56 e57 e58 e59 e60 e61 e62 e63 e64 e65 e66 e67 e68 e69 e70 e71 e72 e73 e74 e75 e76 e77 e78 float_mul_int_def float_truediv_int_def py_bind_Inr Let_def)
qed

lemma run_zero_treasure_inf: "compute_income (default_config\<lparr>catches_per_hour := PosInf, treasure_rate := py_float 0\<rparr>) = Inr result_zero_treasure_inf"
proof -
  have z1: "py_float 0 = Finite 0"
    unfolding py_float_def by simp
  have z2: "py_float (60 / 100) = Finite (5404319552844595 / 9007199254740992)"
    unfolding py_float_def by (rule round_double_evalI[where e = "- 1" and n = "5404319552844595"]) simp_all
  have z3: "py_float (25 / 100) = Finite (1 / 4)"
    unfolding py_float_def by (rule round_double_evalI[where e = "- 2" and n = "4503599627370496"]) simp_all
  have z4: "py_float (13 / 100) = Finite (1170935903116329 / 9007199254740992)"
    unfolding py_float_def by (rule round_double_evalI[where e = "- 3" and n = "4683743612465316"]) simp_all
  have z5: "py_float (2 / 100) = Finite (5764607523034235 / 288230376151711744)"
    unfolding py_float_def by (rule round_double_evalI[where e = "- 6" and n = "5764607523034235"]) simp_all
  have z6: "py_float (377 / 10000) = Finite (2716571295229883 / 72057594037927936)"
    unfolding py_float_def by (rule round_double_evalI[where e = "- 5" and n = "5433142590459766"]) simp_all
  have z7: "py_float (409 / 1000) = Finite (7367888990378131 / 18014398509481984)"
    unfolding py_float_def by (rule round_double_evalI[where e = "- 2" and n = "7367888990378131"]) simp_all
  have z8: "py_float (591 / 1000) = Finite (2661627379775963 / 4503599627370496)"
    unfolding py_float_def by (rule round_double_evalI[where e = "- 1" and n = "5323254759551926"]) simp_all
  have z9: "py_float (74 / 10000) = Finite (2132904783522667 / 288230376151711744)"
    unfolding py_float_def by (rule round_double_evalI[where e = "- 8" and n = "8531619134090668"]) simp_all
  have z10: "py_float (49 / 10000) = Finite (2824657686286775 / 576460752303423488)"
    unfolding py_float_def by (rule round_double_evalI[where e = "- 8" and n = "5649315372573550"]) simp_all
  have z11: "py_float (143 / 10000) = Finite (2060847189484739 / 144115188075855872)"
    unfolding py_float_def by (rule round_double_evalI[where e = "- 7" and n = "8243388757938956"]) simp_all
  have z12: "py_float (211 / 100) = Finite (4751297606875873 / 2251799813685248)"
    unfolding py_float_def by (rule round_double_evalI[where e = "1" and n = "4751297606875873"]) simp_all
  have z13: "py_float 25 = Finite 25"
    unfolding py_float_def by (rule round_double_evalI[where e = "4" and n = "7036874417766400"]) simp_all
  have z14: "py_float (35 / 10) = Finite (7 / 2)"
    unfolding py_float_def by (rule round_double_evalI[where e = "1" and n = "7881299347898368"]) simp_all
  have z15: "py_float 40 = Finite 40"
    unfolding py_float_def by (rule round_double_evalI[where e = "5" and n = "5629499534213120"]) simp_all
  have z16: "py_float 12 = Finite 12"
    unfolding py_float_def by (rule round_double_evalI[where e = "3" and n = "6755399441055744"]) simp_all
  have z17: "py_float 3 = Finite 3"
    unfolding py_float_def by (rule round_double_evalI[where e = "1" and n = "6755399441055744"]) simp_all
  have z18: "float_truediv (Finite 40) (Finite 12) = Inr (Finite (7505999378950827 / 2251799813685248))"
    proof -
    have "round_double (40 / 12) = Finite (7505999378950827 / 2251799813685248)"
      by (rule round_double_evalI[where e = "1" and n = "7505999378950827"]) simp_all
    then show ?thesis by simp
  qed
  have z19: "float_mul PosInf (Finite 0) = NaN"
    by (simp add: signed_inf_def)
  have z20: "float_of_int 6 = Inr (Finite 6)"
    proof -
    have "round_double 6 = Finite 6"
      by (rule round_double_evalI[where e = "2" and n = "6755399441055744"]) simp_all
    then show ?thesis by (simp add: float_of_int_def)
  qed
  have z21: "float_truediv NaN (Finite 6) = Inr (NaN)"
    by (simp add: signed_inf_def)
  have z22: "float_mul NaN (Finite (2716571295229883 / 72057594037927936)) = NaN"
    by (simp add: signed_inf_def)
  have z23: "float_mul NaN (Finite (7367888990378131 / 18014398509481984)) = NaN"
    by (simp add: signed_inf_def)
  have z24: "float_mul NaN (Finite (2661627379775963 / 4503599627370496)) = NaN"
    by (simp add: signed_inf_def)
  have z25: "float_of_int 220000 = Inr (Finite 220000)"
    proof -
    have "round_double 220000 = Finite 220000"
      by (rule round_double_evalI[where e = "17" and n = "7559142440960000"]) simp_all
    then show ?thesis by (simp add: float_of_int_def)
  qed
  have z26: "float_mul NaN (Finite 220000) = NaN"
    by (simp add: signed_inf_def)
  have z27: "float_of_int 120000 = Inr (Finite 120000)"
    proof -
    have "round_double 120000 = Finite 120000"
      by (rule round_double_evalI[where e = "16" and n = "8246337208320000"]) simp_all
    then show ?thesis by (simp add: float_of_int_def)
  qed
  have z28: "float_mul NaN (Finite 120000) = NaN"
    by (simp add: signed_inf_def)
  have z29: "float_add NaN NaN = NaN"
    by (simp add: signed_inf_def)
  have z30: "float_add (Finite (2132904783522667 / 288230376151711744)) (Finite (2824657686286775 / 576460752303423488)) = Finite (7090467253332109 / 576460752303423488)"
    unfolding float_add.simps by (rule round_double_evalI[where e = "- 7" and n = "7090467253332109"]) simp_all
  have z31: "float_add (Finite (7090467253332109 / 576460752303423488)) (Finite (2060847189484739 / 144115188075855872)) = Finite (1916732001408883 / 72057594037927936)"
    unfolding float_add.simps by (rule round_double_evalI[where e = "- 6" and n = "7666928005635532"]) simp_all
  have z32: "float_mul NaN (Finite (1916732001408883 / 72057594037927936)) = NaN"
    by (simp add: signed_inf_def)
  have z33: "float_mul NaN (Finite (2132904783522667 / 288230376151711744)) = NaN"
    by (simp add: signed_inf_def)
  have z34: "float_of_int 15000 = Inr (Finite 15000)"
    proof -
    have "round_double 15000 = Finite 15000"
      by (rule round_double_evalI[where e = "13" and n = "8246337208320000"]) simp_all
    then show ?thesis by (simp add: float_of_int_def)
  qed
  have z35: "float_mul NaN (Finite 15000) = NaN"
    by (simp add: signed_inf_def)
  have z36: "float_mul NaN (Finite (2824657686286775 / 576460752303423488)) = NaN"
    by (simp add: signed_inf_def)
  have z37: "float_mul NaN (Finite (2060847189484739 / 144115188075855872)) = NaN"
    by (simp add: signed_inf_def)
  have z38: "float_of_int 5000 = Inr (Finite 5000)"
    proof -
    have "round_double 5000 = Finite 5000"
      by (rule round_double_evalI[where e = "12" and n = "5497558138880000"]) simp_all
    then show ?thesis by (simp add: float_of_int_def)
  qed
  have z39: "float_mul NaN (Finite 5000) = NaN"
    by (simp add: signed_inf_def)
  have z40: "float_sub NaN NaN = NaN"
    by (simp add: signed_inf_def)
  have z41: "float_mul NaN (Finite (4751297606875873 / 2251799813685248)) = NaN"
    by (simp add: signed_inf_def)
  have z42: "float_mul NaN (Finite 25) = NaN"
    by (simp add: signed_inf_def)
  have z43: "float_mul NaN (Finite (7505999378950827 / 2251799813685248)) = NaN"
    by (simp add: signed_inf_def)
  have z44: "int_truediv 2 6 = Inr (Finite (6004799503160661 / 18014398509481984))"
    proof -
    have "round_double (1 / 3) = Finite (6004799503160661 / 18014398509481984)"
      by (rule round_double_evalI[where e = "- 2" and n = "6004799503160661"]) simp_all
    then show ?thesis by (simp add: int_truediv_def)
  qed
  have z45: "float_mul NaN (Finite (6004799503160661 / 18014398509481984)) = NaN"
    by (simp add: signed_inf_def)
  have z46: "float_mul NaN (Finite 3) = NaN"
    by (simp add: signed_inf_def)
  have z47: "float_mul PosInf (Finite (7 / 2)) = PosInf"
    by (simp add: signed_inf_def)
  have z48: "float_mul PosInf (Finite (7505999378950827 / 2251799813685248)) = PosInf"
    by (simp add: signed_inf_def)
  have z49: "py_float 1 = Finite 1"
    unfolding py_float_def by (rule round_double_evalI[where e = "0" and n = "4503599627370496"]) simp_all
  have z50: "float_sub (Finite 1) (Finite 0) = Finite 1"
    unfolding float_sub.simps by (rule round_double_evalI[where e = "0" and n = "4503599627370496"]) simp_all
  have z51: "float_mul PosInf (Finite 1) = PosInf"
    by (simp add: signed_inf_def)
  have z52: "float_mul PosInf (Finite (5404319552844595 / 9007199254740992)) = PosInf"
    by (simp add: signed_inf_def)
  have z53: "float_mul PosInf (Finite (1 / 4)) = PosInf"
    by (simp add: signed_inf_def)
  have z54: "float_mul PosInf (Finite (1170935903116329 / 9007199254740992)) = PosInf"
    by (simp add: signed_inf_def)
  have z55: "float_mul PosInf (Finite (5764607523034235 / 288230376151711744)) = PosInf"
    by (simp add: signed_inf_def)
  have z56: "float_of_int 20 = Inr (Finite 20)"
    proof -
    have "round_double 20 = Finite 20"
      by (rule round_double_evalI[where e = "4" and n = "5629499534213120"]) simp_all
    then show ?thesis by (simp add: float_of_int_def)
  qed
  have z57: "float_mul PosInf (Finite 20) = PosInf"
    by (simp add: signed_inf_def)
  have z58: "float_of_int 80 = Inr (Finite 80)"
    proof -
    have "round_double 80 = Finite 80"
      by (rule round_double_evalI[where e = "6" and n = "5629499534213120"]) simp_all
    then show ?thesis by (simp add: float_of_int_def)
  qed
  have z59: "float_mul PosInf (Finite 80) = PosInf"
    by (simp add: signed_inf_def)
  have z60: "float_of_int 180 = Inr (Finite 180)"
    proof -
    have "round_double 180 = Finite 180"
      by (rule round_double_evalI[where e = "7" and n = "6333186975989760"]) simp_all
    then show ?thesis by (simp add: float_of_int_def)
  qed
  have z61: "float_mul PosInf (Finite 180) = PosInf"
    by (simp add: signed_inf_def)
  have z62: "float_of_int 400 = Inr (Finite 400)"
    proof -
    have "round_double 400 = Finite 400"
      by (rule round_double_evalI[where e = "8" and n = "7036874417766400"]) simp_all
    then show ?thesis by (simp add: float_of_int_def)
  qed
  have z63: "float_mul PosInf (Finite 400) = PosInf"
    by (simp add: signed_inf_def)
  have z64: "float_add PosInf PosInf = PosInf"
    by (simp add: signed_inf_def)
  have z65: "float_add PosInf NaN = NaN"
    by (simp add: signed_inf_def)
  have cfg:
    "catches_per_hour (default_config\<lparr>catches_per_hour := PosInf, treasure_rate := py_float 0\<rparr>) = PosInf"
    "treasure_rate (default_config\<lparr>catches_per_hour := PosInf, treasure_rate := py_float 0\<rparr>) = Finite 0"
    "treasure_types (default_config\<lparr>catches_per_hour := PosInf, treasure_rate := py_float 0\<rparr>) = 6"
    "fish_rate_cod (default_config\<lparr>catches_per_hour := PosInf, treasure_rate := py_float 0\<rparr>) = Finite (5404319552844595 / 9007199254740992)"
    "fish_rate_salmon (default_config\<lparr>catches_per_hour := PosInf, treasure_rate := py_float 0\<rparr>) = Finite (1 / 4)"
    "fish_rate_puffer (default_config\<lparr>catches_per_hour := PosInf, treasure_rate := py_float 0\<rparr>) = Finite (1170935903116329 / 9007199254740992)"
    "fish_rate_tropical (default_config\<lparr>catches_per_hour := PosInf, treasure_rate := py_float 0\<rparr>) = Finite (5764607523034235 / 288230376151711744)"
    "fish_price_cod (default_config\<lparr>catches_per_hour := PosInf, treasure_rate := py_float 0\<rparr>) = 20"
    "fish_price_salmon (default_config\<lparr>catches_per_hour := PosInf, treasure_rate := py_float 0\<rparr>) = 80"
    "fish_price_puffer (default_config\<lparr>catches_per_hour := PosInf, treasure_rate := py_float 0\<rparr>) = 180"
    "fish_price_tropical (default_config\<lparr>catches_per_hour := PosInf, treasure_rate := py_float 0\<rparr>) = 400"
    "book_mending_rate (default_config\<lparr>catches_per_hour := PosInf, treasure_rate := py_float 0\<rparr>) = Finite (2716571295229883 / 72057594037927936)"
    "book_mending_single_rate (default_config\<lparr>catches_per_hour := PosInf, treasure_rate := py_float 0\<rparr>) = Finite (7367888990378131 / 18014398509481984)"
    "book_mending_multi_rate (default_config\<lparr>catches_per_hour := PosInf, treasure_rate := py_float 0\<rparr>) = Finite (2661627379775963 / 4503599627370496)"
    "book_smite_only_rate (default_config\<lparr>catches_per_hour := PosInf, treasure_rate := py_float 0\<rparr>) = Finite (2132904783522667 / 288230376151711744)"
    "book_bane_only_rate (default_config\<lparr>catches_per_hour := PosInf, treasure_rate := py_float 0\<rparr>) = Finite (2824657686286775 / 576460752303423488)"
    "book_unb3_only_rate (default_config\<lparr>catches_per_hour := PosInf, treasure_rate := py_float 0\<rparr>) = Finite (2060847189484739 / 144115188075855872)"
    "avg_enchants_per_book (default_config\<lparr>catches_per_hour := PosInf, treasure_rate := py_float 0\<rparr>) = Finite (4751297606875873 / 2251799813685248)"
    "avg_xp_per_enchant (default_config\<lparr>catches_per_hour := PosInf, treasure_rate := py_float 0\<rparr>) = Finite 25"
    "avg_xp_per_catch (default_config\<lparr>catches_per_hour := PosInf, treasure_rate := py_float 0\<rparr>) = Finite (7 / 2)"
    "xp_cash_numer (default_config\<lparr>catches_per_hour := PosInf, treasure_rate := py_float 0\<rparr>) = Finite 40"
    "xp_cash_denom (default_config\<lparr>catches_per_hour := PosInf, treasure_rate := py_float 0\<rparr>) = Finite 12"
    "avg_enchants_per_tool (default_config\<lparr>catches_per_hour := PosInf, treasure_rate := py_float 0\<rparr>) = Finite 3"
    "price_mending_single (default_config\<lparr>catches_per_hour := PosInf, treasure_rate := py_float 0\<rparr>) = 220000"
    "price_mending_multi (default_config\<lparr>catches_per_hour := PosInf, treasure_rate := py_float 0\<rparr>) = 120000"
    "price_smite_only (default_config\<lparr>catches_per_hour := PosInf, treasure_rate := py_float 0\<rparr>) = 15000"
    "price_bane_only (default_config\<lparr>catches_per_hour := PosInf, treasure_rate := py_float 0\<rparr>) = 15000"
    "price_unb3_only (default_config\<lparr>catches_per_hour := PosInf, treasure_rate := py_float 0\<rparr>) = 5000"
    by (simp_all only: default_config_def Config.select_convs Config.update_convs z1 z2 z3 z4 z5 z6 z7 z8 z9 z10 z11 z12 z13 z14 z15 z16 z17 z49)
  show ?thesis
    unfolding compute_income_def result_zero_treasure_inf_def
    by (simp only: cfg, simp only: z18 z19 z20 z21 z22 z23 z24 z25 z26 z27 z28 z29 z30 z31 z32 z33 z34 z35 z36 z37 z38 z39 z40 z41 z42 z43 z44 z45 z46 z47 z48 z49 z50 z51 z52 z53 z54 z55 z56 z57 z58 z59 z60 z61 z62 z63 z64 z65 float_mul_int_def float_truediv_int_def py_bind_Inr Let_def)
qed

lemma run_full_treasure_inf: "compute_income (default_config\<lparr>catches_per_hour := PosInf, treasure_rate := py_float 1\<rparr>) = Inr result_full_treasure_inf"
proof -
  have z1: "py_float 1 = Finite 1"
    unfolding py_float_def by (rule round_double_evalI[where e = "0" and n = "4503599627370496"]) simp_all
  have z2: "py_float (60 / 100) = Finite (5404319552844595 / 9007199254740992)"
    unfolding py_float_def by (rule round_double_evalI[where e = "- 1" and n = "5404319552844595"]) simp_all
  have z3: "py_float (25 / 100) = Finite (1 / 4)"
    unfolding py_float_def by (rule round_double_evalI[where e = "- 2" and n = "4503599627370496"]) simp_all
  have z4: "py_float (13 / 100) = Finite (1170935903116329 / 9007199254740992)"
    unfolding py_float_def by (rule round_double_evalI[where e = "- 3" and n = "4683743612465316"]) simp_all
  have z5: "py_float (2 / 100) = Finite (5764607523034235 / 288230376151711744)"
    unfolding py_float_def by (rule round_double_evalI[where e = "- 6" and n = "5764607523034235"]) simp_all
  have z6: "py_float (377 / 10000) = Finite (2716571295229883 / 72057594037927936)"
    unfolding py_float_def by (rule round_double_evalI[where e = "- 5" and n = "5433142590459766"]) simp_all
  have z7: "py_float (409 / 1000) = Finite (7367888990378131 / 18014398509481984)"
    unfolding py_float_def by (rule round_double_evalI[where e = "- 2" and n = "7367888990378131"]) simp_all
  have z8: "py_float (591 / 1000) = Finite (2661627379775963 / 4503599627370496)"
    unfolding py_float_def by (rule round_double_evalI[where e = "- 1" and n = "5323254759551926"]) simp_all
  have z9: "py_float (74 / 10000) = Finite (2132904783522667 / 288230376151711744)"
    unfolding py_float_def by (rule round_double_evalI[where e = "- 8" and n = "8531619134090668"]) simp_all
  have z10: "py_float (49 / 10000) = Finite (2824657686286775 / 576460752303423488)"
    unfolding py_float_def by (rule round_double_evalI[where e = "- 8" and n = "5649315372573550"]) simp_all
  have z11: "py_float (143 / 10000) = Finite (2060847189484739 / 144115188075855872)"
    unfolding py_float_def by (rule round_double_evalI[where e = "- 7" and n = "8243388757938956"]) simp_all
  have z12: "py_float (211 / 100) = Finite (4751297606875873 / 2251799813685248)"
    unfolding py_float_def by (rule round_double_evalI[where e = "1" and n = "4751297606875873"]) simp_all
  have z13: "py_float 25 = Finite 25"
    unfolding py_float_def by (rule round_double_evalI[where e = "4" and n = "7036874417766400"]) simp_all
  have z14: "py_float (35 / 10) = Finite (7 / 2)"
    unfolding py_float_def by (rule round_double_evalI[where e = "1" and n = "7881299347898368"]) simp_all
  have z15: "py_float 40 = Finite 40"
    unfolding py_float_def by (rule round_double_evalI[where e = "5" and n = "5629499534213120"]) simp_all
  have z16: "py_float 12 = Finite 12"
    unfolding py_float_def by (rule round_double_evalI[where e = "3" and n = "6755399441055744"]) simp_all
  have z17: "py_float 3 = Finite 3"
    unfolding py_float_def by (rule round_double_evalI[where e = "1" and n = "6755399441055744"]) simp_all
  have z18: "float_truediv (Finite 40) (Finite 12) = Inr (Finite (7505999378950827 / 2251799813685248))"
    proof -
    have "round_double (40 / 12) = Finite (7505999378950827 / 2251799813685248)"
      by (rule round_double_evalI[where e = "1" and n = "7505999378950827"]) simp_all
    then show ?thesis by simp
  qed
  have z19: "float_mul PosInf (Finite 1) = PosInf"
    by (simp add: signed_inf_def)
  have z20: "float_of_int 6 = Inr (Finite 6)"
    proof -
    have "round_double 6 = Finite 6"
      by (rule round_double_evalI[where e = "2" and n = "6755399441055744"]) simp_all
    then show ?thesis by (simp add: float_of_int_def)
  qed
  have z21: "float_truediv PosInf (Finite 6) = Inr (PosInf)"
    by (simp add: signed_inf_def)
  have z22: "float_mul PosInf (Finite (2716571295229883 / 72057594037927936)) = PosInf"
    by (simp add: signed_inf_def)
  have z23: "float_mul PosInf (Finite (7367888990378131 / 18014398509481984)) = PosInf"
    by (simp add: signed_inf_def)
  have z24: "float_mul PosInf (Finite (2661627379775963 / 4503599627370496)) = PosInf"
    by (simp add: signed_inf_def)
  have z25: "float_of_int 220000 = Inr (Finite 220000)"
    proof -
    have "round_double 220000 = Finite 220000"
      by (rule round_double_evalI[where e = "17" and n = "7559142440960000"]) simp_all
    then show ?thesis by (simp add: float_of_int_def)
  qed
  have z26: "float_mul PosInf (Finite 220000) = PosInf"
    by (simp add: signed_inf_def)
  have z27: "float_of_int 120000 = Inr (Finite 120000)"
    proof -
    have "round_double 120000 = Finite 120000"
      by (rule round_double_evalI[where e = "16" and n = "8246337208320000"]) simp_all
    then show ?thesis by (simp add: float_of_int_def)
  qed
  have z28: "float_mul PosInf (Finite 120000) = PosInf"
    by (simp add: signed_inf_def)
  have z29: "float_add PosInf PosInf = PosInf"
    by (simp add: signed_inf_def)
  have z30: "float_add (Finite (2132904783522667 / 288230376151711744)) (Finite (2824657686286775 / 576460752303423488)) = Finite (7090467253332109 / 576460752303423488)"
    unfolding float_add.simps by (rule round_double_evalI[where e = "- 7" and n = "7090467253332109"]) simp_all
  have z31: "float_add (Finite (7090467253332109 / 576460752303423488)) (Finite (2060847189484739 / 144115188075855872)) = Finite (1916732001408883 / 72057594037927936)"
    unfolding float_add.simps by (rule round_double_evalI[where e = "- 6" and n = "7666928005635532"]) simp_all
  have z32: "float_mul PosInf (Finite (1916732001408883 / 72057594037927936)) = PosInf"
    by (simp add: signed_inf_def)
  have z33: "float_mul PosInf (Finite (2132904783522667 / 288230376151711744)) = PosInf"
    by (simp add: signed_inf_def)
  have z34: "float_of_int 15000 = Inr (Finite 15000)"
    proof -
    have "round_double 15000 = Finite 15000"
      by (rule round_double_evalI[where e = "13" and n = "8246337208320000"]) simp_all
    then show ?thesis by (simp add: float_of_int_def)
  qed
  have z35: "float_mul PosInf (Finite 15000) = PosInf"
    by (simp add: signed_inf_def)
  have z36: "float_mul PosInf (Finite (2824657686286775 / 576460752303423488)) = PosInf"
    by (simp add: signed_inf_def)
  have z37: "float_mul PosInf (Finite (2060847189484739 / 144115188075855872)) = PosInf"
    by (simp add: signed_inf_def)
  have z38: "float_of_int 5000 = Inr (Finite 5000)"
    proof -
    have "round_double 5000 = Finite 5000"
      by (rule round_double_evalI[where e = "12" and n = "5497558138880000"]) simp_all
    then show ?thesis by (simp add: float_of_int_def)
  qed
  have z39: "float_mul PosInf (Finite 5000) = PosInf"
    by (simp add: signed_inf_def)
  have z40: "float_sub PosInf PosInf = NaN"
    by (simp add: signed_inf_def)
  have z41: "float_sub NaN PosInf = NaN"
    by (simp add: signed_inf_def)
  have z42: "float_mul NaN (Finite (4751297606875873 / 2251799813685248)) = NaN"
    by (simp add: signed_inf_def)
  have z43: "float_mul NaN (Finite 25) = NaN"
    by (simp add: signed_inf_def)
  have z44: "float_mul NaN (Finite (7505999378950827 / 2251799813685248)) = NaN"
    by (simp add: signed_inf_def)
  have z45: "int_truediv 2 6 = Inr (Finite (6004799503160661 / 18014398509481984))"
    proof -
    have "round_double (1 / 3) = Finite (6004799503160661 / 18014398509481984)"
      by (rule round_double_evalI[where e = "- 2" and n = "6004799503160661"]) simp_all
    then show ?thesis by (simp add: int_truediv_def)
  qed
  have z46: "float_mul PosInf (Finite (6004799503160661 / 18014398509481984)) = PosInf"
    by (simp add: signed_inf_def)
  have z47: "float_mul PosInf (Finite 3) = PosInf"
    by (simp add: signed_inf_def)
  have z48: "float_mul PosInf (Finite 25) = PosInf"
    by (simp add: signed_inf_def)
  have z49: "float_mul PosInf (Finite (7505999378950827 / 2251799813685248)) = PosInf"
    by (simp add: signed_inf_def)
  have z50: "float_mul PosInf (Finite (7 / 2)) = PosInf"
    by (simp add: signed_inf_def)
  have z51: "float_sub (Finite 1) (Finite 1) = Finite 0"
    unfolding float_sub.simps by simp
  have z52: "float_mul PosInf (Finite 0) = NaN"
    by (simp add: signed_inf_def)
  have z53: "float_mul NaN (Finite (5404319552844595 / 9007199254740992)) = NaN"
    by (simp add: signed_inf_def)
  have z54: "float_mul NaN (Finite (1 / 4)) = NaN"
    by (simp add: signed_inf_def)
  have z55: "float_mul NaN (Finite (1170935903116329 / 9007199254740992)) = NaN"
    by (simp add: signed_inf_def)
  have z56: "float_mul NaN (Finite (5764607523034235 / 288230376151711744)) = NaN"
    by (simp add: signed_inf_def)
  have z57: "float_of_int 20 = Inr (Finite 20)"
    proof -
    have "round_double 20 = Finite 20"
      by (rule round_double_evalI[where e = "4" and n = "5629499534213120"]) simp_all
    then show ?thesis by (simp add: float_of_int_def)
  qed
  have z58: "float_mul NaN (Finite 20) = NaN"
    by (simp add: signed_inf_def)
  have z59: "float_of_int 80 = Inr (Finite 80)"
    proof -
    have "round_double 80 = Finite 80"
      by (rule round_double_evalI[where e = "6" and n = "5629499534213120"]) simp_all
    then show ?thesis by (simp add: float_of_int_def)
  qed
  have z60: "float_mul NaN (Finite 80) = NaN"
    by (simp add: signed_inf_def)
  have z61: "float_of_int 180 = Inr (Finite 180)"
    proof -
    have "round_double 180 = Finite 180"
      by (rule round_double_evalI[where e = "7" and n = "6333186975989760"]) simp_all
    then show ?thesis by (simp add: float_of_int_def)
  qed
  have z62: "float_mul NaN (Finite 180) = NaN"
    by (simp add: signed_inf_def)
  have z63: "float_of_int 400 = Inr (Finite 400)"
    proof -
    have "round_double 400 = Finite 400"
      by (rule round_double_evalI[where e = "8" and n = "7036874417766400"]) simp_all
    then show ?thesis by (simp add: float_of_int_def)
  qed
  have z64: "float_mul NaN (Finite 400) = NaN"
    by (simp add: signed_inf_def)
  have z65: "float_add NaN NaN = NaN"
    by (simp add: signed_inf_def)
  have z66: "float_add NaN PosInf = NaN"
    by (simp add: signed_inf_def)
  have cfg:
    "catches_per_hour (default_config\<lparr>catches_per_hour := PosInf, treasure_rate := py_float 1\<rparr>) = PosInf"
    "treasure_rate (default_config\<lparr>catches_per_hour := PosInf, treasure_rate := py_float 1\<rparr>) = Finite 1"
    "treasure_types (default_config\<lparr>catches_per_hour := PosInf, treasure_rate := py_float 1\<rparr>) = 6"
    "fish_rate_cod (default_config\<lparr>catches_per_hour := PosInf, treasure_rate := py_float 1\<rparr>) = Finite (5404319552844595 / 9007199254740992)"
    "fish_rate_salmon (default_config\<lparr>catches_per_hour := PosInf, treasure_rate := py_float 1\<rparr>) = Finite (1 / 4)"
    "fish_rate_puffer (default_config\<lparr>catches_per_hour := PosInf, treasure_rate := py_float 1\<rparr>) = Finite (1170935903116329 / 9007199254740992)"
    "fish_rate_tropical (default_config\<lparr>catches_per_hour := PosInf, treasure_rate := py_float 1\<rparr>) = Finite (5764607523034235 / 288230376151711744)"
    "fish_price_cod (default_config\<lparr>catches_per_hour := PosInf, treasure_rate := py_float 1\<rparr>) = 20"
    "fish_price_salmon (default_config\<lparr>catches_per_hour := PosInf, treasure_rate := py_float 1\<rparr>) = 80"
    "fish_price_puffer (default_config\<lparr>catches_per_hour := PosInf, treasure_rate := py_float 1\<rparr>) = 180"
    "fish_price_tropical (default_config\<lparr>catches_per_hour := PosInf, treasure_rate := py_float 1\<rparr>) = 400"
    "book_mending_rate (default_config\<lparr>catches_per_hour := PosInf, treasure_rate := py_float 1\<rparr>) = Finite (2716571295229883 / 72057594037927936)"
    "book_mending_single_rate (default_config\<lparr>catches_per_hour := PosInf, treasure_rate := py_float 1\<rparr>) = Finite (7367888990378131 / 18014398509481984)"
    "book_mending_multi_rate (default_config\<lparr>catches_per_hour := PosInf, treasure_rate := py_float 1\<rparr>) = Finite (2661627379775963 / 4503599627370496)"
    "book_smite_only_rate (default_config\<lparr>catches_per_hour := PosInf, treasure_rate := py_float 1\<rparr>) = Finite (2132904783522667 / 288230376151711744)"
    "book_bane_only_rate (default_config\<lparr>catches_per_hour := PosInf, treasure_rate := py_float 1\<rparr>) = Finite (2824657686286775 / 576460752303423488)"
    "book_unb3_only_rate (default_config\<lparr>catches_per_hour := PosInf, treasure_rate := py_float 1\<rparr>) = Finite (2060847189484739 / 144115188075855872)"
    "avg_enchants_per_book (default_config\<lparr>catches_per_hour := PosInf, treasure_rate := py_float 1\<rparr>) = Finite (4751297606875873 / 2251799813685248)"
    "avg_xp_per_enchant (default_config\<lparr>catches_per_hour := PosInf, treasure_rate := py_float 1\<rparr>) = Finite 25"
    "avg_xp_per_catch (default_config\<lparr>catches_per_hour := PosInf, treasure_rate := py_float 1\<rparr>) = Finite (7 / 2)"
    "xp_cash_numer (default_config\<lparr>catches_per_hour := PosInf, treasure_rate := py_float 1\<rparr>) = Finite 40"
    "xp_cash_denom (default_config\<lparr>catches_per_hour := PosInf, treasure_rate := py_float 1\<rparr>) = Finite 12"
    "avg_enchants_per_tool (default_config\<lparr>catches_per_hour := PosInf, treasure_rate := py_float 1\<rparr>) = Finite 3"
    "price_mending_single (default_config\<lparr>catches_per_hour := PosInf, treasure_rate := py_float 1\<rparr>) = 220000"
    "price_mending_multi (default_config\<lparr>catches_per_hour := PosInf, treasure_rate := py_float 1\<rparr>) = 120000"
    "price_smite_only (default_config\<lparr>catches_per_hour := PosInf, treasure_rate := py_float 1\<rparr>) = 15000"
    "price_bane_only (default_config\<lparr>catches_per_hour := PosInf, treasure_rate := py_float 1\<rparr>) = 15000"
    "price_unb3_only (default_config\<lparr>catches_per_hour := PosInf, treasure_rate := py_float 1\<rparr>) = 5000"
    by (simp_all only: default_config_def Config.select_convs Config.update_convs z1 z2 z3 z4 z5 z6 z7 z8 z9 z10 z11 z12 z13 z14 z15 z16 z17)
  show ?thesis
    unfolding compute_income_def result_full_treasure_inf_def
    by (simp only: cfg, simp only: z1 z18 z19 z20 z21 z22 z23 z24 z25 z26 z27 z28 z29 z30 z31 z32 z33 z34 z35 z36 z37 z38 z39 z40 z41 z42 z43 z44 z45 z46 z47 z48 z49 z50 z51 z52 z53 z54 z55 z56 z57 z58 z59 z60 z61 z62 z63 z64 z65 z66 float_mul_int_def float_truediv_int_def py_bind_Inr Let_def)
qed

section \<open>The program leaves the configuration as it was\<close>

lemma preserves_ret: "preserves_config (ret v)"
  by (simp add: preserves_config_def ret_def)

lemma preserves_getattr: "preserves_config (getattr f)"
  by (simp add: preserves_config_def getattr_def)

lemma preserves_raise_or: "preserves_config (raise_or m)"
  by (simp add: preserves_config_def raise_or_def)

lemma preserves_bnd:
  assumes "preserves_config m" and "\<And>v. preserves_config (f v)"
  shows "preserves_config (bnd m f)"
  unfolding preserves_config_def bnd_def
proof
  fix s
  from assms(1) have "snd (m s) = s" by (simp add: preserves_config_def)
  then obtain x where ms: "m s = (x, s)" by (cases "m s") simp
  show "snd (case m s of (Inl e, s') \<Rightarrow> (Inl e, s') | (Inr v, s') \<Rightarrow> f v s') = s"
    using assms(2) by (cases x) (simp_all add: ms preserves_config_def)
qed

lemma setattr_changes:
  "\<not> preserves_config (setattr treasure_types_update 7)"
proof
  assume "preserves_config (setattr treasure_types_update 7)"
  then have "snd (setattr treasure_types_update 7 default_config) = default_config"
    by (simp add: preserves_config_def)
  then have "treasure_types (default_config\<lparr>treasure_types := 7\<rparr>) = treasure_types default_config"
    by (simp add: setattr_def)
  then show False by (simp add: default_config_def)
qed

lemma compute_income_prog_preserves: "preserves_config compute_income_prog"
  unfolding compute_income_prog_def
  by (intro preserves_bnd preserves_ret preserves_getattr preserves_raise_or)

lemma bnd_getattr: "bnd (getattr f) k s = k (f s) s"
  by (simp add: bnd_def getattr_def)

lemma bnd_ret: "bnd (ret v) k s = k v s"
  by (simp add: bnd_def ret_def)

lemma bnd_raise_or:
  "bnd (raise_or m) k s = (case m of Inl e \<Rightarrow> (Inl e, s) | Inr v \<Rightarrow> k v s)"
  by (cases m) (simp_all add: bnd_def raise_or_def)

lemma ret_apply: "ret v s = (Inr v, s)"
  by (simp add: ret_def)

lemma case_pair_py_bind:
  "(case m of Inl e \<Rightarrow> (Inl e, s) | Inr v \<Rightarrow> (g v, s)) = (py_bind m g, s)"
  by (cases m) simp_all

lemma compute_income_prog_eq: "compute_income_prog s = (compute_income s, s)"
  unfolding compute_income_prog_def compute_income_def
  by (simp only: bnd_getattr bnd_ret bnd_raise_or ret_apply case_pair_py_bind Let_def)

section \<open>Scaling by a power of two\<close>







































section \<open>C1: zero divisors\<close>

text \<open>
  C1, as amended. A configuration with \<open>xp_cash_denom = 0\<close> or \<open>treasure_types = 0\<close> makes
  \<open>compute_income\<close> raise \<open>ZeroDivisionError\<close>: the division of line 93 or that of line 99
  raises, and no result dictionary is returned.
\<close>

theorem compute_income_zero_divisor_raises:
  assumes "xp_cash_denom cfg = Finite 0 \<or> treasure_types cfg = 0"
  shows "compute_income cfg = Inl ZeroDivisionError"
proof (cases "xp_cash_denom cfg = Finite 0")
  case True
  show ?thesis
    unfolding compute_income_def
    by (simp only: True float_truediv_zero py_bind_Inl)
next
  case False
  with assms have tt: "treasure_types cfg = 0" by simp
  from False obtain q where q: "float_truediv (xp_cash_numer cfg) (xp_cash_denom cfg) = Inr q"
    using float_truediv_nonzero by blast
  show ?thesis
    unfolding compute_income_def
    by (simp only: q tt float_truediv_int_zero py_bind_Inl py_bind_Inr Let_def)
qed

text \<open>
  Witness for C1: a configuration with both divisors zero satisfies the hypothesis, and the
  call raises.
\<close>

theorem compute_income_zero_divisor_raises_witness:
  "(xp_cash_denom (default_config\<lparr>treasure_types := 0, xp_cash_denom := Finite 0\<rparr>) = Finite 0
      \<or> treasure_types (default_config\<lparr>treasure_types := 0, xp_cash_denom := Finite 0\<rparr>) = 0)
   \<and> compute_income (default_config\<lparr>treasure_types := 0, xp_cash_denom := Finite 0\<rparr>)
       = Inl ZeroDivisionError"
  using compute_income_zero_divisor_raises
    [of "default_config\<lparr>treasure_types := 0, xp_cash_denom := Finite 0\<rparr>"]
  by simp

text \<open>
  Counterexample to C1 as stated: on the default configuration with \<open>xp_cash_denom = 0.0\<close>,
  and on the default configuration with \<open>treasure_types = 0\<close>, the call returns no record
  holding an infinite or undefined value; it raises \<open>ZeroDivisionError\<close>.
\<close>

theorem zero_divisor_silent_counterexample:
  "compute_income (default_config\<lparr>xp_cash_denom := py_float 0\<rparr>) = Inl ZeroDivisionError
   \<and> compute_income (default_config\<lparr>treasure_types := 0\<rparr>) = Inl ZeroDivisionError"
proof
  have d: "xp_cash_denom (default_config\<lparr>xp_cash_denom := py_float 0\<rparr>) = Finite 0"
    by simp
  show "compute_income (default_config\<lparr>xp_cash_denom := py_float 0\<rparr>) = Inl ZeroDivisionError"
    unfolding compute_income_def
    by (simp only: d float_truediv_zero py_bind_Inl)
  have "xp_cash_denom (default_config\<lparr>treasure_types := 0\<rparr>) \<noteq> Finite 0"
    by (simp add: default_config_def py_float_12)
  then obtain q where q:
    "float_truediv (xp_cash_numer (default_config\<lparr>treasure_types := 0\<rparr>))
       (xp_cash_denom (default_config\<lparr>treasure_types := 0\<rparr>)) = Inr q"
    using float_truediv_nonzero by blast
  have tt: "treasure_types (default_config\<lparr>treasure_types := 0\<rparr>) = 0" by simp
  show "compute_income (default_config\<lparr>treasure_types := 0\<rparr>) = Inl ZeroDivisionError"
    unfolding compute_income_def
    by (simp only: q tt float_truediv_int_zero py_bind_Inl py_bind_Inr Let_def)
qed

section \<open>C2: the example scenario\<close>

text \<open>
  C2. On the configuration with \<open>catches_per_hour = 500\<close>, \<open>treasure_rate = 0.113\<close>,
  \<open>treasure_types = 6\<close>, \<open>book_mending_rate = 0.0377\<close> and every other field at its default,
  \<open>compute_income\<close> returns \<open>treasures_per_hour = 56.5\<close>, \<open>books_per_hour\<close> the double nearest
  to \<open>56.5 / 6\<close> (9.416666666666666), and \<open>mending_books_per_hour\<close> the product of
  \<open>books_per_hour\<close> and \<open>0.0377\<close>, which is within \<open>0.00001\<close> of \<open>0.355\<close>.
\<close>

theorem example_scenario:
  "catches_per_hour default_config = py_float 500
   \<and> treasure_rate default_config = py_float (113 / 1000)
   \<and> treasure_types default_config = 6
   \<and> book_mending_rate default_config = py_float (377 / 10000)
   \<and> compute_income default_config = Inr default_result
   \<and> treasures_per_hour default_result = Finite (113 / 2)
   \<and> books_per_hour default_result = round_double (113 / 2 / 6)
   \<and> books_per_hour default_result = Finite (5301112061384021 / 562949953421312)
   \<and> mending_books_per_hour default_result
       = float_mul (books_per_hour default_result) (py_float (377 / 10000))
   \<and> mending_books_per_hour default_result = Finite (3197630795426841 / 9007199254740992)
   \<and> \<bar>3197630795426841 / 9007199254740992 - 355 / 1000 :: rat\<bar> < 1 / 100000"
proof -
  have cfg: "catches_per_hour default_config = py_float 500"
    "treasure_rate default_config = py_float (113 / 1000)"
    "treasure_types default_config = 6"
    "book_mending_rate default_config = py_float (377 / 10000)"
    by (simp_all only: default_config_def Config.select_convs)
  have b: "round_double (113 / 2 / 6) = Finite (5301112061384021 / 562949953421312)"
    by (rule round_double_evalI[where e = "3" and n = "5301112061384021"]) simp_all
  have res: "treasures_per_hour default_result = Finite (113 / 2)"
    "books_per_hour default_result = Finite (5301112061384021 / 562949953421312)"
    "mending_books_per_hour default_result = Finite (3197630795426841 / 9007199254740992)"
    by (simp_all only: default_result_def Result.select_convs)
  have m: "mending_books_per_hour default_result
       = float_mul (books_per_hour default_result) (py_float (377 / 10000))"
    using ci_mending[OF default_run] by (simp only: cfg)
  have a: "\<bar>3197630795426841 / 9007199254740992 - 355 / 1000 :: rat\<bar> < 1 / 100000"
    by simp
  show ?thesis
    using cfg default_run res m a by (simp only: b simp_thms)
qed

section \<open>C3: conservation of books\<close>

text \<open>
  C3, as amended. For every configuration on which \<open>compute_income\<close> returns finite
  \<open>books_per_hour\<close>, \<open>mending_books_per_hour\<close> and \<open>sellable_non_mending_books\<close>, and
  for which \<open>mending_books_per_hour + sellable_non_mending_books + grind_books\<close> is finite,
  that sum differs from \<open>books_per_hour\<close> by at most \<open>2^-51\<close> times the sum of the
  magnitudes of the three, whatever the sign of \<open>grind_books\<close>.
\<close>

theorem conservation_up_to_rounding:
  assumes r: "compute_income cfg = Inr r"
    and b: "books_per_hour r = Finite b" and m: "mending_books_per_hour r = Finite m"
    and s: "sellable_non_mending_books r = Finite s"
    and t: "float_add (float_add (mending_books_per_hour r) (sellable_non_mending_books r))
              (grind_books r) = Finite t"
  shows "\<bar>t - b\<bar> \<le> (\<bar>b\<bar> + \<bar>m\<bar> + \<bar>s\<bar>) / 2 ^ 51"
proof -
  have gb: "on_grid b" using ci_books[OF r] unfolding b by (rule float_truediv_int_on_grid)
  have gm: "on_grid m" using ci_mending[OF r, symmetric] unfolding m by (rule float_mul_on_grid)
  have gs: "on_grid s" using ci_sellable[OF r, symmetric] unfolding s by (rule float_mul_on_grid)
  from t obtain a g where a: "float_add (Finite m) (Finite s) = Finite a"
    and g: "grind_books r = Finite g" and ta: "round_double (a + g) = Finite t"
    unfolding m s by (elim float_add_FiniteD) simp
  from a have ra: "round_double (m + s) = Finite a" by simp
  from ci_grind[OF r] have "float_sub (float_sub (Finite b) (Finite m)) (Finite s) = Finite g"
    unfolding b m s g by simp
  then obtain d where d: "float_sub (Finite b) (Finite m) = Finite d"
    and rg: "round_double (d - s) = Finite g"
    by (elim float_sub_FiniteD) simp
  from d have rd: "round_double (b - m) = Finite d" by simp
  have gd: "on_grid d" using rd by (rule round_double_on_grid)
  have gg: "on_grid g" using rg by (rule round_double_on_grid)
  have ga: "on_grid a" using ra by (rule round_double_on_grid)
  have e1: "\<bar>d - (b - m)\<bar> \<le> \<bar>b - m\<bar> / 2 ^ 53"
    using rd on_grid_diff[OF gb gm] by (rule round_double_error_on_grid)
  have e2: "\<bar>g - (d - s)\<bar> \<le> \<bar>d - s\<bar> / 2 ^ 53"
    using rg on_grid_diff[OF gd gs] by (rule round_double_error_on_grid)
  have e3: "\<bar>a - (m + s)\<bar> \<le> \<bar>m + s\<bar> / 2 ^ 53"
    using ra on_grid_add[OF gm gs] by (rule round_double_error_on_grid)
  have e4: "\<bar>t - (a + g)\<bar> \<le> \<bar>a + g\<bar> / 2 ^ 53"
    using ta on_grid_add[OF ga gg] by (rule round_double_error_on_grid)
  from e1 e2 e3 e4 show ?thesis by (rule conservation_arith)
qed

text \<open>Witness for C3: the default run, where the two sides differ.\<close>

theorem conservation_up_to_rounding_witness:
  "compute_income default_config = Inr default_result
   \<and> books_per_hour default_result = Finite (5301112061384021 / 562949953421312)
   \<and> mending_books_per_hour default_result = Finite (3197630795426841 / 9007199254740992)
   \<and> sellable_non_mending_books default_result = Finite (2256153293325039 / 9007199254740992)
   \<and> float_add (float_add (mending_books_per_hour default_result)
          (sellable_non_mending_books default_result)) (grind_books default_result)
       = Finite (1325278015346005 / 140737488355328)
   \<and> \<bar>1325278015346005 / 140737488355328 - 5301112061384021 / 562949953421312 :: rat\<bar>
       \<le> (\<bar>5301112061384021 / 562949953421312\<bar> + \<bar>3197630795426841 / 9007199254740992\<bar>
            + \<bar>2256153293325039 / 9007199254740992\<bar>) / 2 ^ 51"
proof -
  have h1: "float_add (Finite (3197630795426841 / 9007199254740992)) (Finite (2256153293325039 / 9007199254740992)) = Finite (681723011093985 / 1125899906842624)"
    unfolding float_add.simps by (rule round_double_evalI[where e = "- 1" and n = "5453784088751880"]) simp_all
  have h2: "float_add (Finite (681723011093985 / 1125899906842624)) (Finite (1240062638959257 / 140737488355328)) = Finite (1325278015346005 / 140737488355328)"
    unfolding float_add.simps by (rule round_double_evalI[where e = "3" and n = "5301112061384020"]) simp_all
  have b: "books_per_hour default_result = Finite (5301112061384021 / 562949953421312)"
    and m: "mending_books_per_hour default_result = Finite (3197630795426841 / 9007199254740992)"
    and s: "sellable_non_mending_books default_result
        = Finite (2256153293325039 / 9007199254740992)"
    by (simp_all only: default_result_def Result.select_convs)
  have t: "float_add (float_add (mending_books_per_hour default_result)
          (sellable_non_mending_books default_result)) (grind_books default_result)
       = Finite (1325278015346005 / 140737488355328)"
    by (simp only: default_result_def Result.select_convs h1 h2)
  from default_run b m s t conservation_up_to_rounding[OF default_run b m s t]
  show ?thesis by (intro conjI)
qed

text \<open>
  Counterexample to C3 as stated: on the default configuration,
  \<open>mending_books_per_hour + sellable_non_mending_books + grind_books\<close> evaluates to
  9.416666666666664, and \<open>books_per_hour\<close> is 9.416666666666666.
\<close>

theorem conservation_counterexample:
  "compute_income default_config = Inr default_result
   \<and> float_add (float_add (mending_books_per_hour default_result)
          (sellable_non_mending_books default_result)) (grind_books default_result)
       = Finite (1325278015346005 / 140737488355328)
   \<and> books_per_hour default_result = Finite (5301112061384021 / 562949953421312)
   \<and> Finite (1325278015346005 / 140737488355328)
       \<noteq> Finite (5301112061384021 / 562949953421312)"
proof -
  have h1: "float_add (Finite (3197630795426841 / 9007199254740992)) (Finite (2256153293325039 / 9007199254740992)) = Finite (681723011093985 / 1125899906842624)"
    unfolding float_add.simps by (rule round_double_evalI[where e = "- 1" and n = "5453784088751880"]) simp_all
  have h2: "float_add (Finite (681723011093985 / 1125899906842624)) (Finite (1240062638959257 / 140737488355328)) = Finite (1325278015346005 / 140737488355328)"
    unfolding float_add.simps by (rule round_double_evalI[where e = "3" and n = "5301112061384020"]) simp_all
  have s: "float_add (float_add (mending_books_per_hour default_result)
          (sellable_non_mending_books default_result)) (grind_books default_result)
       = Finite (1325278015346005 / 140737488355328)"
    by (simp only: default_result_def Result.select_convs h1 h2)
  have b: "books_per_hour default_result = Finite (5301112061384021 / 562949953421312)"
    by (simp only: default_result_def Result.select_convs)
  have ne: "Finite (1325278015346005 / 140737488355328)
       \<noteq> Finite (5301112061384021 / 562949953421312)"
    by simp
  from default_run s b ne show ?thesis by (intro conjI)
qed

section \<open>C4: linearity in the throughput\<close>




section \<open>C5: the command line\<close>

text \<open>
  C5, as amended. The command line has an optional flag for 18 of the 28 fields of the
  configuration: the throughput, the treasure rate, the four fish prices, the six book rates,
  the three averages, the two parts of the exchange rate and the enchantments per tool; each
  flag has the type and the default of its field. The other ten fields (\<open>treasure_types\<close>,
  the four fish rates and the five book prices) have no flag and keep their defaults.
\<close>

theorem cli_flags_settable_fields:
  "map (\<lambda>(opt, ty, dflt). (dest opt, ty, dflt)) cli_arguments
     = filter (\<lambda>(field, ty, dflt). field \<in> set cli_settable) config_fields
   \<and> cli_settable
     = [''catches_per_hour'', ''treasure_rate'',
        ''fish_price_cod'', ''fish_price_salmon'', ''fish_price_puffer'', ''fish_price_tropical'',
        ''book_mending_rate'', ''book_mending_single_rate'', ''book_mending_multi_rate'',
        ''book_smite_only_rate'', ''book_bane_only_rate'', ''book_unb3_only_rate'',
        ''avg_enchants_per_book'', ''avg_xp_per_enchant'', ''avg_xp_per_catch'',
        ''xp_cash_numer'', ''xp_cash_denom'', ''avg_enchants_per_tool'']
   \<and> map fst (filter (\<lambda>(field, ty, dflt). field \<notin> set cli_settable) config_fields)
     = [''treasure_types'',
        ''fish_rate_cod'', ''fish_rate_salmon'', ''fish_rate_puffer'', ''fish_rate_tropical'',
        ''price_mending_single'', ''price_mending_multi'',
        ''price_smite_only'', ''price_bane_only'', ''price_unb3_only'']"
proof -
  have s: "cli_settable
     = [''catches_per_hour'', ''treasure_rate'',
        ''fish_price_cod'', ''fish_price_salmon'', ''fish_price_puffer'', ''fish_price_tropical'',
        ''book_mending_rate'', ''book_mending_single_rate'', ''book_mending_multi_rate'',
        ''book_smite_only_rate'', ''book_bane_only_rate'', ''book_unb3_only_rate'',
        ''avg_enchants_per_book'', ''avg_xp_per_enchant'', ''avg_xp_per_catch'',
        ''xp_cash_numer'', ''xp_cash_denom'', ''avg_enchants_per_tool'']"
    by (simp add: cli_settable_def cli_arguments_def main_config_kwargs_def dest_def)
  show ?thesis
    unfolding s by (simp add: cli_arguments_def config_fields_def dest_def)
qed

text \<open>
  Counterexample to C5 as stated: \<open>treasure_types\<close>, \<open>fish_rate_cod\<close> and
  \<open>price_mending_single\<close> are fields of the configuration, and no flag sets them.
\<close>

theorem cli_flags_counterexample:
  "''treasure_types'' \<in> set (map fst config_fields)
   \<and> ''treasure_types'' \<notin> set (map (\<lambda>(opt, ty, dflt). dest opt) cli_arguments)
   \<and> ''treasure_types'' \<notin> set cli_settable
   \<and> ''fish_rate_cod'' \<in> set (map fst config_fields)
   \<and> ''fish_rate_cod'' \<notin> set (map (\<lambda>(opt, ty, dflt). dest opt) cli_arguments)
   \<and> ''price_mending_single'' \<in> set (map fst config_fields)
   \<and> ''price_mending_single'' \<notin> set (map (\<lambda>(opt, ty, dflt). dest opt) cli_arguments)"
  by (simp add: cli_settable_def cli_arguments_def main_config_kwargs_def dest_def
      config_fields_def)

section \<open>C6: the experience of fishing\<close>

text \<open>
  C6. For every configuration with \<open>xp_cash_denom\<close> nonzero, the result of \<open>compute_income\<close>
  has \<open>yen_from_fishing = catches_per_hour * avg_xp_per_catch * (xp_cash_numer / xp_cash_denom)\<close>,
  computed in this order; no other parameter enters.
\<close>

theorem xp_conversion_consistency:
  assumes "xp_cash_denom cfg \<noteq> Finite 0" and "compute_income cfg = Inr r"
  shows "\<exists>q. float_truediv (xp_cash_numer cfg) (xp_cash_denom cfg) = Inr q
           \<and> yen_from_fishing r
               = float_mul (float_mul (catches_per_hour cfg) (avg_xp_per_catch cfg)) q"
  using ci_yen_per_xp[OF assms(2)] ci_xp_from_fishing[OF assms(2)] ci_yen_from_fishing[OF assms(2)]
  by simp

text \<open>Witness for C6: the default configuration and its result.\<close>

theorem xp_conversion_consistency_witness:
  "xp_cash_denom default_config \<noteq> Finite 0
   \<and> compute_income default_config = Inr default_result
   \<and> (\<exists>q. float_truediv (xp_cash_numer default_config) (xp_cash_denom default_config) = Inr q
          \<and> yen_from_fishing default_result
              = float_mul (float_mul (catches_per_hour default_config)
                  (avg_xp_per_catch default_config)) q)"
proof -
  have d: "xp_cash_denom default_config \<noteq> Finite 0"
    by (simp add: default_config_def py_float_12)
  from d default_run xp_conversion_consistency[OF d default_run] show ?thesis
    by (intro conjI)
qed

section \<open>C7: no treasure\<close>

text \<open>
  C7, as amended. For every configuration with \<open>treasure_rate = 0\<close>, \<open>treasure_types\<close>
  nonzero, a finite exchange rate \<open>xp_cash_numer / xp_cash_denom\<close> (so \<open>xp_cash_denom\<close> is
  nonzero), \<open>int\<close> fields that convert to \<open>float\<close>, and finite values for
  \<open>catches_per_hour\<close>, the book rates, the sum of the three sellable rates and the three
  averages, \<open>compute_income\<close> returns a result with \<open>treasures_per_hour\<close>,
  \<open>books_per_hour\<close>, \<open>tools_per_hour\<close>, \<open>revenue_mending\<close>, \<open>revenue_non_mending\<close>,
  \<open>yen_from_books\<close> and \<open>yen_from_tools\<close> all zero and \<open>fish_per_hour\<close> equal to
  \<open>catches_per_hour\<close>.
\<close>

theorem zero_treasure_boundary:
  assumes rate: "treasure_rate cfg = Finite 0"
    and tt: "treasure_types cfg \<noteq> 0" and fits: "ints_fit cfg"
    and yen: "float_truediv (xp_cash_numer cfg) (xp_cash_denom cfg) = Inr (Finite y)"
    and c: "is_finite (catches_per_hour cfg)" "is_double (catches_per_hour cfg)"
    and fin: "is_finite (book_mending_rate cfg)" "is_finite (book_mending_single_rate cfg)"
      "is_finite (book_mending_multi_rate cfg)"
      "is_finite (book_smite_only_rate cfg)" "is_finite (book_bane_only_rate cfg)"
      "is_finite (book_unb3_only_rate cfg)"
      "is_finite (float_add (float_add (book_smite_only_rate cfg) (book_bane_only_rate cfg))
         (book_unb3_only_rate cfg))"
      "is_finite (avg_enchants_per_book cfg)" "is_finite (avg_xp_per_enchant cfg)"
      "is_finite (avg_enchants_per_tool cfg)"
  shows "\<exists>r. compute_income cfg = Inr r
    \<and> treasures_per_hour r = Finite 0 \<and> books_per_hour r = Finite 0
    \<and> tools_per_hour r = Finite 0
    \<and> revenue_mending r = Finite 0 \<and> revenue_non_mending r = Finite 0
    \<and> yen_from_books r = Finite 0 \<and> yen_from_tools r = Finite 0
    \<and> fish_per_hour r = catches_per_hour cfg"
proof -
  have den: "xp_cash_denom cfg \<noteq> Finite 0"
    using yen by (cases "xp_cash_denom cfg = Finite 0") simp_all
  from compute_income_returns[OF den tt fits] obtain r where r: "compute_income cfg = Inr r"
    by blast
  have yr: "yen_per_xp r = Finite y" using ci_yen_per_xp[OF r] yen by simp
  have t: "treasures_per_hour r = Finite 0"
    using ci_treasures[OF r] rate c(1) by simp
  have b: "books_per_hour r = Finite 0"
    using ci_books[OF r] by (simp only: t) (rule float_truediv_int_zero_num)
  from ci_tools[OF r] obtain two where two: "int_truediv 2 (treasure_types cfg) = Inr two"
    and tl: "tools_per_hour r = float_mul (treasures_per_hour r) two" by blast
  have tools: "tools_per_hour r = Finite 0"
    using tl int_truediv_finite[OF two] by (simp add: t)
  have m: "mending_books_per_hour r = Finite 0"
    using ci_mending[OF r] fin(1) by (simp add: b)
  have ms: "mending_single_books r = Finite 0"
    using ci_mending_single[OF r] fin(2) by (simp add: m)
  have mm: "mending_multi_books r = Finite 0"
    using ci_mending_multi[OF r] fin(3) by (simp add: m)
  from ci_revenue_mending[OF r] obtain rm1 rm2 where
    "float_mul_int (Finite 0) (price_mending_single cfg) = Inr rm1"
    "float_mul_int (Finite 0) (price_mending_multi cfg) = Inr rm2"
    "revenue_mending r = float_add rm1 rm2" unfolding ms mm by blast
  then have rm: "revenue_mending r = Finite 0"
    by (auto dest!: float_mul_int_zero)
  have s: "sellable_non_mending_books r = Finite 0"
    using ci_sellable[OF r] fin(7) by (simp add: b)
  have z: "float_mul (Finite 0) (book_smite_only_rate cfg) = Finite 0"
    "float_mul (Finite 0) (book_bane_only_rate cfg) = Finite 0"
    "float_mul (Finite 0) (book_unb3_only_rate cfg) = Finite 0"
    using fin(4-6) by simp_all
  from ci_revenue_non_mending[OF r] obtain rn1 rn2 rn3 where
    "float_mul_int (Finite 0) (price_smite_only cfg) = Inr rn1"
    "float_mul_int (Finite 0) (price_bane_only cfg) = Inr rn2"
    "float_mul_int (Finite 0) (price_unb3_only cfg) = Inr rn3"
    "revenue_non_mending r = float_add (float_add rn1 rn2) rn3" unfolding b z by blast
  then have rn: "revenue_non_mending r = Finite 0"
    by (auto dest!: float_mul_int_zero)
  have g: "grind_books r = Finite 0"
    using ci_grind[OF r] by (simp add: b m s)
  have xb: "xp_from_books r = Finite 0"
    using ci_xp_from_books[OF r] fin(8,9) by (simp add: g)
  have yb: "yen_from_books r = Finite 0"
    using ci_yen_from_books[OF r] by (simp add: xb yr)
  have xt: "xp_from_tools r = Finite 0"
    using ci_xp_from_tools[OF r] fin(10,9) by (simp add: tools)
  have yt: "yen_from_tools r = Finite 0"
    using ci_yen_from_tools[OF r] by (simp add: xt yr)
  from c(1) obtain x where x: "catches_per_hour cfg = Finite x" by (rule is_finiteE)
  have f: "fish_per_hour r = catches_per_hour cfg"
    using ci_fish[OF r] c(2) by (simp add: rate x is_double_def)
  from r t b tools rm rn yb yt f show ?thesis by blast
qed

text \<open>Witness for C7: the default configuration with \<open>treasure_rate = 0.0\<close>.\<close>

theorem zero_treasure_boundary_witness:
  "treasure_rate (default_config\<lparr>treasure_rate := py_float 0\<rparr>) = Finite 0
   \<and> treasure_types (default_config\<lparr>treasure_rate := py_float 0\<rparr>) \<noteq> 0
   \<and> ints_fit (default_config\<lparr>treasure_rate := py_float 0\<rparr>)
   \<and> is_double (catches_per_hour (default_config\<lparr>treasure_rate := py_float 0\<rparr>))
   \<and> (\<exists>r. compute_income (default_config\<lparr>treasure_rate := py_float 0\<rparr>) = Inr r
        \<and> treasures_per_hour r = Finite 0 \<and> books_per_hour r = Finite 0
        \<and> tools_per_hour r = Finite 0
        \<and> revenue_mending r = Finite 0 \<and> revenue_non_mending r = Finite 0
        \<and> yen_from_books r = Finite 0 \<and> yen_from_tools r = Finite 0
        \<and> fish_per_hour r = py_float 500)"
proof -
  let ?c = "default_config\<lparr>treasure_rate := py_float 0\<rparr>"
  have w1: "py_float 40 = Finite 40"
    unfolding py_float_def by (rule round_double_evalI[where e = "5" and n = "5629499534213120"]) simp_all
  have w2: "py_float 12 = Finite 12"
    unfolding py_float_def by (rule round_double_evalI[where e = "3" and n = "6755399441055744"]) simp_all
  have w3: "float_truediv (Finite 40) (Finite 12) = Inr (Finite (7505999378950827 / 2251799813685248))"
    proof -
    have "round_double (40 / 12) = Finite (7505999378950827 / 2251799813685248)"
      by (rule round_double_evalI[where e = "1" and n = "7505999378950827"]) simp_all
    then show ?thesis by simp
  qed
  have w4: "py_float (74 / 10000) = Finite (2132904783522667 / 288230376151711744)"
    unfolding py_float_def by (rule round_double_evalI[where e = "- 8" and n = "8531619134090668"]) simp_all
  have w5: "py_float (49 / 10000) = Finite (2824657686286775 / 576460752303423488)"
    unfolding py_float_def by (rule round_double_evalI[where e = "- 8" and n = "5649315372573550"]) simp_all
  have w6: "py_float (143 / 10000) = Finite (2060847189484739 / 144115188075855872)"
    unfolding py_float_def by (rule round_double_evalI[where e = "- 7" and n = "8243388757938956"]) simp_all
  have w7: "float_add (Finite (2132904783522667 / 288230376151711744)) (Finite (2824657686286775 / 576460752303423488)) = Finite (7090467253332109 / 576460752303423488)"
    unfolding float_add.simps by (rule round_double_evalI[where e = "- 7" and n = "7090467253332109"]) simp_all
  have w8: "float_add (Finite (7090467253332109 / 576460752303423488)) (Finite (2060847189484739 / 144115188075855872)) = Finite (1916732001408883 / 72057594037927936)"
    unfolding float_add.simps by (rule round_double_evalI[where e = "- 6" and n = "7666928005635532"]) simp_all
  have w9: "py_float 500 = Finite 500"
    unfolding py_float_def by (rule round_double_evalI[where e = "8" and n = "8796093022208000"]) simp_all
  have w500: "round_double 500 = Finite 500"
    by (rule round_double_evalI[where e = "8" and n = "8796093022208000"]) simp_all
  have rate: "treasure_rate ?c = Finite 0" by simp
  have tt: "treasure_types ?c \<noteq> 0" by (simp add: default_config_def)
  have fits: "ints_fit ?c" by (simp add: ints_fit_def default_config_def int_fits_small)
  have yen: "float_truediv (xp_cash_numer ?c) (xp_cash_denom ?c)
      = Inr (Finite (7505999378950827 / 2251799813685248))"
    by (simp only: default_config_def Config.select_convs Config.update_convs w1 w2 w3)
  have c: "catches_per_hour ?c = py_float 500" by (simp add: default_config_def)
  have c1: "is_finite (catches_per_hour ?c)" by (simp only: c w9 is_finite.simps)
  have c2: "is_double (catches_per_hour ?c)" by (simp only: c w9) (simp add: is_double_def w500)
  have fin: "is_finite (book_mending_rate ?c)" "is_finite (book_mending_single_rate ?c)"
      "is_finite (book_mending_multi_rate ?c)"
      "is_finite (book_smite_only_rate ?c)" "is_finite (book_bane_only_rate ?c)"
      "is_finite (book_unb3_only_rate ?c)"
      "is_finite (avg_enchants_per_book ?c)" "is_finite (avg_xp_per_enchant ?c)"
      "is_finite (avg_enchants_per_tool ?c)"
    by (simp_all add: default_config_def py_float_finite)
  have sum: "is_finite (float_add (float_add (book_smite_only_rate ?c) (book_bane_only_rate ?c))
         (book_unb3_only_rate ?c))"
    by (simp only: default_config_def Config.select_convs Config.update_convs w4 w5 w6 w7 w8
        is_finite.simps)
  from zero_treasure_boundary[OF rate tt fits yen c1 c2 fin(1-6) sum fin(7-9)]
  show ?thesis using rate tt fits c2 by (simp only: c simp_thms)
qed

text \<open>
  Counterexample to C7 as stated: with \<open>treasure_rate = 0\<close> and \<open>treasure_types = 6\<close>, the
  call raises \<open>ZeroDivisionError\<close> when \<open>xp_cash_denom = 0.0\<close>, and it returns
  \<open>treasures_per_hour = nan\<close> when \<open>catches_per_hour\<close> is infinite.
\<close>

theorem zero_treasure_counterexample:
  "treasure_rate (default_config\<lparr>treasure_rate := py_float 0, xp_cash_denom := py_float 0\<rparr>)
     = Finite 0
   \<and> treasure_types (default_config\<lparr>treasure_rate := py_float 0, xp_cash_denom := py_float 0\<rparr>)
     = 6
   \<and> compute_income (default_config\<lparr>treasure_rate := py_float 0, xp_cash_denom := py_float 0\<rparr>)
     = Inl ZeroDivisionError
   \<and> treasure_rate (default_config\<lparr>catches_per_hour := PosInf, treasure_rate := py_float 0\<rparr>)
     = Finite 0
   \<and> compute_income (default_config\<lparr>catches_per_hour := PosInf, treasure_rate := py_float 0\<rparr>)
     = Inr result_zero_treasure_inf
   \<and> treasures_per_hour result_zero_treasure_inf = NaN"
proof -
  let ?c = "default_config\<lparr>treasure_rate := py_float 0, xp_cash_denom := py_float 0\<rparr>"
  have d: "xp_cash_denom ?c = Finite 0" by simp
  have z: "compute_income ?c = Inl ZeroDivisionError"
    unfolding compute_income_def by (simp only: d float_truediv_zero py_bind_Inl)
  have a: "treasure_rate ?c = Finite 0" "treasure_types ?c = 6"
    by (simp_all add: default_config_def)
  have b: "treasure_rate (default_config\<lparr>catches_per_hour := PosInf, treasure_rate := py_float 0\<rparr>)
     = Finite 0" by simp
  have n: "treasures_per_hour result_zero_treasure_inf = NaN"
    by (simp only: result_zero_treasure_inf_def Result.select_convs)
  from a z b run_zero_treasure_inf n show ?thesis by (intro conjI)
qed

section \<open>C8: nothing but treasure\<close>

text \<open>
  C8, as amended. For every configuration with \<open>treasure_rate = 1\<close>, nonzero
  \<open>xp_cash_denom\<close> and \<open>treasure_types\<close>, \<open>int\<close> fields that convert to \<open>float\<close>, and
  finite values for \<open>catches_per_hour\<close> and the four fish rates, \<open>compute_income\<close> returns
  a result with \<open>fish_per_hour\<close>, the four counts per type and \<open>revenue_fish\<close> all zero.
\<close>

theorem full_treasure_boundary:
  assumes rate: "treasure_rate cfg = Finite 1"
    and den: "xp_cash_denom cfg \<noteq> Finite 0"
    and tt: "treasure_types cfg \<noteq> 0" and fits: "ints_fit cfg"
    and c: "is_finite (catches_per_hour cfg)"
    and fin: "is_finite (fish_rate_cod cfg)" "is_finite (fish_rate_salmon cfg)"
      "is_finite (fish_rate_puffer cfg)" "is_finite (fish_rate_tropical cfg)"
  shows "\<exists>r. compute_income cfg = Inr r
    \<and> fish_per_hour r = Finite 0
    \<and> cod r = Finite 0 \<and> salmon r = Finite 0 \<and> puffer r = Finite 0 \<and> tropical r = Finite 0
    \<and> revenue_fish r = Finite 0"
proof -
  from compute_income_returns[OF den tt fits] obtain r where r: "compute_income cfg = Inr r"
    by blast
  have f: "fish_per_hour r = Finite 0"
    using ci_fish[OF r] c by (simp add: rate)
  have k: "cod r = Finite 0" "salmon r = Finite 0" "puffer r = Finite 0" "tropical r = Finite 0"
    using ci_cod[OF r] ci_salmon[OF r] ci_puffer[OF r] ci_tropical[OF r] fin by (simp_all add: f)
  from ci_revenue_fish[OF r] obtain rf1 rf2 rf3 rf4 where
    "float_mul_int (Finite 0) (fish_price_cod cfg) = Inr rf1"
    "float_mul_int (Finite 0) (fish_price_salmon cfg) = Inr rf2"
    "float_mul_int (Finite 0) (fish_price_puffer cfg) = Inr rf3"
    "float_mul_int (Finite 0) (fish_price_tropical cfg) = Inr rf4"
    "revenue_fish r = float_add (float_add (float_add rf1 rf2) rf3) rf4" unfolding k by blast
  then have rf: "revenue_fish r = Finite 0"
    by (auto dest!: float_mul_int_zero)
  from r f k rf show ?thesis by blast
qed

text \<open>Witness for C8: the default configuration with \<open>treasure_rate = 1.0\<close>.\<close>

theorem full_treasure_boundary_witness:
  "treasure_rate (default_config\<lparr>treasure_rate := py_float 1\<rparr>) = Finite 1
   \<and> xp_cash_denom (default_config\<lparr>treasure_rate := py_float 1\<rparr>) \<noteq> Finite 0
   \<and> treasure_types (default_config\<lparr>treasure_rate := py_float 1\<rparr>) \<noteq> 0
   \<and> ints_fit (default_config\<lparr>treasure_rate := py_float 1\<rparr>)
   \<and> (\<exists>r. compute_income (default_config\<lparr>treasure_rate := py_float 1\<rparr>) = Inr r
        \<and> fish_per_hour r = Finite 0
        \<and> cod r = Finite 0 \<and> salmon r = Finite 0 \<and> puffer r = Finite 0
        \<and> tropical r = Finite 0
        \<and> revenue_fish r = Finite 0)"
proof -
  let ?c = "default_config\<lparr>treasure_rate := py_float 1\<rparr>"
  have rate: "treasure_rate ?c = Finite 1" by simp
  have den: "xp_cash_denom ?c \<noteq> Finite 0" by (simp add: default_config_def py_float_12)
  have tt: "treasure_types ?c \<noteq> 0" by (simp add: default_config_def)
  have fits: "ints_fit ?c" by (simp add: ints_fit_def default_config_def int_fits_small)
  have fin: "is_finite (catches_per_hour ?c)"
      "is_finite (fish_rate_cod ?c)" "is_finite (fish_rate_salmon ?c)"
      "is_finite (fish_rate_puffer ?c)" "is_finite (fish_rate_tropical ?c)"
    by (simp_all add: default_config_def py_float_finite)
  from full_treasure_boundary[OF rate den tt fits fin]
  show ?thesis using rate den tt fits by (simp only: simp_thms)
qed

text \<open>
  Counterexample to C8 as stated: with \<open>treasure_rate = 1\<close>, the call raises
  \<open>ZeroDivisionError\<close> when \<open>treasure_types = 0\<close>, and it returns \<open>fish_per_hour = nan\<close>
  and \<open>revenue_fish = nan\<close> when \<open>catches_per_hour\<close> is infinite.
\<close>

theorem full_treasure_counterexample:
  "treasure_rate (default_config\<lparr>treasure_rate := py_float 1, treasure_types := 0\<rparr>) = Finite 1
   \<and> compute_income (default_config\<lparr>treasure_rate := py_float 1, treasure_types := 0\<rparr>)
     = Inl ZeroDivisionError
   \<and> treasure_rate (default_config\<lparr>catches_per_hour := PosInf, treasure_rate := py_float 1\<rparr>)
     = Finite 1
   \<and> compute_income (default_config\<lparr>catches_per_hour := PosInf, treasure_rate := py_float 1\<rparr>)
     = Inr result_full_treasure_inf
   \<and> fish_per_hour result_full_treasure_inf = NaN
   \<and> revenue_fish result_full_treasure_inf = NaN"
proof -
  let ?c = "default_config\<lparr>treasure_rate := py_float 1, treasure_types := 0\<rparr>"
  have "xp_cash_denom ?c \<noteq> Finite 0" by (simp add: default_config_def py_float_12)
  then obtain q where q: "float_truediv (xp_cash_numer ?c) (xp_cash_denom ?c) = Inr q"
    using float_truediv_nonzero by blast
  have tt: "treasure_types ?c = 0" by simp
  have z: "compute_income ?c = Inl ZeroDivisionError"
    unfolding compute_income_def
    by (simp only: q tt float_truediv_int_zero py_bind_Inl py_bind_Inr Let_def)
  have a: "treasure_rate ?c = Finite 1" by simp
  have b: "treasure_rate (default_config\<lparr>catches_per_hour := PosInf, treasure_rate := py_float 1\<rparr>)
     = Finite 1" by simp
  have n: "fish_per_hour result_full_treasure_inf = NaN"
    "revenue_fish result_full_treasure_inf = NaN"
    by (simp_all only: result_full_treasure_inf_def Result.select_convs)
  from a z b run_full_treasure_inf n show ?thesis by (intro conjI)
qed

section \<open>C9: purity\<close>

text \<open>
  C9. \<open>compute_income\<close> changes no field of the configuration object it is given, whether
  it returns or raises; its outcome is a function of the configuration alone; and a second
  call on the same object, after the first, has the same outcome and again leaves the object
  as it was.
\<close>

theorem compute_income_prog_pure:
  "snd (compute_income_prog cfg) = cfg
   \<and> fst (compute_income_prog cfg) = compute_income cfg
   \<and> fst (compute_income_prog (snd (compute_income_prog cfg))) = fst (compute_income_prog cfg)
   \<and> snd (compute_income_prog (snd (compute_income_prog cfg))) = cfg"
proof -
  from compute_income_prog_preserves have p: "snd (compute_income_prog s) = s" for s
    by (simp add: preserves_config_def)
  have q: "fst (compute_income_prog cfg) = compute_income cfg"
    by (simp only: compute_income_prog_eq fst_conv)
  from p q show ?thesis by (simp only: simp_thms)
qed

text \<open>Witness for C9: two calls in a row on the default configuration.\<close>

theorem compute_income_prog_pure_witness:
  "snd (compute_income_prog default_config) = default_config
   \<and> fst (compute_income_prog default_config) = Inr default_result
   \<and> fst (compute_income_prog (snd (compute_income_prog default_config))) = Inr default_result"
  using compute_income_prog_pure[of default_config] default_run by simp

section \<open>C10: tools and books\<close>

text \<open>
  C10, as amended. For every configuration with \<open>treasure_types\<close> nonzero and below
  \<open>2^53\<close> in magnitude on which \<open>compute_income\<close> returns finite \<open>books_per_hour\<close> and
  \<open>tools_per_hour\<close>, \<open>tools_per_hour\<close> differs from \<open>2 * books_per_hour\<close> by at most
  \<open>2^-50 * |books_per_hour| + 2^-1073\<close>.
\<close>

theorem tools_twice_books_up_to_rounding:
  assumes r: "compute_income cfg = Inr r"
    and n: "\<bar>treasure_types cfg\<bar> < 2 ^ 53"
    and b: "books_per_hour r = Finite b" and l: "tools_per_hour r = Finite l"
  shows "\<bar>l - 2 * b\<bar> \<le> \<bar>b\<bar> / 2 ^ 50 + 2 powi (- 1073)"
proof -
  define n' :: rat where "n' = of_int (treasure_types cfg)"
  from ci_tools[OF r] obtain two where two: "int_truediv 2 (treasure_types cfg) = Inr two"
    and tl: "tools_per_hour r = float_mul (treasures_per_hour r) two" by blast
  from tl[symmetric] obtain tv w where tv: "treasures_per_hour r = Finite tv"
    and w: "two = Finite w" and rl: "round_double (tv * w) = Finite l"
    unfolding l by (rule float_mul_FiniteD)
  from two have nz: "treasure_types cfg \<noteq> 0" by (auto simp: int_truediv_def)
  then have nz': "n' \<noteq> 0" by (simp add: n'_def)
  from two nz have rw: "round_double (2 / n') = Finite w"
    unfolding w n'_def by (cases "round_double (2 / of_int (treasure_types cfg))")
      (simp_all add: int_truediv_def)
  have big: "\<bar>n'\<bar> < 2 ^ 53"
  proof -
    have "\<bar>n'\<bar> = of_int \<bar>treasure_types cfg\<bar>" by (simp add: n'_def)
    also have "\<dots> < of_int (2 ^ 53)" using n by (simp only: of_int_less_iff)
    finally show ?thesis by simp
  qed
  have fn: "round_double n' = Finite n'"
    unfolding n'_def
  proof (rule round_double_exact[where m = "treasure_types cfg" and k = 0])
    show "\<bar>rat_of_int (treasure_types cfg)\<bar> < 2 ^ 1024"
    proof -
      have "\<bar>rat_of_int (treasure_types cfg)\<bar> < 2 ^ 53" using big by (simp add: n'_def)
      also have "\<dots> < (2::rat) ^ 1024" by simp
      finally show ?thesis .
    qed
  qed (use n in simp_all)
  from ci_books[OF r] have "float_truediv (Finite tv) (Finite n') = Inr (Finite b)"
    unfolding tv b by (simp add: float_truediv_int_def float_of_int_def fn[unfolded n'_def] n'_def)
  then have rb: "round_double (tv / n') = Finite b" using nz' by simp
  have "2 powi (- 1022) \<le> \<bar>2 / n'\<bar>"
  proof -
    have "(2::rat) powi (- 1022) \<le> 2 powi (- 52)" by (simp only: two_powi_le_iff)
    also have "\<dots> = 2 / 2 ^ 53" by (simp add: power_int_minus)
    also have "\<dots> \<le> 2 / \<bar>n'\<bar>" using big nz' by (intro divide_left_mono) simp_all
    also have "\<dots> = \<bar>2 / n'\<bar>" by simp
    finally show ?thesis .
  qed
  with rw have ew: "\<bar>w - 2 / n'\<bar> \<le> \<bar>2 / n'\<bar> / 2 ^ 53" by (rule round_double_error_normal)
  have "tv * w - 2 * (tv / n') = tv * (w - 2 / n')" by (simp add: algebra_simps)
  then have "\<bar>tv * w - 2 * (tv / n')\<bar> = \<bar>tv\<bar> * \<bar>w - 2 / n'\<bar>" by (simp only: abs_mult)
  also have "\<dots> \<le> \<bar>tv\<bar> * (\<bar>2 / n'\<bar> / 2 ^ 53)" using ew by (intro mult_left_mono) simp_all
  also have "\<dots> = 2 * \<bar>tv / n'\<bar> / 2 ^ 53" by (simp add: abs_mult)
  finally have 1: "\<bar>tv * w - 2 * (tv / n')\<bar> \<le> 2 * \<bar>tv / n'\<bar> / 2 ^ 53" .
  note 2 = round_double_error[OF rl] and 3 = round_double_error[OF rb]
  have "\<bar>l - 2 * b\<bar> \<le> \<bar>b\<bar> / 2 ^ 50 + 4 * 2 powi (- 1075)"
    using 1 2 3 by (rule tools_books_arith) simp
  also have "4 * (2::rat) powi (- 1075) = 2 powi 2 * 2 powi (- 1075)" by simp
  also have "\<dots> = 2 powi (- 1073)" by (simp only: two_powi_add) simp
  finally show ?thesis .
qed

text \<open>Witness for C10: the run with \<open>catches_per_hour = 5000\<close>, where the two differ.\<close>

theorem tools_twice_books_up_to_rounding_witness:
  "compute_income (default_config\<lparr>catches_per_hour := py_float 5000\<rparr>) = Inr result_5000
   \<and> \<bar>treasure_types (default_config\<lparr>catches_per_hour := py_float 5000\<rparr>)\<bar> < 2 ^ 53
   \<and> books_per_hour result_5000 = Finite (6626390076730027 / 70368744177664)
   \<and> tools_per_hour result_5000 = Finite (3313195038365013 / 17592186044416)
   \<and> \<bar>3313195038365013 / 17592186044416 - 2 * (6626390076730027 / 70368744177664) :: rat\<bar>
       \<le> \<bar>6626390076730027 / 70368744177664\<bar> / 2 ^ 50 + 2 powi (- 1073)"
proof -
  have n: "\<bar>treasure_types (default_config\<lparr>catches_per_hour := py_float 5000\<rparr>)\<bar> < 2 ^ 53"
    by (simp add: default_config_def)
  have b: "books_per_hour result_5000 = Finite (6626390076730027 / 70368744177664)"
    and l: "tools_per_hour result_5000 = Finite (3313195038365013 / 17592186044416)"
    by (simp_all only: result_5000_def Result.select_convs)
  from run_5000 n b l tools_twice_books_up_to_rounding[OF run_5000 n b l]
  show ?thesis by (intro conjI)
qed

text \<open>
  Counterexample to C10 as stated: on the default configuration with
  \<open>catches_per_hour = 5000\<close>, \<open>tools_per_hour\<close> is 188.33333333333331 and
  \<open>2 * books_per_hour\<close> is 188.33333333333334.
\<close>

theorem tools_twice_books_counterexample:
  "compute_income (default_config\<lparr>catches_per_hour := py_float 5000\<rparr>) = Inr result_5000
   \<and> tools_per_hour result_5000 = Finite (3313195038365013 / 17592186044416)
   \<and> float_mul (Finite 2) (books_per_hour result_5000)
       = Finite (6626390076730027 / 35184372088832)
   \<and> Finite (3313195038365013 / 17592186044416) \<noteq> Finite (6626390076730027 / 35184372088832)"
proof -
  have h1: "float_mul (Finite 2) (Finite (6626390076730027 / 70368744177664)) = Finite (6626390076730027 / 35184372088832)"
    unfolding float_mul.simps by (rule round_double_evalI[where e = "7" and n = "6626390076730027"]) simp_all
  have t: "tools_per_hour result_5000 = Finite (3313195038365013 / 17592186044416)"
    by (simp only: result_5000_def Result.select_convs)
  have b: "float_mul (Finite 2) (books_per_hour result_5000)
       = Finite (6626390076730027 / 35184372088832)"
    by (simp only: result_5000_def Result.select_convs h1)
  have ne: "Finite (3313195038365013 / 17592186044416)
      \<noteq> Finite (6626390076730027 / 35184372088832)"
    by simp
  from run_5000 t b ne show ?thesis by (intro conjI)
qed

end
